theory Spec2Isabelle
  imports Main "HOL-Library.Word"
begin

section \<open>Tokens (token.h)\<close>

text \<open>
  The enum class \<open>TokenType\<close> of token.h.  The header lists its enumerators in
  groups (special tokens, literals, keywords, operators, punctuation); the keyword and the
  operator group are datatypes of their own here, wrapped by \<open>KW\<close> and \<open>OP\<close>, so that
  \<open>KW KW_INT\<close> stands for \<open>TokenType::KW_INT\<close> and \<open>OP OP_PLUS\<close> for
  \<open>TokenType::OP_PLUS\<close>.
\<close>

datatype (plugins only: code) Keyword =
  KW_AUTO | KW_BREAK | KW_CASE | KW_CHAR | KW_CONST | KW_CONTINUE | KW_DEFAULT | KW_DO
| KW_DOUBLE | KW_ELSE | KW_ENUM | KW_EXTERN | KW_FLOAT | KW_FOR | KW_GOTO | KW_IF | KW_INT
| KW_LONG | KW_REGISTER | KW_RETURN | KW_SHORT | KW_SIGNED | KW_SIZEOF | KW_STATIC
| KW_STRUCT | KW_SWITCH | KW_TYPEDEF | KW_UNION | KW_UNSIGNED | KW_VOID | KW_VOLATILE
| KW_WHILE

datatype (plugins only: code) Operator =
  OP_PLUS | OP_MINUS | OP_STAR | OP_SLASH | OP_PERCENT | OP_AMPERSAND | OP_PIPE | OP_CARET
| OP_TILDE | OP_EXCLAMATION | OP_EQUALS | OP_LESS | OP_GREATER | OP_DOT | OP_ARROW
| OP_PLUS_PLUS | OP_MINUS_MINUS | OP_PLUS_EQUALS | OP_MINUS_EQUALS | OP_STAR_EQUALS
| OP_SLASH_EQUALS | OP_PERCENT_EQUALS | OP_AND_EQUALS | OP_OR_EQUALS | OP_XOR_EQUALS
| OP_SHL_EQUALS | OP_SHR_EQUALS | OP_EQUALS_EQUALS | OP_NOT_EQUALS | OP_LESS_EQUALS
| OP_GREATER_EQUALS | OP_SHL | OP_SHR | OP_LOGICAL_AND | OP_LOGICAL_OR | OP_QUESTION

datatype (plugins only: code) TokenType =
  END_OF_FILE | UNKNOWN
| IDENTIFIER | INTEGER_LITERAL | FLOAT_LITERAL | STRING_LITERAL | CHAR_LITERAL
| KW Keyword
| OP Operator
| SEMICOLON | COLON | COMMA | LEFT_PAREN | RIGHT_PAREN | LEFT_BRACE | RIGHT_BRACE
| LEFT_BRACKET | RIGHT_BRACKET | HASH | ELLIPSIS

text \<open>struct Token: \<open>(type, lexeme, filename, line, column)\<close>.\<close>

record Token =
  tk_type :: TokenType
  tk_lexeme :: string
  tk_filename :: string
  tk_line :: int
  tk_column :: int

definition mkToken :: "TokenType \<Rightarrow> string \<Rightarrow> string \<Rightarrow> int \<Rightarrow> int \<Rightarrow> Token" where
  "mkToken ty lx fn li co =
     \<lparr>tk_type = ty, tk_lexeme = lx, tk_filename = fn, tk_line = li, tk_column = co\<rparr>"

text \<open>The table \<open>Keywords\<close> of token.cpp, in the order of the source.\<close>

definition Keywords :: "(string \<times> TokenType) list" where
  "Keywords =
    [(''auto'', KW KW_AUTO), (''break'', KW KW_BREAK), (''case'', KW KW_CASE),
     (''char'', KW KW_CHAR), (''const'', KW KW_CONST), (''continue'', KW KW_CONTINUE),
     (''default'', KW KW_DEFAULT), (''do'', KW KW_DO), (''double'', KW KW_DOUBLE),
     (''else'', KW KW_ELSE), (''enum'', KW KW_ENUM), (''extern'', KW KW_EXTERN),
     (''float'', KW KW_FLOAT), (''for'', KW KW_FOR), (''goto'', KW KW_GOTO),
     (''if'', KW KW_IF), (''int'', KW KW_INT), (''long'', KW KW_LONG),
     (''register'', KW KW_REGISTER), (''return'', KW KW_RETURN), (''short'', KW KW_SHORT),
     (''signed'', KW KW_SIGNED), (''sizeof'', KW KW_SIZEOF), (''static'', KW KW_STATIC),
     (''struct'', KW KW_STRUCT), (''switch'', KW KW_SWITCH), (''typedef'', KW KW_TYPEDEF),
     (''union'', KW KW_UNION), (''unsigned'', KW KW_UNSIGNED), (''void'', KW KW_VOID),
     (''volatile'', KW KW_VOLATILE), (''while'', KW KW_WHILE)]"

section \<open>Diagnostics (error.h)\<close>

datatype ErrorLevel = INFO | WARNING | ERROR

record ErrorEntry =
  ee_level :: ErrorLevel
  ee_message :: string
  ee_filename :: string
  ee_line :: int
  ee_column :: int

text \<open>class ErrorHandler: the list of entries, the current file name and the sticky flag.\<close>

record ErrorHandler =
  errors :: "ErrorEntry list"
  currentFilename :: string
  hadError :: bool

definition newErrorHandler :: ErrorHandler where
  "newErrorHandler = \<lparr>errors = [], currentFilename = [], hadError = False\<rparr>"

definition addError ::
  "ErrorLevel \<Rightarrow> string \<Rightarrow> string \<Rightarrow> int \<Rightarrow> int \<Rightarrow> ErrorHandler \<Rightarrow> ErrorHandler" where
  "addError lvl msg fn li co eh =
     eh\<lparr>errors := errors eh @
            [\<lparr>ee_level = lvl, ee_message = msg,
              ee_filename = (if fn = [] then currentFilename eh else fn),
              ee_line = li, ee_column = co\<rparr>],
        hadError := (if lvl = ERROR then True else hadError eh)\<rparr>"

text \<open>
  \<open>info\<close>, \<open>warning\<close> and \<open>error\<close> are always called with the default (empty) file
  name in this repository.
\<close>

definition info :: "int \<Rightarrow> int \<Rightarrow> string \<Rightarrow> ErrorHandler \<Rightarrow> ErrorHandler" where
  "info li co msg eh = addError INFO msg [] li co eh"

definition warning :: "int \<Rightarrow> int \<Rightarrow> string \<Rightarrow> ErrorHandler \<Rightarrow> ErrorHandler" where
  "warning li co msg eh = addError WARNING msg [] li co eh"

definition error :: "int \<Rightarrow> int \<Rightarrow> string \<Rightarrow> ErrorHandler \<Rightarrow> ErrorHandler" where
  "error li co msg eh = (addError ERROR msg [] li co eh)\<lparr>hadError := True\<rparr>"

definition hasErrors :: "ErrorHandler \<Rightarrow> bool" where
  "hasErrors eh = hadError eh"

definition errorCount :: "ErrorHandler \<Rightarrow> nat" where
  "errorCount eh = length (filter (\<lambda>e. ee_level e = ERROR) (errors eh))"

definition warningCount :: "ErrorHandler \<Rightarrow> nat" where
  "warningCount eh = length (filter (\<lambda>e. ee_level e = WARNING) (errors eh))"

text \<open>
  What leaves a function other than by its return: the C++ exceptions thrown in the
  repository and by the standard library calls it makes, and undefined behaviour (the
  dereference of a null pointer, an index out of range), which the model treats as a crash.
\<close>

datatype Exn = RuntimeError string | InvalidArgument | OutOfRange | UndefinedBehaviour

section \<open>Semantic types and the symbol table (semantic.h, semantic.cpp)\<close>

text \<open>
  \<open>TypeInfo::Kind\<close>; \<open>K_INT\<close> is \<open>TypeInfo::Kind::K_INT\<close>, and so on (the prefix keeps the
  names apart from those of \<open>SymbolInfo::Kind\<close> and of the logic).
\<close>

datatype Kind =
  K_VOID | K_CHAR | K_INT | K_FLOAT | K_DOUBLE | K_STRUCT | K_ARRAY | K_POINTER | K_FUNCTION

text \<open>
  struct TypeInfo.  \<open>base\<close> is the \<open>unique_ptr\<close> of the source (\<open>None\<close> is the null
  pointer); the copy constructor copies deeply, so a value of the datatype is a copy.
\<close>

datatype TypeInfo =
  TypeInfo (ti_kind: Kind) (ti_isConst: bool) (ti_isVolatile: bool) (ti_size: int)
           (ti_base: "TypeInfo option") (ti_parameters: "TypeInfo list")

definition isScalar :: "TypeInfo \<Rightarrow> bool" where
  "isScalar t = (ti_kind t = K_CHAR \<or> ti_kind t = K_INT \<or> ti_kind t = K_FLOAT \<or>
                 ti_kind t = K_DOUBLE \<or> ti_kind t = K_POINTER)"

definition isNumeric :: "TypeInfo \<Rightarrow> bool" where
  "isNumeric t = (ti_kind t = K_CHAR \<or> ti_kind t = K_INT \<or> ti_kind t = K_FLOAT \<or>
                  ti_kind t = K_DOUBLE)"

definition isInteger :: "TypeInfo \<Rightarrow> bool" where
  "isInteger t = (ti_kind t = K_CHAR \<or> ti_kind t = K_INT)"

definition isFloatingPoint :: "TypeInfo \<Rightarrow> bool" where
  "isFloatingPoint t = (ti_kind t = K_FLOAT \<or> ti_kind t = K_DOUBLE)"

definition createVoid :: TypeInfo where
  "createVoid = TypeInfo K_VOID False False 0 None []"

definition createChar :: TypeInfo where
  "createChar = TypeInfo K_CHAR False False 1 None []"

definition createInt :: TypeInfo where
  "createInt = TypeInfo K_INT False False 4 None []"

definition createFloat :: TypeInfo where
  "createFloat = TypeInfo K_FLOAT False False 4 None []"

definition createDouble :: TypeInfo where
  "createDouble = TypeInfo K_DOUBLE False False 8 None []"

definition createPointer :: "TypeInfo \<Rightarrow> TypeInfo" where
  "createPointer baseType = TypeInfo K_POINTER False False 8 (Some baseType) []"

definition createArray :: "TypeInfo \<Rightarrow> int \<Rightarrow> TypeInfo" where
  "createArray elementType n =
     TypeInfo K_ARRAY False False (ti_size elementType * n) (Some elementType) []"

definition createFunction :: "TypeInfo \<Rightarrow> TypeInfo list \<Rightarrow> TypeInfo" where
  "createFunction returnType paramTypes =
     TypeInfo K_FUNCTION False False 0 (Some returnType) paramTypes"

text \<open>
  SemanticAnalyzer::areTypesCompatible.  For two types of the same compound kind the
  source dereferences both \<open>base\<close> pointers; a null one there is \<open>UndefinedBehaviour\<close>.
\<close>

fun areTypesCompatible :: "TypeInfo \<Rightarrow> TypeInfo \<Rightarrow> Exn + bool" where
  "areTypesCompatible (TypeInfo sk sc sv ss sb sp) (TypeInfo tk tc tv ts tb tp) =
     (if sk = tk then
        (if sk = K_ARRAY \<or> sk = K_POINTER \<or> sk = K_FUNCTION then
           (case sb of
              None \<Rightarrow> Inl UndefinedBehaviour
            | Some s' \<Rightarrow>
               (case tb of
                  None \<Rightarrow> Inl UndefinedBehaviour
                | Some t' \<Rightarrow> areTypesCompatible s' t'))
         else Inr True)
      else if sk = K_CHAR \<and> tk = K_INT then Inr True
      else if sk = K_FLOAT \<and> tk = K_DOUBLE then Inr True
      else if (sk = K_CHAR \<or> sk = K_INT) \<and> (tk = K_FLOAT \<or> tk = K_DOUBLE) then Inr True
      else if sk = K_ARRAY \<and> tk = K_POINTER then
        (case sb of
           None \<Rightarrow> Inl UndefinedBehaviour
         | Some s' \<Rightarrow>
            (case tb of
               None \<Rightarrow> Inl UndefinedBehaviour
             | Some t' \<Rightarrow> areTypesCompatible s' t'))
      else Inr False)"

text \<open>SemanticAnalyzer::getCommonType.\<close>

definition getCommonType :: "TypeInfo \<Rightarrow> TypeInfo \<Rightarrow> TypeInfo" where
  "getCommonType a b =
     (if ti_kind a = ti_kind b then a
      else if ti_kind a = K_DOUBLE \<or> ti_kind b = K_DOUBLE then createDouble
      else if ti_kind a = K_FLOAT \<or> ti_kind b = K_FLOAT then createFloat
      else if isInteger a \<and> isInteger b then (if ti_size a \<ge> ti_size b then a else b)
      else a)"

text \<open>
  The byte size every constructor of this repository gives a numeric type
  (\<open>createChar\<close>, \<open>createInt\<close>, \<open>createFloat\<close>, \<open>createDouble\<close> and
  \<open>getTypeFromTypeNode\<close>): char 1, int 4, float 4, double 8.
\<close>

definition numericSize :: "Kind \<Rightarrow> int" where
  "numericSize k = (if k = K_CHAR then 1 else if k = K_INT then 4 else if k = K_FLOAT then 4
                    else if k = K_DOUBLE then 8 else 0)"

definition sizedNumeric :: "TypeInfo \<Rightarrow> bool" where
  "sizedNumeric t = (isNumeric t \<and> ti_size t = numericSize (ti_kind t))"

datatype SymbolKind = VARIABLE | FUNCTION | PARAMETER | TYPEDEF

text \<open>struct SymbolInfo.\<close>

record SymbolInfo =
  si_kind :: SymbolKind
  si_type :: TypeInfo
  si_name :: string
  si_scopeLevel :: nat

text \<open>
  class SymbolTable: \<open>scopes\<close> is the vector of frames, frame 0 the global one, and
  \<open>currentScope\<close> the index of the top frame.  The class keeps
  \<open>currentScope < scopes.size()\<close> (see \<open>table_ok\<close> below), so that the indexed
  accesses of the source are in range; the model's \<open>!\<close> and \<open>list_update\<close> are
  only ever used under that invariant.
\<close>

record SymbolTable =
  scopes :: "(string \<rightharpoonup> SymbolInfo) list"
  currentScope :: nat

definition newSymbolTable :: SymbolTable where
  "newSymbolTable = \<lparr>scopes = [Map.empty], currentScope = 0\<rparr>"

definition table_ok :: "SymbolTable \<Rightarrow> bool" where
  "table_ok st = (currentScope st < length (scopes st))"

definition enterScope :: "SymbolTable \<Rightarrow> SymbolTable" where
  "enterScope st =
     (let c = currentScope st + 1 in
      if c \<ge> length (scopes st)
      then st\<lparr>currentScope := c, scopes := scopes st @ [Map.empty]\<rparr>
      else st\<lparr>currentScope := c\<rparr>)"

definition leaveScope :: "SymbolTable \<Rightarrow> Exn + SymbolTable" where
  "leaveScope st =
     (if currentScope st = 0 then Inl (RuntimeError ''Cannot leave global scope'')
      else Inr (st\<lparr>currentScope := currentScope st - 1\<rparr>))"

definition currentScopeLevel :: "SymbolTable \<Rightarrow> nat" where
  "currentScopeLevel st = currentScope st"

definition addVariable :: "string \<Rightarrow> TypeInfo \<Rightarrow> SymbolTable \<Rightarrow> SymbolTable" where
  "addVariable name ty st =
     st\<lparr>scopes := (scopes st)[currentScope st :=
          (scopes st ! currentScope st)(name \<mapsto>
             \<lparr>si_kind = VARIABLE, si_type = ty, si_name = name,
              si_scopeLevel = currentScope st\<rparr>)]\<rparr>"

definition addFunction :: "string \<Rightarrow> TypeInfo \<Rightarrow> SymbolTable \<Rightarrow> SymbolTable" where
  "addFunction name ty st =
     st\<lparr>scopes := (scopes st)[0 :=
          (scopes st ! 0)(name \<mapsto>
             \<lparr>si_kind = FUNCTION, si_type = ty, si_name = name, si_scopeLevel = 0\<rparr>)]\<rparr>"

definition addParameter :: "string \<Rightarrow> TypeInfo \<Rightarrow> SymbolTable \<Rightarrow> SymbolTable" where
  "addParameter name ty st =
     st\<lparr>scopes := (scopes st)[currentScope st :=
          (scopes st ! currentScope st)(name \<mapsto>
             \<lparr>si_kind = PARAMETER, si_type = ty, si_name = name,
              si_scopeLevel = currentScope st\<rparr>)]\<rparr>"

definition addTypedef :: "string \<Rightarrow> TypeInfo \<Rightarrow> SymbolTable \<Rightarrow> SymbolTable" where
  "addTypedef name ty st =
     st\<lparr>scopes := (scopes st)[currentScope st :=
          (scopes st ! currentScope st)(name \<mapsto>
             \<lparr>si_kind = TYPEDEF, si_type = ty, si_name = name,
              si_scopeLevel = currentScope st\<rparr>)]\<rparr>"

text \<open>The loop \<open>for (int i = currentScope; i >= 0; i--)\<close> of \<open>lookup\<close> and \<open>exists\<close>.\<close>

fun lookupFrom :: "(string \<rightharpoonup> SymbolInfo) list \<Rightarrow> nat \<Rightarrow> string \<Rightarrow> SymbolInfo option" where
  "lookupFrom scs 0 name = (scs ! 0) name"
| "lookupFrom scs (Suc i) name =
     (case (scs ! Suc i) name of
        Some s \<Rightarrow> Some s
      | None \<Rightarrow> lookupFrom scs i name)"

definition lookup :: "string \<Rightarrow> SymbolTable \<Rightarrow> SymbolInfo option" where
  "lookup name st = lookupFrom (scopes st) (currentScope st) name"

definition exists :: "string \<Rightarrow> SymbolTable \<Rightarrow> bool" where
  "exists name st = (lookupFrom (scopes st) (currentScope st) name \<noteq> None)"

definition existsInCurrentScope :: "string \<Rightarrow> SymbolTable \<Rightarrow> bool" where
  "existsInCurrentScope name st = ((scopes st ! currentScope st) name \<noteq> None)"

definition clear :: "SymbolTable \<Rightarrow> SymbolTable" where
  "clear st = \<lparr>scopes = [Map.empty], currentScope = 0\<rparr>"

section \<open>The syntax tree (ast.h)\<close>

text \<open>
  A pointer to an \<open>ExpressionNode\<close>; \<open>NullExpr\<close> is the null pointer, which the
  semantic analyzer and the code generator both test for.  The other constructors are the
  subclasses of the header, each with its members in the order of its constructor.
\<close>

datatype ExpressionNode =
    NullExpr
  | LiteralNode Token
  | VariableNode Token
  | UnaryNode Token ExpressionNode
  | BinaryNode ExpressionNode Token ExpressionNode
  | CallNode ExpressionNode "ExpressionNode list"
  | ArrayAccessNode ExpressionNode ExpressionNode
  | MemberAccessNode ExpressionNode Token Token
  | ConditionalNode ExpressionNode ExpressionNode ExpressionNode

record TypeNode =
  tn_name :: Token
  tn_isConst :: bool
  tn_isVolatile :: bool
  tn_isPointer :: bool
  tn_pointerLevel :: nat

text \<open>
  The subclasses of \<open>StatementNode\<close>.  The members that the parser leaves null when
  the construct is absent (the else branch, the initializer of a for loop) are options; an
  absent expression is \<open>NullExpr\<close>.  The bodies of if, while, do and for are never null
  in a tree the parser builds, and the analyzer dereferences them unchecked.
\<close>

datatype StatementNode =
    ExpressionStatementNode ExpressionNode
  | BlockNode "StatementNode list"
  | VariableDeclarationNode TypeNode Token ExpressionNode
  | IfNode ExpressionNode StatementNode "StatementNode option"
  | WhileNode ExpressionNode StatementNode
  | DoWhileNode StatementNode ExpressionNode
  | ForNode "StatementNode option" ExpressionNode ExpressionNode StatementNode
  | ReturnNode ExpressionNode
  | BreakNode
  | ContinueNode

record ParameterNode =
  pn_type :: TypeNode
  pn_name :: Token

text \<open>
  The two kinds of top-level declaration the parser builds.  The body of a function is
  a pointer to a \<open>BlockNode\<close>: \<open>None\<close> for a prototype, else the block's statements.
\<close>

datatype Declaration =
    FunctionDeclarationNode TypeNode Token "ParameterNode list" "StatementNode list option"
  | VariableDeclaration TypeNode Token ExpressionNode

text \<open>\<open>ProgramNode\<close>: the root the parser returns (\<open>None\<close> is the null root).\<close>

type_synonym ProgramNode = "Declaration list"

section \<open>Semantic analysis (semantic.cpp)\<close>

record SemanticAnalyzer =
  sa_errorHandler :: ErrorHandler
  symbolTable :: SymbolTable
  currentFunctionReturnType :: "TypeInfo option"
  hasReturn :: bool

definition sa_error :: "int \<Rightarrow> int \<Rightarrow> string \<Rightarrow> SemanticAnalyzer \<Rightarrow> SemanticAnalyzer" where
  "sa_error li co msg a = a\<lparr>sa_errorHandler := error li co msg (sa_errorHandler a)\<rparr>"

definition sa_warning :: "int \<Rightarrow> int \<Rightarrow> string \<Rightarrow> SemanticAnalyzer \<Rightarrow> SemanticAnalyzer" where
  "sa_warning li co msg a = a\<lparr>sa_errorHandler := warning li co msg (sa_errorHandler a)\<rparr>"

text \<open>\<open>std::to_string\<close> of an int, used in one diagnostic of \<open>visitVariableDeclaration\<close>.\<close>

fun digitsOf :: "nat \<Rightarrow> nat \<Rightarrow> string" where
  "digitsOf 0 n = []"
| "digitsOf (Suc fuel) n =
     (if n < 10 then [char_of (48 + n)]
      else digitsOf fuel (n div 10) @ [char_of (48 + n mod 10)])"

definition to_string :: "nat \<Rightarrow> string" where
  "to_string n = digitsOf (Suc n) n"

definition kindNumber :: "Kind \<Rightarrow> nat" where
  "kindNumber k = (case k of K_VOID \<Rightarrow> 0 | K_CHAR \<Rightarrow> 1 | K_INT \<Rightarrow> 2 | K_FLOAT \<Rightarrow> 3
     | K_DOUBLE \<Rightarrow> 4 | K_STRUCT \<Rightarrow> 5 | K_ARRAY \<Rightarrow> 6 | K_POINTER \<Rightarrow> 7 | K_FUNCTION \<Rightarrow> 8)"

text \<open>The loop \<open>for (i < pointerLevel) result = createPointer(result)\<close>.\<close>

fun wrapPointers :: "nat \<Rightarrow> TypeInfo \<Rightarrow> TypeInfo" where
  "wrapPointers 0 t = t"
| "wrapPointers (Suc n) t = wrapPointers n (createPointer t)"

definition getTypeFromTypeNode :: "TypeNode \<Rightarrow> SemanticAnalyzer \<Rightarrow> TypeInfo \<times> SemanticAnalyzer" where
  "getTypeFromTypeNode node a =
     (let ty = tk_type (tn_name node);
          (kind, sz, a1) =
            (if ty = KW KW_VOID then (K_VOID, 0, a)
             else if ty = KW KW_CHAR then (K_CHAR, 1, a)
             else if ty = KW KW_INT then (K_INT, 4, a)
             else if ty = KW KW_FLOAT then (K_FLOAT, 4, a)
             else if ty = KW KW_DOUBLE then (K_DOUBLE, 8, a)
             else (K_VOID, 0,
                   sa_error (tk_line (tn_name node)) (tk_column (tn_name node))
                     (''Unknown type: '' @ tk_lexeme (tn_name node)) a));
          result = TypeInfo kind (tn_isConst node) (tn_isVolatile node) sz None []
      in (if tn_isPointer node then wrapPointers (tn_pointerLevel node) result else result, a1))"

definition visitLiteral :: "Token \<Rightarrow> SemanticAnalyzer \<Rightarrow> TypeInfo \<times> SemanticAnalyzer" where
  "visitLiteral tok a =
     (if tk_type tok = INTEGER_LITERAL then (createInt, a)
      else if tk_type tok = FLOAT_LITERAL then (createFloat, a)
      else if tk_type tok = CHAR_LITERAL then (createChar, a)
      else if tk_type tok = STRING_LITERAL
        then (createArray createChar (int (length (tk_lexeme tok)) - 2 + 1), a)
      else (createVoid, sa_error (tk_line tok) (tk_column tok) ''Unknown literal type'' a))"

definition visitVariable :: "Token \<Rightarrow> SemanticAnalyzer \<Rightarrow> TypeInfo \<times> SemanticAnalyzer" where
  "visitVariable name a =
     (case lookup (tk_lexeme name) (symbolTable a) of
        None \<Rightarrow>
          (createVoid,
           sa_error (tk_line name) (tk_column name)
             (''Undefined variable '' @ [CHR 0x27] @ tk_lexeme name @ [CHR 0x27]) a)
      | Some symbol \<Rightarrow> (si_type symbol, a))"

text \<open>The switch of \<open>visitUnary\<close>, after the operand has been visited.\<close>

definition unaryType :: "Token \<Rightarrow> TypeInfo \<Rightarrow> SemanticAnalyzer \<Rightarrow> Exn + TypeInfo \<times> SemanticAnalyzer" where
  "unaryType op operandType a =
     (let ty = tk_type op; li = tk_line op; co = tk_column op in
      if ty = OP OP_MINUS \<or> ty = OP OP_PLUS then
        (if \<not> isNumeric operandType
         then Inr (createVoid, sa_error li co
                (''Unary operator '' @ tk_lexeme op @ '' requires numeric operand'') a)
         else Inr (operandType, a))
      else if ty = OP OP_EXCLAMATION then
        (if \<not> isScalar operandType
         then Inr (createVoid, sa_error li co ''Unary operator ! requires scalar operand'' a)
         else Inr (createInt, a))
      else if ty = OP OP_TILDE then
        (if \<not> isInteger operandType
         then Inr (createVoid, sa_error li co ''Unary operator ~ requires integer operand'' a)
         else Inr (operandType, a))
      else if ty = OP OP_STAR then
        (if ti_kind operandType \<noteq> K_POINTER
         then Inr (createVoid, sa_error li co ''Cannot dereference non-pointer type'' a)
         else (case ti_base operandType of
                 None \<Rightarrow> Inl UndefinedBehaviour
               | Some b \<Rightarrow> Inr (b, a)))
      else if ty = OP OP_AMPERSAND then Inr (createPointer operandType, a)
      else if ty = OP OP_PLUS_PLUS \<or> ty = OP OP_MINUS_MINUS then
        (if \<not> isNumeric operandType \<and> ti_kind operandType \<noteq> K_POINTER
         then Inr (createVoid, sa_error li co
                (''Unary operator '' @ tk_lexeme op @ '' requires numeric or pointer operand'') a)
         else Inr (operandType, a))
      else Inr (createVoid, sa_error li co (''Unknown unary operator: '' @ tk_lexeme op) a))"

text \<open>The switch of \<open>visitBinary\<close>, after both operands have been visited.\<close>

definition binaryType ::
  "Token \<Rightarrow> TypeInfo \<Rightarrow> TypeInfo \<Rightarrow> SemanticAnalyzer \<Rightarrow> Exn + TypeInfo \<times> SemanticAnalyzer" where
  "binaryType op leftType rightType a =
     (let ty = tk_type op; li = tk_line op; co = tk_column op in
      if ty = OP OP_PLUS then
        (if ti_kind leftType = K_POINTER \<and> isInteger rightType then Inr (leftType, a)
         else if isInteger leftType \<and> ti_kind rightType = K_POINTER then Inr (rightType, a)
         else if isNumeric leftType \<and> isNumeric rightType
           then Inr (getCommonType leftType rightType, a)
         else Inr (createVoid, sa_error li co ''Invalid operands to binary +'' a))
      else if ty = OP OP_MINUS then
        (if ti_kind leftType = K_POINTER \<and> isInteger rightType then Inr (leftType, a)
         else if ti_kind leftType = K_POINTER \<and> ti_kind rightType = K_POINTER
           then Inr (createInt, a)
         else if isNumeric leftType \<and> isNumeric rightType
           then Inr (getCommonType leftType rightType, a)
         else Inr (createVoid, sa_error li co ''Invalid operands to binary -'' a))
      else if ty = OP OP_STAR \<or> ty = OP OP_SLASH \<or> ty = OP OP_PERCENT then
        (if isNumeric leftType \<and> isNumeric rightType
           then Inr (getCommonType leftType rightType, a)
         else Inr (createVoid, sa_error li co
                (''Invalid operands to binary '' @ tk_lexeme op) a))
      else if ty = OP OP_LESS \<or> ty = OP OP_LESS_EQUALS \<or> ty = OP OP_GREATER \<or>
              ty = OP OP_GREATER_EQUALS \<or> ty = OP OP_EQUALS_EQUALS \<or> ty = OP OP_NOT_EQUALS then
        (case areTypesCompatible leftType rightType of
           Inl x \<Rightarrow> Inl x
         | Inr True \<Rightarrow> Inr (createInt, a)
         | Inr False \<Rightarrow>
            (case areTypesCompatible rightType leftType of
               Inl x \<Rightarrow> Inl x
             | Inr True \<Rightarrow> Inr (createInt, a)
             | Inr False \<Rightarrow>
                 Inr (createVoid, sa_error li co ''Incompatible types for comparison'' a)))
      else if ty = OP OP_AMPERSAND \<or> ty = OP OP_PIPE \<or> ty = OP OP_CARET \<or>
              ty = OP OP_SHL \<or> ty = OP OP_SHR then
        (if \<not> isInteger leftType \<or> \<not> isInteger rightType
         then Inr (createVoid, sa_error li co ''Bitwise operators require integer operands'' a)
         else Inr (getCommonType leftType rightType, a))
      else if ty = OP OP_LOGICAL_AND \<or> ty = OP OP_LOGICAL_OR then
        (if \<not> isScalar leftType \<or> \<not> isScalar rightType
         then Inr (createVoid, sa_error li co ''Logical operators require scalar operands'' a)
         else Inr (createInt, a))
      else if ty = OP OP_EQUALS then
        (case areTypesCompatible rightType leftType of
           Inl x \<Rightarrow> Inl x
         | Inr False \<Rightarrow> Inr (createVoid, sa_error li co ''Cannot assign incompatible type'' a)
         | Inr True \<Rightarrow> Inr (leftType, a))
      else Inr (createVoid, sa_error li co (''Unknown binary operator: '' @ tk_lexeme op) a))"

text \<open>
  \<open>visitExpression\<close> with the visitors it dispatches to.  \<open>visitArguments\<close> is the
  loop of \<open>visitCall\<close> over the arguments, run after the argument count has been
  compared with the parameter count.
\<close>

fun visitExpression :: "ExpressionNode \<Rightarrow> SemanticAnalyzer \<Rightarrow> Exn + TypeInfo \<times> SemanticAnalyzer"
and visitArguments ::
  "ExpressionNode list \<Rightarrow> TypeInfo list \<Rightarrow> SemanticAnalyzer \<Rightarrow> Exn + SemanticAnalyzer"
where
  "visitExpression NullExpr a = Inr (createVoid, a)"
| "visitExpression (LiteralNode tok) a = Inr (visitLiteral tok a)"
| "visitExpression (VariableNode name) a = Inr (visitVariable name a)"
| "visitExpression (UnaryNode op operand) a =
     (case visitExpression operand a of
        Inl x \<Rightarrow> Inl x
      | Inr (operandType, a1) \<Rightarrow> unaryType op operandType a1)"
| "visitExpression (BinaryNode left op right) a =
     (case visitExpression left a of
        Inl x \<Rightarrow> Inl x
      | Inr (leftType, a1) \<Rightarrow>
         (case visitExpression right a1 of
            Inl x \<Rightarrow> Inl x
          | Inr (rightType, a2) \<Rightarrow> binaryType op leftType rightType a2))"
| "visitExpression (CallNode callee arguments) a =
     (case visitExpression callee a of
        Inl x \<Rightarrow> Inl x
      | Inr (calleeType, a1) \<Rightarrow>
         (if ti_kind calleeType \<noteq> K_FUNCTION
          then Inr (createVoid, sa_error 0 0 ''Called object is not a function'' a1)
          else if length arguments \<noteq> length (ti_parameters calleeType)
          then Inr (createVoid, sa_error 0 0 ''Wrong number of arguments to function call'' a1)
          else
            (case visitArguments arguments (ti_parameters calleeType) a1 of
               Inl x \<Rightarrow> Inl x
             | Inr a2 \<Rightarrow>
                (case ti_base calleeType of
                   None \<Rightarrow> Inl UndefinedBehaviour
                 | Some r \<Rightarrow> Inr (r, a2)))))"
| "visitExpression (ArrayAccessNode array index) a =
     (case visitExpression array a of
        Inl x \<Rightarrow> Inl x
      | Inr (arrayType, a1) \<Rightarrow>
         (case visitExpression index a1 of
            Inl x \<Rightarrow> Inl x
          | Inr (indexType, a2) \<Rightarrow>
             (if ti_kind arrayType \<noteq> K_ARRAY \<and> ti_kind arrayType \<noteq> K_POINTER
              then Inr (createVoid,
                     sa_error 0 0 ''Subscripted value is not an array or pointer'' a2)
              else if \<not> isInteger indexType
              then Inr (createVoid, sa_error 0 0 ''Array index must be an integer'' a2)
              else (case ti_base arrayType of
                      None \<Rightarrow> Inl UndefinedBehaviour
                    | Some b \<Rightarrow> Inr (b, a2)))))"
| "visitExpression (MemberAccessNode object op member) a =
     (case visitExpression object a of
        Inl x \<Rightarrow> Inl x
      | Inr (objectType, a1) \<Rightarrow>
         (if tk_type op = OP OP_DOT \<and> ti_kind objectType \<noteq> K_STRUCT
          then Inr (createVoid,
                 sa_error (tk_line op) (tk_column op)
                   (''Left operand of '' @ [CHR 0x27] @ ''.'' @ [CHR 0x27] @ '' must be a struct'')
                   a1)
          else if tk_type op \<noteq> OP OP_DOT \<and> tk_type op = OP OP_ARROW \<and>
                  (ti_kind objectType \<noteq> K_POINTER \<or>
                   (case ti_base objectType of
                      None \<Rightarrow> False
                    | Some b \<Rightarrow> ti_kind b \<noteq> K_STRUCT))
          then Inr (createVoid,
                 sa_error (tk_line op) (tk_column op)
                   (''Left operand of '' @ [CHR 0x27] @ ''->'' @ [CHR 0x27] @
                    '' must be a pointer to a struct'') a1)
          else Inr (createInt,
                 sa_warning (tk_line op) (tk_column op)
                   ''Struct member access not fully implemented'' a1)))"
| "visitExpression (ConditionalNode condition trueExpr falseExpr) a =
     (case visitExpression condition a of
        Inl x \<Rightarrow> Inl x
      | Inr (condType, a1) \<Rightarrow>
         (if \<not> isScalar condType
          then Inr (createVoid,
                 sa_error 0 0 ''Conditional operator requires scalar condition'' a1)
          else
            (case visitExpression trueExpr a1 of
               Inl x \<Rightarrow> Inl x
             | Inr (trueType, a2) \<Rightarrow>
                (case visitExpression falseExpr a2 of
                   Inl x \<Rightarrow> Inl x
                 | Inr (falseType, a3) \<Rightarrow>
                    (case areTypesCompatible trueType falseType of
                       Inl x \<Rightarrow> Inl x
                     | Inr True \<Rightarrow> Inr (trueType, a3)
                     | Inr False \<Rightarrow>
                        (case areTypesCompatible falseType trueType of
                           Inl x \<Rightarrow> Inl x
                         | Inr True \<Rightarrow> Inr (falseType, a3)
                         | Inr False \<Rightarrow>
                            Inr (createVoid,
                              sa_error 0 0 ''Incompatible types in conditional expression''
                                a3)))))))"
| "visitArguments [] ps a = Inr a"
| "visitArguments (arg # args) [] a = Inl UndefinedBehaviour"
| "visitArguments (arg # args) (p # ps) a =
     (case visitExpression arg a of
        Inl x \<Rightarrow> Inl x
      | Inr (argType, a1) \<Rightarrow>
         (case areTypesCompatible argType p of
            Inl x \<Rightarrow> Inl x
          | Inr ok \<Rightarrow>
             visitArguments args ps
               (if ok then a1
                else sa_error 0 0 ''Argument type mismatch in function call'' a1)))"

definition visitVariableDeclaration ::
  "TypeNode \<Rightarrow> Token \<Rightarrow> ExpressionNode \<Rightarrow> SemanticAnalyzer \<Rightarrow> Exn + SemanticAnalyzer" where
  "visitVariableDeclaration tn name initializer a =
     (let (ty, a1) = getTypeFromTypeNode tn a in
      if existsInCurrentScope (tk_lexeme name) (symbolTable a1)
      then Inr (sa_error (tk_line name) (tk_column name)
                  (''Variable '' @ [CHR 0x27] @ tk_lexeme name @ [CHR 0x27] @
                   '' already declared in this scope'') a1)
      else
        (case (if initializer \<noteq> NullExpr
               then (case visitExpression initializer a1 of
                       Inl x \<Rightarrow> Inl x
                     | Inr (initType, a2) \<Rightarrow>
                        (case areTypesCompatible initType ty of
                           Inl x \<Rightarrow> Inl x
                         | Inr True \<Rightarrow> Inr a2
                         | Inr False \<Rightarrow>
                            Inr (sa_error (tk_line name) (tk_column name)
                                  (''Cannot initialize variable of type '' @ [CHR 0x27] @
                                   to_string (kindNumber (ti_kind ty)) @ [CHR 0x27] @
                                   '' with expression of type '' @ [CHR 0x27] @
                                   to_string (kindNumber (ti_kind initType)) @ [CHR 0x27])
                                  a2)))
               else Inr a1) of
           Inl x \<Rightarrow> Inl x
         | Inr a3 \<Rightarrow>
            Inr (a3\<lparr>symbolTable := addVariable (tk_lexeme name) ty (symbolTable a3)\<rparr>)))"

definition visitParameter :: "ParameterNode \<Rightarrow> SemanticAnalyzer \<Rightarrow> SemanticAnalyzer" where
  "visitParameter node a =
     (let (ty, a1) = getTypeFromTypeNode (pn_type node) a;
          name = tk_lexeme (pn_name node) in
      if name = [] then a1
      else if existsInCurrentScope name (symbolTable a1)
      then sa_error (tk_line (pn_name node)) (tk_column (pn_name node))
             (''Parameter '' @ [CHR 0x27] @ name @ [CHR 0x27] @ '' already declared'') a1
      else a1\<lparr>symbolTable := addParameter name ty (symbolTable a1)\<rparr>)"

definition visitReturnStatement :: "ExpressionNode \<Rightarrow> SemanticAnalyzer \<Rightarrow> Exn + SemanticAnalyzer" where
  "visitReturnStatement val a =
     (case currentFunctionReturnType a of
        None \<Rightarrow> Inr (sa_error 0 0 ''Return statement outside of function'' a)
      | Some rt \<Rightarrow>
         (let a1 = a\<lparr>hasReturn := True\<rparr> in
          if val \<noteq> NullExpr then
            (case visitExpression val a1 of
               Inl x \<Rightarrow> Inl x
             | Inr (valueType, a2) \<Rightarrow>
                (case areTypesCompatible valueType rt of
                   Inl x \<Rightarrow> Inl x
                 | Inr True \<Rightarrow> Inr a2
                 | Inr False \<Rightarrow>
                     Inr (sa_error 0 0 ''Cannot return value of incompatible type'' a2)))
          else if ti_kind rt \<noteq> K_VOID
          then Inr (sa_error 0 0 ''Non-void function should return a value'' a1)
          else Inr a1))"

text \<open>\<open>visitBreakStatement\<close> and \<open>visitContinueStatement\<close> have empty bodies.\<close>

definition visitBreakStatement :: "SemanticAnalyzer \<Rightarrow> SemanticAnalyzer" where
  "visitBreakStatement a = a"

definition visitContinueStatement :: "SemanticAnalyzer \<Rightarrow> SemanticAnalyzer" where
  "visitContinueStatement a = a"

text \<open>The scope operations of the table, on the analyzer's state.\<close>

definition sa_enterScope :: "SemanticAnalyzer \<Rightarrow> SemanticAnalyzer" where
  "sa_enterScope a = a\<lparr>symbolTable := enterScope (symbolTable a)\<rparr>"

definition sa_leaveScope :: "SemanticAnalyzer \<Rightarrow> Exn + SemanticAnalyzer" where
  "sa_leaveScope a =
     (case leaveScope (symbolTable a) of
        Inl x \<Rightarrow> Inl x
      | Inr st \<Rightarrow> Inr (a\<lparr>symbolTable := st\<rparr>))"

definition visitCondition :: "string \<Rightarrow> ExpressionNode \<Rightarrow> SemanticAnalyzer \<Rightarrow> Exn + SemanticAnalyzer" where
  "visitCondition msg condition a =
     (case visitExpression condition a of
        Inl x \<Rightarrow> Inl x
      | Inr (condType, a1) \<Rightarrow>
          Inr (if \<not> isScalar condType then sa_error 0 0 msg a1 else a1))"

definition visitExpressionStatement :: "ExpressionNode \<Rightarrow> SemanticAnalyzer \<Rightarrow> Exn + SemanticAnalyzer" where
  "visitExpressionStatement e a =
     (case visitExpression e a of Inl x \<Rightarrow> Inl x | Inr (t, a1) \<Rightarrow> Inr a1)"

text \<open>
  The initializer of a for loop: the source visits it only if it is an expression
  statement or a variable declaration.
\<close>

definition visitForInitializer ::
  "StatementNode option \<Rightarrow> SemanticAnalyzer \<Rightarrow> Exn + SemanticAnalyzer" where
  "visitForInitializer initializer a =
     (case initializer of
        Some (ExpressionStatementNode e) \<Rightarrow> visitExpressionStatement e a
      | Some (VariableDeclarationNode tn name i) \<Rightarrow> visitVariableDeclaration tn name i a
      | _ \<Rightarrow> Inr a)"

text \<open>
  The statement visitors.  \<open>visitStatement\<close> is the chain of \<open>getNodeType()\<close> tests
  that the source repeats at every place a statement is visited; \<open>visitBlock\<close> runs it
  on each statement of a block, between \<open>enterScope\<close> and \<open>leaveScope\<close>;
  \<open>visitBody\<close> is what the source does with a branch or a loop body: a block is
  visited as a block, any other statement inside an implicit scope of its own.
\<close>

fun visitStatement :: "StatementNode \<Rightarrow> SemanticAnalyzer \<Rightarrow> Exn + SemanticAnalyzer"
and visitStatements :: "StatementNode list \<Rightarrow> SemanticAnalyzer \<Rightarrow> Exn + SemanticAnalyzer"
and visitBody :: "StatementNode \<Rightarrow> SemanticAnalyzer \<Rightarrow> Exn + SemanticAnalyzer"
where
  "visitStatement (ExpressionStatementNode e) a = visitExpressionStatement e a"
| "visitStatement (VariableDeclarationNode tn name initializer) a =
     visitVariableDeclaration tn name initializer a"
| "visitStatement (BlockNode statements) a =
     (case visitStatements statements (sa_enterScope a) of
        Inl x \<Rightarrow> Inl x
      | Inr a1 \<Rightarrow> sa_leaveScope a1)"
| "visitStatement (IfNode condition thenBranch elseBranch) a =
     (case visitCondition ''If condition must be a scalar type'' condition a of
        Inl x \<Rightarrow> Inl x
      | Inr a1 \<Rightarrow>
         (case visitBody thenBranch a1 of
            Inl x \<Rightarrow> Inl x
          | Inr a2 \<Rightarrow>
             (case elseBranch of
                None \<Rightarrow> Inr a2
              | Some e \<Rightarrow> visitBody e a2)))"
| "visitStatement (WhileNode condition body) a =
     (case visitCondition ''While condition must be a scalar type'' condition a of
        Inl x \<Rightarrow> Inl x
      | Inr a1 \<Rightarrow> visitBody body a1)"
| "visitStatement (DoWhileNode body condition) a =
     (case visitBody body a of
        Inl x \<Rightarrow> Inl x
      | Inr a1 \<Rightarrow> visitCondition ''Do-while condition must be a scalar type'' condition a1)"
| "visitStatement (ForNode initializer condition increment body) a =
     (case visitForInitializer initializer (sa_enterScope a) of
        Inl x \<Rightarrow> Inl x
      | Inr a1 \<Rightarrow>
         (case (if condition \<noteq> NullExpr
                then visitCondition ''For condition must be a scalar type'' condition a1
                else Inr a1) of
            Inl x \<Rightarrow> Inl x
          | Inr a2 \<Rightarrow>
             (case (if increment \<noteq> NullExpr
                    then (case visitExpression increment a2 of
                            Inl x \<Rightarrow> Inl x
                          | Inr (t, a3) \<Rightarrow> Inr a3)
                    else Inr a2) of
                Inl x \<Rightarrow> Inl x
              | Inr a3 \<Rightarrow>
                 (case visitBody body a3 of
                    Inl x \<Rightarrow> Inl x
                  | Inr a4 \<Rightarrow> sa_leaveScope a4))))"
| "visitStatement (ReturnNode val) a = visitReturnStatement val a"
| "visitStatement BreakNode a = Inr (visitBreakStatement a)"
| "visitStatement ContinueNode a = Inr (visitContinueStatement a)"
| "visitStatements [] a = Inr a"
| "visitStatements (s # ss) a =
     (case visitStatement s a of
        Inl x \<Rightarrow> Inl x
      | Inr a1 \<Rightarrow> visitStatements ss a1)"
| "visitBody (BlockNode statements) a = visitStatement (BlockNode statements) a"
| "visitBody s a =
     (case visitStatement s (sa_enterScope a) of
        Inl x \<Rightarrow> Inl x
      | Inr a1 \<Rightarrow> sa_leaveScope a1)"

definition visitBlock :: "StatementNode list \<Rightarrow> SemanticAnalyzer \<Rightarrow> Exn + SemanticAnalyzer" where
  "visitBlock statements a = visitStatement (BlockNode statements) a"

text \<open>The first loop of \<open>visitFunctionDeclaration\<close>: the types of the parameters.\<close>

fun parameterTypes :: "ParameterNode list \<Rightarrow> SemanticAnalyzer \<Rightarrow> TypeInfo list \<times> SemanticAnalyzer" where
  "parameterTypes [] a = ([], a)"
| "parameterTypes (p # ps) a =
     (let (ty, a1) = getTypeFromTypeNode (pn_type p) a;
          (tys, a2) = parameterTypes ps a1
      in (ty # tys, a2))"

definition visitFunctionDeclaration ::
  "TypeNode \<Rightarrow> Token \<Rightarrow> ParameterNode list \<Rightarrow> StatementNode list option \<Rightarrow>
   SemanticAnalyzer \<Rightarrow> Exn + SemanticAnalyzer" where
  "visitFunctionDeclaration rt name parameters body a =
     (let (returnType, a1) = getTypeFromTypeNode rt a;
          (paramTypes, a2) = parameterTypes parameters a1;
          functionType = createFunction returnType paramTypes
      in
      if existsInCurrentScope (tk_lexeme name) (symbolTable a2)
      then Inr (sa_error (tk_line name) (tk_column name)
                  (''Function '' @ [CHR 0x27] @ tk_lexeme name @ [CHR 0x27] @
                   '' already declared in this scope'') a2)
      else
        (let a3 = a2\<lparr>symbolTable := addFunction (tk_lexeme name) functionType (symbolTable a2)\<rparr>
         in case body of
              None \<Rightarrow> Inr a3
            | Some statements \<Rightarrow>
               (let a4 = sa_enterScope a3;
                    a5 = a4\<lparr>currentFunctionReturnType := Some returnType,
                            hasReturn := (ti_kind returnType = K_VOID)\<rparr>;
                    a6 = fold visitParameter parameters a5
                in case visitBlock statements a6 of
                     Inl x \<Rightarrow> Inl x
                   | Inr a7 \<Rightarrow>
                      (let a8 = (if \<not> hasReturn a7 \<and> ti_kind returnType \<noteq> K_VOID
                                 then sa_error (tk_line name) (tk_column name)
                                        (''Function '' @ [CHR 0x27] @ tk_lexeme name @
                                         [CHR 0x27] @ '' may not return a value'') a7
                                 else a7);
                           a9 = a8\<lparr>currentFunctionReturnType := None\<rparr>
                       in sa_leaveScope a9))))"

fun visitProgram :: "ProgramNode \<Rightarrow> SemanticAnalyzer \<Rightarrow> Exn + SemanticAnalyzer" where
  "visitProgram [] a = Inr a"
| "visitProgram (FunctionDeclarationNode rt name parameters body # ds) a =
     (case visitFunctionDeclaration rt name parameters body a of
        Inl x \<Rightarrow> Inl x
      | Inr a1 \<Rightarrow> visitProgram ds a1)"
| "visitProgram (VariableDeclaration tn name initializer # ds) a =
     (case visitVariableDeclaration tn name initializer a of
        Inl x \<Rightarrow> Inl x
      | Inr a1 \<Rightarrow> visitProgram ds a1)"

text \<open>The analyzer as its constructor leaves it, on a given error handler.\<close>

definition newSemanticAnalyzer :: "ErrorHandler \<Rightarrow> SemanticAnalyzer" where
  "newSemanticAnalyzer eh =
     \<lparr>sa_errorHandler = eh, symbolTable = newSymbolTable,
      currentFunctionReturnType = None, hasReturn = False\<rparr>"

definition analyze :: "ProgramNode option \<Rightarrow> SemanticAnalyzer \<Rightarrow> Exn + SemanticAnalyzer" where
  "analyze root a =
     (case root of
        None \<Rightarrow> Inr a
      | Some program \<Rightarrow> visitProgram program (a\<lparr>symbolTable := clear (symbolTable a)\<rparr>))"

section \<open>Character classes (cctype)\<close>

text \<open>
  \<open>std::isspace\<close>, \<open>std::isdigit\<close>, \<open>std::isalpha\<close> and \<open>std::isalnum\<close> in the
  default C locale, on the code of the character.
\<close>

definition charCode :: "char \<Rightarrow> nat" where
  "charCode c = of_char c"

definition isspace :: "char \<Rightarrow> bool" where
  "isspace c = (c = CHR '' '' \<or> (9 \<le> charCode c \<and> charCode c \<le> 13))"

definition isdigit :: "char \<Rightarrow> bool" where
  "isdigit c = (48 \<le> charCode c \<and> charCode c \<le> 57)"

definition isalpha :: "char \<Rightarrow> bool" where
  "isalpha c = ((65 \<le> charCode c \<and> charCode c \<le> 90) \<or>
                (97 \<le> charCode c \<and> charCode c \<le> 122))"

definition isalnum :: "char \<Rightarrow> bool" where
  "isalnum c = (isalpha c \<or> isdigit c)"

section \<open>The lexer (lexer.h, lexer.cpp)\<close>

text \<open>
  class Lexer: the source text, the file name, the error handler, and the scanning state
  \<open>start\<close>, \<open>current\<close>, \<open>line\<close>, \<open>column\<close>.  The token vector that \<open>tokenize\<close>
  hands to the scanning functions by reference is an argument and a result of theirs.
\<close>

record Lexer =
  source :: string
  filename :: string
  lx_errorHandler :: ErrorHandler
  start :: nat
  current :: nat
  line :: int
  column :: int

definition newLexer :: "string \<Rightarrow> string \<Rightarrow> ErrorHandler \<Rightarrow> Lexer" where
  "newLexer src fn eh =
     \<lparr>source = src, filename = fn, lx_errorHandler = eh,
      start = 0, current = 0, line = 1, column = 1\<rparr>"

definition lx_error :: "int \<Rightarrow> int \<Rightarrow> string \<Rightarrow> Lexer \<Rightarrow> Lexer" where
  "lx_error li co msg lx = lx\<lparr>lx_errorHandler := error li co msg (lx_errorHandler lx)\<rparr>"

definition isAtEnd :: "Lexer \<Rightarrow> bool" where
  "isAtEnd lx = (current lx \<ge> length (source lx))"

text \<open>
  \<open>source[i]\<close>; at \<open>i = source.length()\<close> a \<open>std::string\<close> yields the terminating
  NUL.  The lexer never reads further.
\<close>

definition charAt :: "string \<Rightarrow> nat \<Rightarrow> char" where
  "charAt s i = (if i < length s then s ! i else CHR 0x00)"

definition advance :: "Lexer \<Rightarrow> char \<times> Lexer" where
  "advance lx =
     (charAt (source lx) (current lx),
      lx\<lparr>column := column lx + 1, current := current lx + 1\<rparr>)"

text \<open>A call of \<open>advance\<close> whose result is dropped.\<close>

definition advanced :: "Lexer \<Rightarrow> Lexer" where
  "advanced lx = snd (advance lx)"

definition peek :: "Lexer \<Rightarrow> char" where
  "peek lx = (if isAtEnd lx then CHR 0x00 else charAt (source lx) (current lx))"

definition peekNext :: "Lexer \<Rightarrow> char" where
  "peekNext lx =
     (if current lx + 1 \<ge> length (source lx) then CHR 0x00
      else charAt (source lx) (current lx + 1))"

definition match :: "char \<Rightarrow> Lexer \<Rightarrow> bool \<times> Lexer" where
  "match expected lx =
     (if isAtEnd lx \<or> charAt (source lx) (current lx) \<noteq> expected then (False, lx)
      else (True, lx\<lparr>current := current lx + 1, column := column lx + 1\<rparr>))"

text \<open>
  \<open>source.substr(pos, n)\<close>, where \<open>pos\<close> is within the string: the lexer keeps
  \<open>start \<le> current \<le> source.length()\<close>.
\<close>

definition substr :: "string \<Rightarrow> nat \<Rightarrow> nat \<Rightarrow> string" where
  "substr s pos n = take n (drop pos s)"

definition makeToken :: "TokenType \<Rightarrow> Lexer \<Rightarrow> Token" where
  "makeToken ty lx =
     (let lexeme = substr (source lx) (start lx) (current lx - start lx)
      in mkToken ty lexeme (filename lx) (line lx) (column lx - int (length lexeme)))"

definition addToken :: "Token list \<Rightarrow> TokenType \<Rightarrow> Lexer \<Rightarrow> Token list" where
  "addToken tokens ty lx = tokens @ [makeToken ty lx]"

definition errorToken :: "string \<Rightarrow> Lexer \<Rightarrow> Token" where
  "errorToken message lx = mkToken UNKNOWN message (filename lx) (line lx) (column lx)"

text \<open>
  Every loop of the lexer advances \<open>current\<close> towards the end of the source, which is
  what its termination rests on.
\<close>

lemma advanced_simps [simp]:
  "source (advanced lx) = source lx"
  "current (advanced lx) = current lx + 1"
  "start (advanced lx) = start lx"
  "filename (advanced lx) = filename lx"
  "lx_errorHandler (advanced lx) = lx_errorHandler lx"
  "line (advanced lx) = line lx"
  "column (advanced lx) = column lx + 1"
  by (simp_all add: advanced_def advance_def)

lemma lx_error_simps [simp]:
  "source (lx_error li co msg lx) = source lx"
  "current (lx_error li co msg lx) = current lx"
  "start (lx_error li co msg lx) = start lx"
  "filename (lx_error li co msg lx) = filename lx"
  "line (lx_error li co msg lx) = line lx"
  "column (lx_error li co msg lx) = column lx"
  by (simp_all add: lx_error_def)

lemma peek_not_NUL: "peek lx \<noteq> CHR 0x00 \<Longrightarrow> current lx < length (source lx)"
  by (simp add: peek_def isAtEnd_def split: if_splits)

lemma peekNext_not_NUL: "peekNext lx \<noteq> CHR 0x00 \<Longrightarrow> current lx + 1 < length (source lx)"
  by (simp add: peekNext_def split: if_splits)

lemma NUL_class [simp]:
  "\<not> isdigit (CHR 0x00)" "\<not> isalpha (CHR 0x00)" "\<not> isalnum (CHR 0x00)"
  by (simp_all add: isalnum_def isalpha_def isdigit_def charCode_def)

subsection \<open>Comments and white space\<close>

text \<open>The loop of a line comment: \<open>while (peek() != '\n' && !isAtEnd()) advance();\<close>\<close>

function lineCommentLoop :: "Lexer \<Rightarrow> Lexer" where
  "lineCommentLoop lx =
     (if peek lx \<noteq> CHR 0x0A \<and> \<not> isAtEnd lx then lineCommentLoop (advanced lx) else lx)"
  by pat_completeness auto
termination
  by (relation "measure (\<lambda>lx. length (source lx) - current lx)") (auto simp: isAtEnd_def)

declare lineCommentLoop.simps [simp del]

text \<open>
  The loop of a block comment; \<open>True\<close> when it returns at the closing \<open>*/\<close>, \<open>False\<close>
  when it runs into the end of the source.
\<close>

function blockCommentLoop :: "Lexer \<Rightarrow> bool \<times> Lexer" where
  "blockCommentLoop lx =
     (if \<not> isAtEnd lx then
        (if peek lx = CHR ''*'' \<and> peekNext lx = CHR ''/'' then (True, advanced (advanced lx))
         else blockCommentLoop
                (advanced (if peek lx = CHR 0x0A then lx\<lparr>line := line lx + 1, column := 1\<rparr>
                           else lx)))
      else (False, lx))"
  by pat_completeness auto
termination
  by (relation "measure (\<lambda>lx. length (source lx) - current lx)") (auto simp: isAtEnd_def)

declare blockCommentLoop.simps [simp del]

definition comment :: "Lexer \<Rightarrow> Lexer" where
  "comment lx =
     (if peek lx = CHR ''/'' \<and> peekNext lx = CHR ''/'' then
        lineCommentLoop (advanced (advanced lx))
      else if peek lx = CHR ''/'' \<and> peekNext lx = CHR ''*'' then
        (let lx1 = advanced (advanced lx);
             startLine = line lx1;
             startColumn = column lx1 - 2
         in case blockCommentLoop lx1 of
              (True, lx2) \<Rightarrow> lx2
            | (False, lx2) \<Rightarrow> lx_error startLine startColumn ''Unterminated block comment'' lx2)
      else lx)"

lemma lineCommentLoop_current:
  "source (lineCommentLoop lx) = source lx \<and> current lx \<le> current (lineCommentLoop lx)"
proof (induction lx rule: lineCommentLoop.induct)
  case (1 lx)
  show ?case by (subst (1 2) lineCommentLoop.simps) (use 1 in auto)
qed

lemma blockCommentLoop_current:
  "source (snd (blockCommentLoop lx)) = source lx \<and>
   current lx \<le> current (snd (blockCommentLoop lx))"
proof (induction lx rule: blockCommentLoop.induct)
  case (1 lx)
  show ?case by (subst (1 2) blockCommentLoop.simps) (use 1 in \<open>auto split: if_splits\<close>)
qed

lemma comment_current:
  "source (comment lx) = source lx \<and> current lx \<le> current (comment lx)"
  using lineCommentLoop_current [of "advanced (advanced lx)"]
        blockCommentLoop_current [of "advanced (advanced lx)"]
  by (auto simp: comment_def Let_def split: prod.splits bool.splits)

lemma comment_advances:
  assumes "peek lx = CHR ''/''" and "peekNext lx = CHR ''/'' \<or> peekNext lx = CHR ''*''"
  shows "current lx + 2 \<le> current (comment lx)"
  using assms lineCommentLoop_current [of "advanced (advanced lx)"]
        blockCommentLoop_current [of "advanced (advanced lx)"]
  by (auto simp: comment_def Let_def split: prod.splits bool.splits)

function skipWhitespace :: "Lexer \<Rightarrow> Lexer" where
  "skipWhitespace lx =
     (if peek lx = CHR '' '' \<or> peek lx = CHR 0x09 \<or> peek lx = CHR 0x0D then
        skipWhitespace (advanced lx)
      else if peek lx = CHR 0x0A then
        skipWhitespace (advanced (lx\<lparr>line := line lx + 1, column := 1\<rparr>))
      else if peek lx = CHR ''/'' then
        (if peekNext lx = CHR ''/'' \<or> peekNext lx = CHR ''*'' then skipWhitespace (comment lx)
         else lx)
      else lx)"
  by pat_completeness auto
termination
proof (relation "measure (\<lambda>lx. length (source lx) - current lx)")
  fix lx :: Lexer
  assume "\<not> (peek lx = CHR '' '' \<or> peek lx = CHR 0x09 \<or> peek lx = CHR 0x0D)"
    and "peek lx \<noteq> CHR 0x0A" and p: "peek lx = CHR ''/''"
    and n: "peekNext lx = CHR ''/'' \<or> peekNext lx = CHR ''*''"
  from p have "current lx < length (source lx)" by (intro peek_not_NUL) simp
  with comment_advances [OF p n] comment_current [of lx]
  show "(comment lx, lx) \<in> measure (\<lambda>lx. length (source lx) - current lx)" by simp
qed (auto dest!: peek_not_NUL [OF ssubst [of _ _ "\<lambda>c. c \<noteq> CHR 0x00"]]
       simp: peek_def isAtEnd_def split: if_splits)

declare skipWhitespace.simps [simp del]

subsection \<open>Identifiers and numbers\<close>

text \<open>\<open>while (std::isalnum(peek()) || peek() == '_') advance();\<close>\<close>

function identifierLoop :: "Lexer \<Rightarrow> Lexer" where
  "identifierLoop lx =
     (if isalnum (peek lx) \<or> peek lx = CHR ''_'' then identifierLoop (advanced lx) else lx)"
  by pat_completeness auto
termination
  by (relation "measure (\<lambda>lx. length (source lx) - current lx)")
     (auto simp: peek_def isAtEnd_def split: if_splits)

declare identifierLoop.simps [simp del]

definition identifier_tok :: "Token list \<Rightarrow> Lexer \<Rightarrow> Token list \<times> Lexer" where
  "identifier_tok tokens lx =
     (let lx1 = identifierLoop lx;
          text = substr (source lx1) (start lx1) (current lx1 - start lx1)
      in case map_of Keywords text of
           Some ty \<Rightarrow> (addToken tokens ty lx1, lx1)
         | None \<Rightarrow> (addToken tokens IDENTIFIER lx1, lx1))"

text \<open>\<open>while (std::isdigit(peek())) advance();\<close>\<close>

function digitsLoop :: "Lexer \<Rightarrow> Lexer" where
  "digitsLoop lx = (if isdigit (peek lx) then digitsLoop (advanced lx) else lx)"
  by pat_completeness auto
termination
  by (relation "measure (\<lambda>lx. length (source lx) - current lx)")
     (auto simp: peek_def isAtEnd_def split: if_splits)

declare digitsLoop.simps [simp del]

text \<open>The end of \<open>number\<close>: the suffix, and the token.\<close>

definition numberSuffix :: "bool \<Rightarrow> Token list \<Rightarrow> Lexer \<Rightarrow> Token list \<times> Lexer" where
  "numberSuffix isFloat tokens lx =
     (let (isFloat1, lx1) =
            (if peek lx = CHR ''f'' \<or> peek lx = CHR ''F'' then (True, advanced lx)
             else if peek lx = CHR ''l'' \<or> peek lx = CHR ''L'' then
               (let lx1 = advanced lx
                in (isFloat,
                    if peek lx1 = CHR ''u'' \<or> peek lx1 = CHR ''U'' then advanced lx1 else lx1))
             else if peek lx = CHR ''u'' \<or> peek lx = CHR ''U'' then
               (let lx1 = advanced lx
                in (isFloat,
                    if peek lx1 = CHR ''l'' \<or> peek lx1 = CHR ''L'' then advanced lx1 else lx1))
             else (isFloat, lx))
      in (addToken tokens (if isFloat1 then FLOAT_LITERAL else INTEGER_LITERAL) lx1, lx1))"

definition number :: "Token list \<Rightarrow> Lexer \<Rightarrow> Token list \<times> Lexer" where
  "number tokens lx =
     (let lx1 = digitsLoop lx;
          (isFloat, lx2) =
            (if peek lx1 = CHR ''.'' \<and> isdigit (peekNext lx1)
             then (True, digitsLoop (advanced lx1))
             else (False, lx1))
      in if peek lx2 = CHR ''e'' \<or> peek lx2 = CHR ''E'' then
           (let lx3 = advanced lx2;
                lx4 = (if peek lx3 = CHR ''+'' \<or> peek lx3 = CHR ''-'' then advanced lx3
                       else lx3)
            in if \<not> isdigit (peek lx4) then
                 (tokens,
                  lx_error (line lx4) (column lx4)
                    ''Invalid floating point number: exponent has no digits'' lx4)
               else numberSuffix True tokens (digitsLoop lx4))
         else numberSuffix isFloat tokens lx2)"

subsection \<open>String and character literals\<close>

function stringLoop :: "int \<Rightarrow> int \<Rightarrow> Lexer \<Rightarrow> Lexer" where
  "stringLoop startLine startColumn lx =
     (if peek lx \<noteq> CHR 0x22 \<and> \<not> isAtEnd lx then
        (let lx1 = (if peek lx = CHR 0x0A then lx\<lparr>line := line lx + 1, column := 1\<rparr>
                    else lx)
         in if peek lx1 = CHR 0x5C then
              (let lx2 = advanced lx1
               in if isAtEnd lx2 then
                    lx_error startLine startColumn
                      ''Unterminated string literal: expected escape sequence'' lx2
                  else stringLoop startLine startColumn (advanced lx2))
            else stringLoop startLine startColumn (advanced lx1))
      else lx)"
  by pat_completeness auto
termination
  by (relation "measure (\<lambda>(startLine, startColumn, lx). length (source lx) - current lx)")
     (auto simp: isAtEnd_def)

declare stringLoop.simps [simp del]

definition string_tok :: "Token list \<Rightarrow> Lexer \<Rightarrow> Token list \<times> Lexer" where
  "string_tok tokens lx =
     (let startLine = line lx;
          startColumn = column lx - 1;
          lx1 = stringLoop startLine startColumn lx
      in if isAtEnd lx1 then
           (tokens, lx_error startLine startColumn ''Unterminated string literal'' lx1)
         else (let lx2 = advanced lx1 in (addToken tokens STRING_LITERAL lx2, lx2)))"

text \<open>\<open>while (peek() != '\'' && !isAtEnd()) advance();\<close>\<close>

function recoverLoop :: "Lexer \<Rightarrow> Lexer" where
  "recoverLoop lx =
     (if peek lx \<noteq> CHR 0x27 \<and> \<not> isAtEnd lx then recoverLoop (advanced lx) else lx)"
  by pat_completeness auto
termination
  by (relation "measure (\<lambda>lx. length (source lx) - current lx)") (auto simp: isAtEnd_def)

declare recoverLoop.simps [simp del]

text \<open>The end of \<open>character\<close>, from the check for the closing quote.\<close>

definition characterClose :: "int \<Rightarrow> int \<Rightarrow> Token list \<Rightarrow> Lexer \<Rightarrow> Token list \<times> Lexer" where
  "characterClose startLine startColumn tokens lx =
     (let lx1 = (if peek lx \<noteq> CHR 0x27 then
                   recoverLoop
                     (lx_error startLine startColumn
                        ''Multi-character character literal or missing closing quote'' lx)
                 else lx)
      in if peek lx1 = CHR 0x27 then
           (let lx2 = advanced lx1 in (addToken tokens CHAR_LITERAL lx2, lx2))
         else (tokens, lx_error startLine startColumn ''Unterminated character literal'' lx1))"

definition character :: "Token list \<Rightarrow> Lexer \<Rightarrow> Token list \<times> Lexer" where
  "character tokens lx =
     (let startLine = line lx;
          startColumn = column lx - 1
      in if peek lx = CHR 0x5C then
           (let lx1 = advanced lx
            in if isAtEnd lx1 then
                 (tokens,
                  lx_error startLine startColumn
                    ''Unterminated character literal: expected escape sequence'' lx1)
               else characterClose startLine startColumn tokens (advanced lx1))
         else if peek lx \<noteq> CHR 0x27 \<and> \<not> isAtEnd lx then
           characterClose startLine startColumn tokens (advanced lx)
         else
           (let lx1 = lx_error startLine startColumn ''Empty character literal'' lx
            in (tokens, if peek lx1 = CHR 0x27 then advanced lx1 else lx1)))"

subsection \<open>One token\<close>

definition scanToken :: "Token list \<Rightarrow> Lexer \<Rightarrow> Token list \<times> Lexer" where
  "scanToken tokens lx0 =
     (let lx = skipWhitespace lx0
      in if isAtEnd lx then (tokens, lx)
         else
           (let (c, lx1) = advance lx
            in if isalpha c \<or> c = CHR ''_'' then
                 identifier_tok tokens (lx1\<lparr>current := current lx1 - 1, column := column lx1 - 1\<rparr>)
               else if isdigit c then
                 number tokens (lx1\<lparr>current := current lx1 - 1, column := column lx1 - 1\<rparr>)
               else if c = CHR ''('' then (addToken tokens LEFT_PAREN lx1, lx1)
               else if c = CHR '')'' then (addToken tokens RIGHT_PAREN lx1, lx1)
               else if c = CHR ''{'' then (addToken tokens LEFT_BRACE lx1, lx1)
               else if c = CHR ''}'' then (addToken tokens RIGHT_BRACE lx1, lx1)
               else if c = CHR ''['' then (addToken tokens LEFT_BRACKET lx1, lx1)
               else if c = CHR '']'' then (addToken tokens RIGHT_BRACKET lx1, lx1)
               else if c = CHR '';'' then (addToken tokens SEMICOLON lx1, lx1)
               else if c = CHR '':'' then (addToken tokens COLON lx1, lx1)
               else if c = CHR '','' then (addToken tokens COMMA lx1, lx1)
               else if c = CHR ''.'' then
                 (if peek lx1 = CHR ''.'' \<and> peekNext lx1 = CHR ''.'' then
                    (let lx2 = advanced (advanced lx1) in (addToken tokens ELLIPSIS lx2, lx2))
                  else (addToken tokens (OP OP_DOT) lx1, lx1))
               else if c = CHR ''~'' then (addToken tokens (OP OP_TILDE) lx1, lx1)
               else if c = CHR ''?'' then (addToken tokens (OP OP_QUESTION) lx1, lx1)
               else if c = CHR ''#'' then (addToken tokens HASH lx1, lx1)
               else if c = CHR ''+'' then
                 (let (m, lx2) = match (CHR ''+'') lx1
                  in if m then (addToken tokens (OP OP_PLUS_PLUS) lx2, lx2)
                     else
                       (let (m, lx3) = match (CHR ''='') lx2
                        in if m then (addToken tokens (OP OP_PLUS_EQUALS) lx3, lx3)
                           else (addToken tokens (OP OP_PLUS) lx3, lx3)))
               else if c = CHR ''-'' then
                 (let (m, lx2) = match (CHR ''>'') lx1
                  in if m then (addToken tokens (OP OP_ARROW) lx2, lx2)
                     else
                       (let (m, lx3) = match (CHR ''-'') lx2
                        in if m then (addToken tokens (OP OP_MINUS_MINUS) lx3, lx3)
                           else
                             (let (m, lx4) = match (CHR ''='') lx3
                              in if m then (addToken tokens (OP OP_MINUS_EQUALS) lx4, lx4)
                                 else (addToken tokens (OP OP_MINUS) lx4, lx4))))
               else if c = CHR ''*'' then
                 (let (m, lx2) = match (CHR ''='') lx1
                  in if m then (addToken tokens (OP OP_STAR_EQUALS) lx2, lx2)
                     else (addToken tokens (OP OP_STAR) lx2, lx2))
               else if c = CHR ''/'' then
                 (let (m, lx2) = match (CHR ''='') lx1
                  in if m then (addToken tokens (OP OP_SLASH_EQUALS) lx2, lx2)
                     else (addToken tokens (OP OP_SLASH) lx2, lx2))
               else if c = CHR ''%'' then
                 (let (m, lx2) = match (CHR ''='') lx1
                  in if m then (addToken tokens (OP OP_PERCENT_EQUALS) lx2, lx2)
                     else (addToken tokens (OP OP_PERCENT) lx2, lx2))
               else if c = CHR ''&'' then
                 (let (m, lx2) = match (CHR ''&'') lx1
                  in if m then (addToken tokens (OP OP_LOGICAL_AND) lx2, lx2)
                     else
                       (let (m, lx3) = match (CHR ''='') lx2
                        in if m then (addToken tokens (OP OP_AND_EQUALS) lx3, lx3)
                           else (addToken tokens (OP OP_AMPERSAND) lx3, lx3)))
               else if c = CHR ''|'' then
                 (let (m, lx2) = match (CHR ''|'') lx1
                  in if m then (addToken tokens (OP OP_LOGICAL_OR) lx2, lx2)
                     else
                       (let (m, lx3) = match (CHR ''='') lx2
                        in if m then (addToken tokens (OP OP_OR_EQUALS) lx3, lx3)
                           else (addToken tokens (OP OP_PIPE) lx3, lx3)))
               else if c = CHR ''^'' then
                 (let (m, lx2) = match (CHR ''='') lx1
                  in if m then (addToken tokens (OP OP_XOR_EQUALS) lx2, lx2)
                     else (addToken tokens (OP OP_CARET) lx2, lx2))
               else if c = CHR ''!'' then
                 (let (m, lx2) = match (CHR ''='') lx1
                  in if m then (addToken tokens (OP OP_NOT_EQUALS) lx2, lx2)
                     else (addToken tokens (OP OP_EXCLAMATION) lx2, lx2))
               else if c = CHR ''='' then
                 (let (m, lx2) = match (CHR ''='') lx1
                  in if m then (addToken tokens (OP OP_EQUALS_EQUALS) lx2, lx2)
                     else (addToken tokens (OP OP_EQUALS) lx2, lx2))
               else if c = CHR ''<'' then
                 (let (m, lx2) = match (CHR ''='') lx1
                  in if m then (addToken tokens (OP OP_LESS_EQUALS) lx2, lx2)
                     else
                       (let (m, lx3) = match (CHR ''<'') lx2
                        in if m then
                             (let (m, lx4) = match (CHR ''='') lx3
                              in if m then (addToken tokens (OP OP_SHL_EQUALS) lx4, lx4)
                                 else (addToken tokens (OP OP_SHL) lx4, lx4))
                           else (addToken tokens (OP OP_LESS) lx3, lx3)))
               else if c = CHR ''>'' then
                 (let (m, lx2) = match (CHR ''='') lx1
                  in if m then (addToken tokens (OP OP_GREATER_EQUALS) lx2, lx2)
                     else
                       (let (m, lx3) = match (CHR ''>'') lx2
                        in if m then
                             (let (m, lx4) = match (CHR ''='') lx3
                              in if m then (addToken tokens (OP OP_SHR_EQUALS) lx4, lx4)
                                 else (addToken tokens (OP OP_SHR) lx4, lx4))
                           else (addToken tokens (OP OP_GREATER) lx3, lx3)))
               else if c = CHR 0x22 then string_tok tokens lx1
               else if c = CHR 0x27 then character tokens lx1
               else
                 (tokens,
                  lx_error (line lx1) (column lx1) (''Unexpected character: '' @ [c]) lx1)))"

subsection \<open>What a scanning function does to the position and to the token vector\<close>

lemma advance_eq: "advance lx = (charAt (source lx) (current lx), advanced lx)"
  by (simp add: advanced_def advance_def)

lemma reset_eq: "(advanced lx)\<lparr>current := current lx, column := column lx\<rparr> = lx"
  by (simp add: advanced_def advance_def)

lemma peek_charAt: "\<not> isAtEnd lx \<Longrightarrow> peek lx = charAt (source lx) (current lx)"
  by (simp add: peek_def)

text \<open>\<open>ahead lx lx'\<close>: the same source, and a position that is not before that of \<open>lx\<close>.\<close>

definition ahead :: "Lexer \<Rightarrow> Lexer \<Rightarrow> bool" where
  "ahead lx lx' = (source lx' = source lx \<and> current lx \<le> current lx')"

text \<open>
  \<open>scans tokens lx r\<close>: the result \<open>r\<close> of a scanning function started on \<open>tokens\<close>
  and \<open>lx\<close> is ahead of \<open>lx\<close>, and its token vector is \<open>tokens\<close> followed by tokens
  none of which is the end-of-file token.
\<close>

definition scans :: "Token list \<Rightarrow> Lexer \<Rightarrow> Token list \<times> Lexer \<Rightarrow> bool" where
  "scans tokens lx r =
     (ahead lx (snd r) \<and>
      (\<exists>new. fst r = tokens @ new \<and> END_OF_FILE \<notin> set (map tk_type new)))"

lemma ahead_refl [simp]: "ahead lx lx"
  by (simp add: ahead_def)

lemma ahead_trans: "ahead lx lx1 \<Longrightarrow> ahead lx1 lx2 \<Longrightarrow> ahead lx lx2"
  by (simp add: ahead_def)

lemma ahead_advanced [simp]: "ahead lx (advanced lx)"
  by (simp add: ahead_def)

lemma ahead_advanced' [simp]: "ahead lx lx' \<Longrightarrow> ahead lx (advanced lx')"
  by (simp add: ahead_def)

lemma ahead_lx_error [simp]: "ahead lx (lx_error li co msg lx') = ahead lx lx'"
  by (simp add: ahead_def)

lemma ahead_line [simp]:
  "ahead (lx\<lparr>line := li, column := co\<rparr>) lx' = ahead lx lx'"
  "ahead lx (lx'\<lparr>line := li, column := co\<rparr>) = ahead lx lx'"
  by (simp_all add: ahead_def)

lemma line_update_simps [simp]:
  "isAtEnd (lx\<lparr>line := li, column := co\<rparr>) = isAtEnd lx"
  "peek (lx\<lparr>line := li, column := co\<rparr>) = peek lx"
  "peekNext (lx\<lparr>line := li, column := co\<rparr>) = peekNext lx"
  by (simp_all add: isAtEnd_def peek_def peekNext_def)

lemma ahead_step: "ahead lx1 lx2 \<Longrightarrow> ahead lx lx1 \<Longrightarrow> ahead lx lx2"
  by (simp add: ahead_def)

lemma match_ahead: "match c lx = (m, lx') \<Longrightarrow> ahead lx lx'"
  by (auto simp: match_def ahead_def split: if_splits)

lemma lineCommentLoop_ahead: "ahead lx (lineCommentLoop lx)"
  using lineCommentLoop_current [of lx] by (simp add: ahead_def)

lemma comment_ahead: "ahead lx (comment lx)"
  using comment_current [of lx] by (simp add: ahead_def)

lemma skipWhitespace_ahead: "ahead lx (skipWhitespace lx)"
proof (induction lx rule: skipWhitespace.induct)
  case (1 lx)
  show ?case
  proof (cases "peek lx = CHR '' '' \<or> peek lx = CHR 0x09 \<or> peek lx = CHR 0x0D")
    case True
    with "1.IH"(1) have "ahead (advanced lx) (skipWhitespace (advanced lx))" by simp
    from ahead_step [OF this] True show ?thesis by (subst skipWhitespace.simps) simp
  next
    case a: False
    show ?thesis
    proof (cases "peek lx = CHR 0x0A")
      case True
      with a "1.IH"(2)
      have "ahead (advanced (lx\<lparr>line := line lx + 1, column := 1\<rparr>))
              (skipWhitespace (advanced (lx\<lparr>line := line lx + 1, column := 1\<rparr>)))"
        by simp
      from ahead_step [OF this, of lx] a True show ?thesis
        by (subst skipWhitespace.simps) (simp add: ahead_def)
    next
      case b: False
      show ?thesis
      proof (cases "peek lx = CHR ''/'' \<and> (peekNext lx = CHR ''/'' \<or> peekNext lx = CHR ''*'')")
        case True
        with a b "1.IH"(3) have "ahead (comment lx) (skipWhitespace (comment lx))" by simp
        from ahead_step [OF this comment_ahead] a b True show ?thesis
          by (subst skipWhitespace.simps) simp
      next
        case False
        with a b show ?thesis by (subst skipWhitespace.simps) auto
      qed
    qed
  qed
qed

lemma identifierLoop_ahead: "ahead lx (identifierLoop lx)"
proof (induction lx rule: identifierLoop.induct)
  case (1 lx)
  show ?case by (subst identifierLoop.simps) (use 1 in \<open>auto simp: ahead_def\<close>)
qed

lemma digitsLoop_ahead: "ahead lx (digitsLoop lx)"
proof (induction lx rule: digitsLoop.induct)
  case (1 lx)
  show ?case by (subst digitsLoop.simps) (use 1 in \<open>auto simp: ahead_def\<close>)
qed

lemma recoverLoop_ahead: "ahead lx (recoverLoop lx)"
proof (induction lx rule: recoverLoop.induct)
  case (1 lx)
  show ?case by (subst recoverLoop.simps) (use 1 in \<open>auto simp: ahead_def\<close>)
qed

lemma stringLoop_ahead: "ahead lx (stringLoop sl sc lx)"
proof (induction sl sc lx rule: stringLoop.induct)
  case (1 sl sc lx)
  define lx1 where "lx1 = (if peek lx = CHR 0x0A then lx\<lparr>line := line lx + 1, column := 1\<rparr>
                           else lx)"
  have l1: "ahead lx lx1" by (simp add: lx1_def)
  have eq: "stringLoop sl sc lx =
     (if peek lx \<noteq> CHR 0x22 \<and> \<not> isAtEnd lx then
        (if peek lx1 = CHR 0x5C then
           (if isAtEnd (advanced lx1) then
              lx_error sl sc ''Unterminated string literal: expected escape sequence''
                (advanced lx1)
            else stringLoop sl sc (advanced (advanced lx1)))
         else stringLoop sl sc (advanced lx1))
      else lx)"
    by (subst stringLoop.simps) (simp add: Let_def lx1_def)
  show ?case
  proof (cases "peek lx \<noteq> CHR 0x22 \<and> \<not> isAtEnd lx")
    case False
    then show ?thesis by (auto simp: eq)
  next
    case c: True
    show ?thesis
    proof (cases "peek lx1 = CHR 0x5C")
      case True
      show ?thesis
      proof (cases "isAtEnd (advanced lx1)")
        case True
        with c \<open>peek lx1 = CHR 0x5C\<close> l1 show ?thesis by (simp add: eq)
      next
        case False
        from "1.IH"(1) [OF c lx1_def True refl False]
        have "ahead (advanced (advanced lx1)) (stringLoop sl sc (advanced (advanced lx1)))" .
        from ahead_step [OF this, of lx] l1
        have "ahead lx (stringLoop sl sc (advanced (advanced lx1)))" by simp
        with c False \<open>peek lx1 = CHR 0x5C\<close> show ?thesis by (simp add: eq)
      qed
    next
      case False
      from "1.IH"(2) [OF c lx1_def False]
      have "ahead (advanced lx1) (stringLoop sl sc (advanced lx1))" .
      from ahead_step [OF this, of lx] l1
      have "ahead lx (stringLoop sl sc (advanced lx1))" by simp
      with c False show ?thesis by (simp add: eq)
    qed
  qed
qed

lemma ahead_scanning [simp]:
  "ahead lx lx' \<Longrightarrow> ahead lx (digitsLoop lx')"
  "ahead lx lx' \<Longrightarrow> ahead lx (identifierLoop lx')"
  "ahead lx lx' \<Longrightarrow> ahead lx (recoverLoop lx')"
  "ahead lx lx' \<Longrightarrow> ahead lx (stringLoop sl sc lx')"
  "ahead lx lx' \<Longrightarrow> ahead lx (skipWhitespace lx')"
  by (erule ahead_step [rotated], rule digitsLoop_ahead identifierLoop_ahead
        recoverLoop_ahead stringLoop_ahead skipWhitespace_ahead)+

lemma identifierLoop_advances:
  "isalnum (peek lx) \<or> peek lx = CHR ''_'' \<Longrightarrow> current lx < current (identifierLoop lx)"
  using identifierLoop_ahead [of "advanced lx"]
  by (subst identifierLoop.simps) (auto simp: ahead_def)

lemma digitsLoop_advances: "isdigit (peek lx) \<Longrightarrow> current lx < current (digitsLoop lx)"
  using digitsLoop_ahead [of "advanced lx"]
  by (subst digitsLoop.simps) (auto simp: ahead_def)

lemma makeToken_type [simp]: "tk_type (makeToken ty lx) = ty"
  by (simp add: makeToken_def mkToken_def Let_def)

lemma Keywords_not_EOF: "map_of Keywords text = Some ty \<Longrightarrow> ty \<noteq> END_OF_FILE"
  by (auto simp: Keywords_def split: if_splits)

lemma scans_none [simp]: "ahead lx lx' \<Longrightarrow> scans tokens lx (tokens, lx')"
  by (simp add: scans_def)

lemma scans_add [simp]:
  "ahead lx lx' \<Longrightarrow> ty \<noteq> END_OF_FILE \<Longrightarrow> scans tokens lx (addToken tokens ty lx'', lx')"
  by (simp add: scans_def addToken_def)

lemma scans_from: "scans tokens lx1 r \<Longrightarrow> ahead lx lx1 \<Longrightarrow> scans tokens lx r"
  by (auto simp: scans_def ahead_def)

lemma identifier_scans [simp]:
  "ahead lx lx' \<Longrightarrow> scans tokens lx (identifier_tok tokens lx')"
  by (auto simp: identifier_tok_def Let_def split: option.splits dest: Keywords_not_EOF)

lemma identifier_advances:
  "isalnum (peek lx) \<or> peek lx = CHR ''_'' \<Longrightarrow>
     current lx < current (snd (identifier_tok tokens lx))"
  using identifierLoop_advances [of lx]
  by (auto simp: identifier_tok_def Let_def split: option.splits)

lemma numberSuffix_scans [simp]:
  "ahead lx lx' \<Longrightarrow> scans tokens lx (numberSuffix isFloat tokens lx')"
  by (simp add: numberSuffix_def Let_def)

lemma number_scans [simp]: "ahead lx lx' \<Longrightarrow> scans tokens lx (number tokens lx')"
  by (simp add: number_def Let_def)

lemma number_advances:
  assumes "isdigit (peek lx)"
  shows "current lx < current (snd (number tokens lx))"
proof -
  have "scans tokens (digitsLoop lx) (number tokens lx)"
    by (simp add: number_def Let_def)
  with digitsLoop_advances [OF assms] show ?thesis by (simp add: scans_def ahead_def)
qed

lemma string_scans [simp]: "ahead lx lx' \<Longrightarrow> scans tokens lx (string_tok tokens lx')"
  by (simp add: string_tok_def Let_def)

lemma characterClose_scans [simp]:
  "ahead lx lx' \<Longrightarrow> scans tokens lx (characterClose sl sc tokens lx')"
  by (simp add: characterClose_def Let_def)

lemma character_scans [simp]: "ahead lx lx' \<Longrightarrow> scans tokens lx (character tokens lx')"
  by (simp add: character_def Let_def)

lemma ahead_match [simp]: "ahead lx lx' \<Longrightarrow> ahead lx (snd (match c lx'))"
  by (auto simp: match_def ahead_def)

lemma scanToken_cases:
  fixes tokens lx0
  defines "lx \<equiv> skipWhitespace lx0"
  shows "(isAtEnd lx \<and> scanToken tokens lx0 = (tokens, lx)) \<or>
         (\<not> isAtEnd lx \<and> (isalpha (peek lx) \<or> peek lx = CHR ''_'') \<and>
            scanToken tokens lx0 = identifier_tok tokens lx) \<or>
         (\<not> isAtEnd lx \<and> isdigit (peek lx) \<and> scanToken tokens lx0 = number tokens lx) \<or>
         (\<not> isAtEnd lx \<and> scans tokens (advanced lx) (scanToken tokens lx0))"
proof (cases "isAtEnd lx")
  case True
  then show ?thesis by (simp add: scanToken_def lx_def)
next
  case e: False
  show ?thesis
  proof (cases "isalpha (peek lx) \<or> peek lx = CHR ''_''")
    case True
    with e have "scanToken tokens lx0 = identifier_tok tokens lx"
      unfolding scanToken_def Let_def lx_def [symmetric]
      by (simp add: advance_eq reset_eq peek_charAt)
    with e True show ?thesis by simp
  next
    case a: False
    show ?thesis
    proof (cases "isdigit (peek lx)")
      case True
      with e a have "scanToken tokens lx0 = number tokens lx"
        unfolding scanToken_def Let_def lx_def [symmetric]
        by (simp add: advance_eq reset_eq peek_charAt)
      with e True show ?thesis by simp
    next
      case False
      with e a have "scans tokens (advanced lx) (scanToken tokens lx0)"
        unfolding scanToken_def Let_def lx_def [symmetric]
        by (simp add: advance_eq peek_charAt case_prod_beta)
      with e show ?thesis by simp
    qed
  qed
qed

lemma scanToken_scans: "scans tokens lx (scanToken tokens lx)"
  using scanToken_cases [of lx tokens]
  by (auto intro: scans_from)

lemma scanToken_advances:
  assumes "\<not> isAtEnd lx"
  shows "current lx < current (snd (scanToken tokens lx))"
proof -
  have a: "ahead lx (skipWhitespace lx)" by simp
  from scanToken_cases [of lx tokens] show ?thesis
  proof (elim disjE)
    assume "isAtEnd (skipWhitespace lx) \<and> scanToken tokens lx = (tokens, skipWhitespace lx)"
    with a assms show ?thesis by (simp add: ahead_def isAtEnd_def)
  next
    assume "\<not> isAtEnd (skipWhitespace lx) \<and>
            (isalpha (peek (skipWhitespace lx)) \<or> peek (skipWhitespace lx) = CHR ''_'') \<and>
            scanToken tokens lx = identifier_tok tokens (skipWhitespace lx)"
    with a identifier_advances [of "skipWhitespace lx" tokens] show ?thesis
      by (auto simp: ahead_def isalnum_def)
  next
    assume "\<not> isAtEnd (skipWhitespace lx) \<and> isdigit (peek (skipWhitespace lx)) \<and>
            scanToken tokens lx = number tokens (skipWhitespace lx)"
    with a number_advances [of "skipWhitespace lx" tokens] show ?thesis
      by (auto simp: ahead_def)
  next
    assume "\<not> isAtEnd (skipWhitespace lx) \<and>
            scans tokens (advanced (skipWhitespace lx)) (scanToken tokens lx)"
    with a show ?thesis by (auto simp: scans_def ahead_def)
  qed
qed

subsection \<open>The token sequence\<close>

text \<open>The loop of \<open>tokenize\<close>: \<open>while (!isAtEnd()) { start = current; scanToken(tokens); }\<close>\<close>

function tokenizeLoop :: "Token list \<Rightarrow> Lexer \<Rightarrow> Token list \<times> Lexer" where
  "tokenizeLoop tokens lx =
     (if \<not> isAtEnd lx then
        (case scanToken tokens (lx\<lparr>start := current lx\<rparr>) of
           (tokens1, lx1) \<Rightarrow> tokenizeLoop tokens1 lx1)
      else (tokens, lx))"
  by pat_completeness auto
termination
proof (relation "measure (\<lambda>(tokens, lx). length (source lx) - current lx)")
  fix tokens lx tokens1 lx1
  assume e: "\<not> isAtEnd lx"
    and p: "(tokens1, lx1) = scanToken tokens (lx\<lparr>start := current lx\<rparr>)"
  from p have s: "scanToken tokens (lx\<lparr>start := current lx\<rparr>) = (tokens1, lx1)" by simp
  have "\<not> isAtEnd (lx\<lparr>start := current lx\<rparr>)" using e by (simp add: isAtEnd_def)
  from scanToken_advances [OF this, of tokens]
       scanToken_scans [of tokens "lx\<lparr>start := current lx\<rparr>"] e
  show "((tokens1, lx1), (tokens, lx)) \<in> measure (\<lambda>(tokens, lx). length (source lx) - current lx)"
    by (simp add: s scans_def ahead_def isAtEnd_def)
qed simp

declare tokenizeLoop.simps [simp del]

definition tokenize :: "Lexer \<Rightarrow> Token list \<times> Lexer" where
  "tokenize lx0 =
     (let lx = lx0\<lparr>start := 0, current := 0, line := 1, column := 1\<rparr>;
          (tokens, lx1) = tokenizeLoop [] lx
      in (tokens @ [mkToken END_OF_FILE [] (filename lx1) (line lx1) (column lx1)], lx1))"

section \<open>The expression parser (parser.h, parser.cpp)\<close>

text \<open>
  class Parser: the token vector, the error handler and the index \<open>current\<close>.
\<close>

record Parser =
  p_tokens :: "Token list"
  p_errorHandler :: ErrorHandler
  p_current :: nat

definition newParser :: "Token list \<Rightarrow> ErrorHandler \<Rightarrow> Parser" where
  "newParser toks eh = \<lparr>p_tokens = toks, p_errorHandler = eh, p_current = 0\<rparr>"

text \<open>
  What a parsing function does: it returns a value, or it throws the
  \<open>std::runtime_error\<close> of \<open>consume\<close> or \<open>primary\<close> (the error handler has the
  diagnostic by then), or it reads the token vector out of range, which is undefined
  behaviour.  \<open>OutOfFuel\<close> is no behaviour of the program: the recursion of the model is
  bounded by a counter, and this is the value when the counter is used up.
\<close>

datatype 'a Parse = Returns 'a Parser | Throws string Parser | Undefined | OutOfFuel

definition andThen :: "'a Parse \<Rightarrow> ('a \<Rightarrow> Parser \<Rightarrow> 'b Parse) \<Rightarrow> 'b Parse" where
  "andThen r f =
     (case r of
        Returns x p \<Rightarrow> f x p
      | Throws msg p \<Rightarrow> Throws msg p
      | Undefined \<Rightarrow> Undefined
      | OutOfFuel \<Rightarrow> OutOfFuel)"

definition p_isAtEnd :: "Parser \<Rightarrow> bool" where
  "p_isAtEnd p =
     (p_current p \<ge> length (p_tokens p) \<or>
      tk_type (p_tokens p ! p_current p) = END_OF_FILE)"

text \<open>
  \<open>peek\<close> and \<open>previous\<close> index the vector unchecked.  \<open>previous\<close> is only called
  after a successful \<open>match\<close>, where \<open>current - 1\<close> is in range; the callers of
  \<open>peek\<close> are modelled with the check of the range.
\<close>

definition p_peek :: "Parser \<Rightarrow> Token" where
  "p_peek p = p_tokens p ! p_current p"

definition p_previous :: "Parser \<Rightarrow> Token" where
  "p_previous p = p_tokens p ! (p_current p - 1)"

definition p_advance :: "Parser \<Rightarrow> Parser" where
  "p_advance p = (if \<not> p_isAtEnd p then p\<lparr>p_current := p_current p + 1\<rparr> else p)"

definition p_check :: "TokenType \<Rightarrow> Parser \<Rightarrow> bool" where
  "p_check ty p = (if p_isAtEnd p then False else tk_type (p_peek p) = ty)"

definition p_match :: "TokenType \<Rightarrow> Parser \<Rightarrow> bool \<times> Parser" where
  "p_match ty p = (if p_check ty p then (True, p_advance p) else (False, p))"

text \<open>\<open>match\<close> on an initializer list.\<close>

fun p_matchAny :: "TokenType list \<Rightarrow> Parser \<Rightarrow> bool \<times> Parser" where
  "p_matchAny [] p = (False, p)"
| "p_matchAny (ty # tys) p =
     (let (m, p1) = p_match ty p in if m then (True, p1) else p_matchAny tys p1)"

definition p_fail :: "string \<Rightarrow> Parser \<Rightarrow> 'a Parse" where
  "p_fail message p =
     (if p_current p < length (p_tokens p) then
        Throws message
          (p\<lparr>p_errorHandler :=
               error (tk_line (p_peek p)) (tk_column (p_peek p)) message (p_errorHandler p)\<rparr>)
      else Undefined)"

definition p_consume :: "TokenType \<Rightarrow> string \<Rightarrow> Parser \<Rightarrow> unit Parse" where
  "p_consume ty message p =
     (if p_check ty p then Returns () (p_advance p) else p_fail message p)"

text \<open>
  \<open>std::move(x)\<close> handed to a \<open>std::unique_ptr\<close> parameter taken by value, as those of
  the node constructors are: the parameter gets the pointer, and \<open>x\<close> is null afterwards.
\<close>

definition moved :: "ExpressionNode \<Rightarrow> ExpressionNode \<times> ExpressionNode" where
  "moved x = (x, NullExpr)"

text \<open>
  The functions of the grammar call each other in a cycle, through \<open>expression\<close>.  Each
  is given the parser \<open>expression\<close> of the level below in the counter, and a counter of its
  own for its loop or its recursion.
\<close>

definition primary :: "(Parser \<Rightarrow> ExpressionNode Parse) \<Rightarrow> Parser \<Rightarrow> ExpressionNode Parse" where
  "primary expression p =
     (let (m, p1) =
            p_matchAny [INTEGER_LITERAL, FLOAT_LITERAL, CHAR_LITERAL, STRING_LITERAL] p
      in if m then Returns (LiteralNode (p_previous p1)) p1
         else
           (let (m, p2) = p_match IDENTIFIER p1
            in if m then Returns (VariableNode (p_previous p2)) p2
               else
                 (let (m, p3) = p_match LEFT_PAREN p2
                  in if m then
                       andThen (expression p3)
                         (\<lambda>expr p4.
                            andThen (p_consume RIGHT_PAREN ''Expected ')' after expression'' p4)
                              (\<lambda>u p5. Returns expr p5))
                     else p_fail ''Expected expression'' p3)))"

text \<open>\<open>do { arguments.push_back(expression()); } while (match(COMMA));\<close>\<close>

fun argumentsLoop ::
  "nat \<Rightarrow> (Parser \<Rightarrow> ExpressionNode Parse) \<Rightarrow> ExpressionNode list \<Rightarrow> Parser \<Rightarrow>
   ExpressionNode list Parse" where
  "argumentsLoop 0 expression arguments p = OutOfFuel"
| "argumentsLoop (Suc n) expression arguments p =
     andThen (expression p)
       (\<lambda>a p1. let (m, p2) = p_match COMMA p1
                in if m then argumentsLoop n expression (arguments @ [a]) p2
                   else Returns (arguments @ [a]) p2)"

text \<open>The loop of \<open>postfix\<close>.\<close>

fun postfixLoop ::
  "nat \<Rightarrow> (Parser \<Rightarrow> ExpressionNode Parse) \<Rightarrow> ExpressionNode \<Rightarrow> Parser \<Rightarrow>
   ExpressionNode Parse" where
  "postfixLoop 0 expression expr p = OutOfFuel"
| "postfixLoop (Suc n) expression expr p =
     (let (m, p1) = p_match LEFT_BRACKET p
      in if m then
           andThen (expression p1)
             (\<lambda>index p2.
                andThen (p_consume RIGHT_BRACKET ''Expected ']' after array index'' p2)
                  (\<lambda>u p3. postfixLoop n expression (ArrayAccessNode expr index) p3))
         else
           (let (m, p2) = p_match LEFT_PAREN p1
            in if m then
                 andThen
                   (if \<not> p_check RIGHT_PAREN p2 then argumentsLoop n expression [] p2
                    else Returns [] p2)
                   (\<lambda>arguments p3.
                      andThen (p_consume RIGHT_PAREN ''Expected ')' after arguments'' p3)
                        (\<lambda>u p4. postfixLoop n expression (CallNode expr arguments) p4))
               else
                 (let (m, p3) = p_matchAny [OP OP_DOT, OP OP_ARROW] p2
                  in if m then
                       (if p_current p3 < length (p_tokens p3) then
                          (let op = p_previous p3;
                               member = p_peek p3
                           in andThen
                                (p_consume IDENTIFIER
                                   (''Expected identifier after '.' or '->'' @ [CHR 0x27]) p3)
                                (\<lambda>u p4.
                                   postfixLoop n expression (MemberAccessNode expr op member) p4))
                        else Undefined)
                     else
                       (let (m, p4) = p_matchAny [OP OP_PLUS_PLUS, OP OP_MINUS_MINUS] p3
                        in if m then
                             postfixLoop n expression (UnaryNode (p_previous p4) expr) p4
                           else Returns expr p4))))"

definition postfix ::
  "nat \<Rightarrow> (Parser \<Rightarrow> ExpressionNode Parse) \<Rightarrow> Parser \<Rightarrow> ExpressionNode Parse" where
  "postfix n expression p = andThen (primary expression p) (postfixLoop n expression)"

fun unary ::
  "nat \<Rightarrow> (Parser \<Rightarrow> ExpressionNode Parse) \<Rightarrow> Parser \<Rightarrow> ExpressionNode Parse" where
  "unary 0 expression p = OutOfFuel"
| "unary (Suc n) expression p =
     (let (m, p1) =
            p_matchAny [OP OP_MINUS, OP OP_PLUS, OP OP_EXCLAMATION, OP OP_TILDE, OP OP_STAR,
                        OP OP_AMPERSAND, OP OP_PLUS_PLUS, OP OP_MINUS_MINUS] p
      in if m then
           (let op = p_previous p1
            in andThen (unary n expression p1)
                 (\<lambda>operand p2. Returns (UnaryNode op operand) p2))
         else postfix n expression p1)"

text \<open>
  The loop that the ten levels of binary operators share:
  \<open>while (match({...})) { op = previous(); right = sub(); expr = BinaryNode(expr, op, right); }\<close>
\<close>

fun binaryLoop ::
  "nat \<Rightarrow> TokenType list \<Rightarrow> (Parser \<Rightarrow> ExpressionNode Parse) \<Rightarrow> ExpressionNode \<Rightarrow> Parser \<Rightarrow>
   ExpressionNode Parse" where
  "binaryLoop 0 ops sub expr p = OutOfFuel"
| "binaryLoop (Suc n) ops sub expr p =
     (let (m, p1) = p_matchAny ops p
      in if m then
           (let op = p_previous p1
            in andThen (sub p1)
                 (\<lambda>right p2. binaryLoop n ops sub (BinaryNode expr op right) p2))
         else Returns expr p1)"

definition factor ::
  "nat \<Rightarrow> (Parser \<Rightarrow> ExpressionNode Parse) \<Rightarrow> Parser \<Rightarrow> ExpressionNode Parse" where
  "factor n expression p =
     andThen (unary n expression p)
       (binaryLoop n [OP OP_STAR, OP OP_SLASH, OP OP_PERCENT] (unary n expression))"

definition termExpr ::
  "nat \<Rightarrow> (Parser \<Rightarrow> ExpressionNode Parse) \<Rightarrow> Parser \<Rightarrow> ExpressionNode Parse" where
  "termExpr n expression p =
     andThen (factor n expression p)
       (binaryLoop n [OP OP_PLUS, OP OP_MINUS] (factor n expression))"

definition shift ::
  "nat \<Rightarrow> (Parser \<Rightarrow> ExpressionNode Parse) \<Rightarrow> Parser \<Rightarrow> ExpressionNode Parse" where
  "shift n expression p =
     andThen (termExpr n expression p)
       (binaryLoop n [OP OP_SHL, OP OP_SHR] (termExpr n expression))"

definition comparison ::
  "nat \<Rightarrow> (Parser \<Rightarrow> ExpressionNode Parse) \<Rightarrow> Parser \<Rightarrow> ExpressionNode Parse" where
  "comparison n expression p =
     andThen (shift n expression p)
       (binaryLoop n [OP OP_LESS, OP OP_LESS_EQUALS, OP OP_GREATER, OP OP_GREATER_EQUALS]
          (shift n expression))"

definition equality ::
  "nat \<Rightarrow> (Parser \<Rightarrow> ExpressionNode Parse) \<Rightarrow> Parser \<Rightarrow> ExpressionNode Parse" where
  "equality n expression p =
     andThen (comparison n expression p)
       (binaryLoop n [OP OP_EQUALS_EQUALS, OP OP_NOT_EQUALS] (comparison n expression))"

definition bitwiseAnd ::
  "nat \<Rightarrow> (Parser \<Rightarrow> ExpressionNode Parse) \<Rightarrow> Parser \<Rightarrow> ExpressionNode Parse" where
  "bitwiseAnd n expression p =
     andThen (equality n expression p)
       (binaryLoop n [OP OP_AMPERSAND] (equality n expression))"

definition bitwiseXor ::
  "nat \<Rightarrow> (Parser \<Rightarrow> ExpressionNode Parse) \<Rightarrow> Parser \<Rightarrow> ExpressionNode Parse" where
  "bitwiseXor n expression p =
     andThen (bitwiseAnd n expression p)
       (binaryLoop n [OP OP_CARET] (bitwiseAnd n expression))"

definition bitwiseOr ::
  "nat \<Rightarrow> (Parser \<Rightarrow> ExpressionNode Parse) \<Rightarrow> Parser \<Rightarrow> ExpressionNode Parse" where
  "bitwiseOr n expression p =
     andThen (bitwiseXor n expression p)
       (binaryLoop n [OP OP_PIPE] (bitwiseXor n expression))"

definition logicalAnd ::
  "nat \<Rightarrow> (Parser \<Rightarrow> ExpressionNode Parse) \<Rightarrow> Parser \<Rightarrow> ExpressionNode Parse" where
  "logicalAnd n expression p =
     andThen (bitwiseOr n expression p)
       (binaryLoop n [OP OP_LOGICAL_AND] (bitwiseOr n expression))"

definition logicalOr ::
  "nat \<Rightarrow> (Parser \<Rightarrow> ExpressionNode Parse) \<Rightarrow> Parser \<Rightarrow> ExpressionNode Parse" where
  "logicalOr n expression p =
     andThen (logicalAnd n expression p)
       (binaryLoop n [OP OP_LOGICAL_OR] (logicalAnd n expression))"

fun conditionalExpr ::
  "nat \<Rightarrow> (Parser \<Rightarrow> ExpressionNode Parse) \<Rightarrow> Parser \<Rightarrow> ExpressionNode Parse" where
  "conditionalExpr 0 expression p = OutOfFuel"
| "conditionalExpr (Suc n) expression p =
     andThen (logicalOr n expression p)
       (\<lambda>condition p1.
          let (m, p2) = p_match (OP OP_QUESTION) p1
          in if m then
               andThen (expression p2)
                 (\<lambda>trueExpr p3.
                    andThen (p_consume COLON ''Expected ':' in conditional expression'' p3)
                      (\<lambda>u p4.
                         andThen (conditionalExpr n expression p4)
                           (\<lambda>falseExpr p5.
                              Returns (ConditionalNode condition trueExpr falseExpr) p5)))
             else Returns condition p2)"

text \<open>The switch of \<open>assignment\<close>: \<open>+=\<close> to \<open>+\<close>, and so on; \<open>UNKNOWN\<close> for \<open>=\<close>.\<close>

definition compoundOperator :: "TokenType \<Rightarrow> TokenType" where
  "compoundOperator ty =
     (if ty = OP OP_PLUS_EQUALS then OP OP_PLUS
      else if ty = OP OP_MINUS_EQUALS then OP OP_MINUS
      else if ty = OP OP_STAR_EQUALS then OP OP_STAR
      else if ty = OP OP_SLASH_EQUALS then OP OP_SLASH
      else if ty = OP OP_PERCENT_EQUALS then OP OP_PERCENT
      else if ty = OP OP_AND_EQUALS then OP OP_AMPERSAND
      else if ty = OP OP_OR_EQUALS then OP OP_PIPE
      else if ty = OP OP_XOR_EQUALS then OP OP_CARET
      else if ty = OP OP_SHL_EQUALS then OP OP_SHL
      else if ty = OP OP_SHR_EQUALS then OP OP_SHR
      else UNKNOWN)"

definition assignmentOperators :: "TokenType list" where
  "assignmentOperators =
     [OP OP_EQUALS, OP OP_PLUS_EQUALS, OP OP_MINUS_EQUALS, OP OP_STAR_EQUALS,
      OP OP_SLASH_EQUALS, OP OP_PERCENT_EQUALS, OP OP_AND_EQUALS, OP OP_OR_EQUALS,
      OP OP_XOR_EQUALS, OP OP_SHL_EQUALS, OP OP_SHR_EQUALS]"

text \<open>
  The node that \<open>assignment\<close> builds from the left operand \<open>expr\<close>, the operator token
  and the right operand \<open>value\<close>.  For a compound operator, \<open>expr\<close> is moved into the
  node of the binary operator, and then moved again into the node of \<open>=\<close>.
\<close>

definition assignmentNode :: "ExpressionNode \<Rightarrow> Token \<Rightarrow> ExpressionNode \<Rightarrow> ExpressionNode" where
  "assignmentNode expr op val =
     (let binaryOp = compoundOperator (tk_type op)
      in if binaryOp \<noteq> UNKNOWN then
           (let binaryToken =
                  mkToken binaryOp (substr (tk_lexeme op) 0 (length (tk_lexeme op) - 1))
                    (tk_filename op) (tk_line op) (tk_column op);
                (left1, expr1) = moved expr;
                (right1, val1) = moved val;
                right = BinaryNode left1 binaryToken right1;
                equalsToken =
                  mkToken (OP OP_EQUALS) ''='' (tk_filename op) (tk_line op) (tk_column op);
                (left2, expr2) = moved expr1;
                (right2, right3) = moved right
            in BinaryNode left2 equalsToken right2)
         else
           (let (left1, expr1) = moved expr;
                (right1, val1) = moved val
            in BinaryNode left1 op right1))"

fun assignment ::
  "nat \<Rightarrow> (Parser \<Rightarrow> ExpressionNode Parse) \<Rightarrow> Parser \<Rightarrow> ExpressionNode Parse" where
  "assignment 0 expression p = OutOfFuel"
| "assignment (Suc n) expression p =
     andThen (conditionalExpr n expression p)
       (\<lambda>expr p1.
          let (m, p2) = p_matchAny assignmentOperators p1
          in if m then
               (let op = p_previous p2
                in andThen (assignment n expression p2)
                     (\<lambda>val p3. Returns (assignmentNode expr op val) p3))
             else Returns expr p2)"

fun expression :: "nat \<Rightarrow> Parser \<Rightarrow> ExpressionNode Parse" where
  "expression 0 p = OutOfFuel"
| "expression (Suc n) p = assignment n (expression n) p"

section \<open>The object under construction (coil library, used by codegen.cpp)\<close>

text \<open>
  Modelled from the spec: the headers \<open>coil/binary_format.h\<close>, \<open>coil/instruction_set.h\<close>
  and \<open>coil/type_system.h\<close> are not part of the sources.  The spec gives the object as an
  append-only symbol array, an append-only section array and one append-only instruction
  stream per section, with the operations \<open>add_symbol\<close>, \<open>find_symbol\<close>,
  \<open>add_section\<close> and \<open>append_instruction\<close>; it lists the opcodes by name and says that
  \<open>PARAM_ABI\<close> and \<open>RET_ABI\<close> are symbolic tags.  The numeric values of opcodes, type
  codes and flags are unknown, so they are the constructors of datatypes here: \<open>I_ADD\<close> is
  \<open>coil::Opcode::ADD\<close>, \<open>T_INT32\<close> is \<open>coil::Type::INT32\<close>, \<open>ABI_PARAM\<close> is
  \<open>coil::Type::ABICTL | coil::Type::PARAM\<close>, and a set of flags is their bitwise or.
\<close>

datatype Opcode =
  I_PROC | I_SYM | I_VAR | I_SCOPEE | I_SCOPEL | I_MOV | I_CMP | I_BR | I_ADD | I_SUB
| I_MUL | I_DIV | I_MOD | I_NEG | I_NOT | I_INC | I_DEC | I_INDEX | I_CALL | I_RET

datatype CoilType = T_INT32 | T_INT8 | T_FP32 | T_FP64 | T_PTR | T_VOID

datatype AbiControl = ABI_PARAM | ABI_RET

datatype SymbolFlag = SF_GLOBAL | SF_FUNCTION | SF_DATA

datatype SectionFlag =
  SEC_EXECUTABLE | SEC_READABLE | SEC_WRITABLE | SEC_INITIALIZED | SEC_UNINITIALIZED

text \<open>A \<open>float\<close> value \<open>m * 2 ^ e\<close>, as its mantissa and exponent.\<close>

datatype float32 = Float32 int int

text \<open>
  \<open>coil::Operand\<close>: a variable, a symbol, or an immediate of the C++ type the source
  instantiates \<open>createImmediate\<close> with.  An immediate that holds a type code or an ABI
  control value is \<open>ImmType\<close> or \<open>ImmAbi\<close>.
\<close>

datatype Operand =
    VariableOperand "16 word"
  | SymbolOperand "16 word"
  | ImmU8 "8 word"
  | ImmU16 "16 word"
  | ImmI8 "8 word"
  | ImmI32 int
  | ImmF32 float32
  | ImmType CoilType
  | ImmAbi AbiControl

datatype Instruction = Instruction Opcode "Operand list"

record Symbol =
  sym_name :: string
  sym_name_length :: nat
  sym_attributes :: "SymbolFlag set"
  sym_value :: nat
  sym_section_index :: "16 word"
  sym_processor_type :: "8 word"

record Section =
  sec_name_index :: "16 word"
  sec_attributes :: "SectionFlag set"
  sec_offset :: nat
  sec_size :: nat
  sec_address :: nat
  sec_alignment :: nat
  sec_processor_type :: "8 word"

record CoilObject =
  symbols :: "Symbol list"
  sections :: "Section list"
  instructions :: "16 word \<Rightarrow> Instruction list"

definition emptyCoilObject :: CoilObject where
  "emptyCoilObject = \<lparr>symbols = [], sections = [], instructions = (\<lambda>s. [])\<rparr>"

definition addSymbol :: "Symbol \<Rightarrow> CoilObject \<Rightarrow> 16 word \<times> CoilObject" where
  "addSymbol symb obj =
     (of_nat (length (symbols obj)), obj\<lparr>symbols := symbols obj @ [symb]\<rparr>)"

text \<open>The index of the first symbol of that name, \<open>UINT16_MAX\<close> if there is none.\<close>

fun findSymbolFrom :: "nat \<Rightarrow> string \<Rightarrow> Symbol list \<Rightarrow> 16 word" where
  "findSymbolFrom i name [] = 0xFFFF"
| "findSymbolFrom i name (s # ss) =
     (if sym_name s = name then of_nat i else findSymbolFrom (Suc i) name ss)"

definition findSymbol :: "string \<Rightarrow> CoilObject \<Rightarrow> 16 word" where
  "findSymbol name obj = findSymbolFrom 0 name (symbols obj)"

definition addSection :: "Section \<Rightarrow> CoilObject \<Rightarrow> 16 word \<times> CoilObject" where
  "addSection sec obj = (of_nat (length (sections obj)), obj\<lparr>sections := sections obj @ [sec]\<rparr>)"

definition addInstruction :: "16 word \<Rightarrow> Instruction \<Rightarrow> CoilObject \<Rightarrow> CoilObject" where
  "addInstruction sectionIndex ins obj =
     obj\<lparr>instructions := (instructions obj)(sectionIndex := instructions obj sectionIndex @ [ins])\<rparr>"

section \<open>Code generation (codegen.h, codegen.cpp)\<close>

text \<open>struct Variable of codegen.h.\<close>

record Variable =
  var_name :: string
  varId :: "16 word"
  var_type :: CoilType

text \<open>
  class CodeGenerator.  \<open>scopeStack\<close> is the \<open>std::stack\<close> of the source with its top
  at the head of the list; \<open>nextVarId\<close> is a \<open>uint16_t\<close> and wraps around.
\<close>

record CodeGenerator =
  optimizationLevel :: int
  cg_errorHandler :: ErrorHandler
  coilObject :: CoilObject
  textSectionIndex :: "16 word"
  dataSectionIndex :: "16 word"
  bssSectionIndex :: "16 word"
  variables :: "string \<rightharpoonup> Variable"
  nextVarId :: "16 word"
  scopeStack :: "string list list"
  currentFunction :: string
  labelCounter :: nat

definition newCodeGenerator :: "int \<Rightarrow> ErrorHandler \<Rightarrow> CodeGenerator" where
  "newCodeGenerator level eh =
     \<lparr>optimizationLevel = level, cg_errorHandler = eh, coilObject = emptyCoilObject,
      textSectionIndex = 0, dataSectionIndex = 0, bssSectionIndex = 0,
      variables = Map.empty, nextVarId = 1, scopeStack = [], currentFunction = [],
      labelCounter = 0\<rparr>"

definition cg_error :: "int \<Rightarrow> int \<Rightarrow> string \<Rightarrow> CodeGenerator \<Rightarrow> CodeGenerator" where
  "cg_error li co msg g = g\<lparr>cg_errorHandler := error li co msg (cg_errorHandler g)\<rparr>"

definition cg_warning :: "int \<Rightarrow> int \<Rightarrow> string \<Rightarrow> CodeGenerator \<Rightarrow> CodeGenerator" where
  "cg_warning li co msg g = g\<lparr>cg_errorHandler := warning li co msg (cg_errorHandler g)\<rparr>"

definition getNextVarId :: "CodeGenerator \<Rightarrow> 16 word \<times> CodeGenerator" where
  "getNextVarId g = (nextVarId g, g\<lparr>nextVarId := nextVarId g + 1\<rparr>)"

definition emitInstruction :: "Opcode \<Rightarrow> Operand list \<Rightarrow> CodeGenerator \<Rightarrow> CodeGenerator" where
  "emitInstruction opcode operands g =
     g\<lparr>coilObject := addInstruction (textSectionIndex g) (Instruction opcode operands)
                        (coilObject g)\<rparr>"

definition emitScopeEnter :: "CodeGenerator \<Rightarrow> CodeGenerator" where
  "emitScopeEnter g = emitInstruction I_SCOPEE [] g"

definition emitScopeLeave :: "CodeGenerator \<Rightarrow> CodeGenerator" where
  "emitScopeLeave g = emitInstruction I_SCOPEL [] g"

text \<open>\<open>emitVarDeclaration\<close>; the default argument \<open>initializer = 0\<close> means "none".\<close>

definition emitVarDeclaration :: "16 word \<Rightarrow> CoilType \<Rightarrow> 16 word \<Rightarrow> CodeGenerator \<Rightarrow> CodeGenerator" where
  "emitVarDeclaration v ty initializer g =
     emitInstruction I_VAR
       ([VariableOperand v, ImmType ty] @
        (if initializer \<noteq> 0 then [VariableOperand initializer] else [])) g"

text \<open>\<open>CodeGenerator::addSymbol(name, attributes = 0, sectionIndex = 0)\<close>.\<close>

definition cg_addSymbol ::
  "string \<Rightarrow> SymbolFlag set \<Rightarrow> 16 word \<Rightarrow> CodeGenerator \<Rightarrow> 16 word \<times> CodeGenerator" where
  "cg_addSymbol name attributes sectionIndex g =
     (let existingSymbol = findSymbol name (coilObject g) in
      if existingSymbol \<noteq> 0xFFFF then (existingSymbol, g)
      else
        (let (i, obj) = addSymbol
               \<lparr>sym_name = name, sym_name_length = length name, sym_attributes = attributes,
                sym_value = 0, sym_section_index = sectionIndex, sym_processor_type = 1\<rparr>
               (coilObject g)
         in (i, g\<lparr>coilObject := obj\<rparr>)))"

definition emitLabel :: "string \<Rightarrow> CodeGenerator \<Rightarrow> CodeGenerator" where
  "emitLabel label g =
     (let (symbolIndex, g1) = cg_addSymbol label {} (textSectionIndex g) g
      in emitInstruction I_SYM [SymbolOperand symbolIndex] g1)"

text \<open>
  \<open>emitJump\<close>: a \<open>BR\<close> to the symbol of a label.  The statement and expression
  generators spell these three lines out at each branch they emit.
\<close>

definition emitJump :: "string \<Rightarrow> CodeGenerator \<Rightarrow> CodeGenerator" where
  "emitJump label g =
     (let (symbolIndex, g1) = cg_addSymbol label {} 0 g
      in emitInstruction I_BR [SymbolOperand symbolIndex] g1)"

definition generateLabel :: "string \<Rightarrow> CodeGenerator \<Rightarrow> string \<times> CodeGenerator" where
  "generateLabel pfx g =
     (pfx @ ''_'' @ to_string (labelCounter g), g\<lparr>labelCounter := labelCounter g + 1\<rparr>)"

definition cg_enterScope :: "CodeGenerator \<Rightarrow> CodeGenerator" where
  "cg_enterScope g = g\<lparr>scopeStack := [] # scopeStack g\<rparr>"

text \<open>The loop of \<open>leaveScope\<close>: \<open>variables.erase(varName)\<close> for each name of the top list.\<close>

fun eraseAll :: "string list \<Rightarrow> (string \<rightharpoonup> Variable) \<Rightarrow> (string \<rightharpoonup> Variable)" where
  "eraseAll [] m = m"
| "eraseAll (n # ns) m = eraseAll ns (m(n := None))"

definition cg_leaveScope :: "CodeGenerator \<Rightarrow> CodeGenerator" where
  "cg_leaveScope g =
     (case scopeStack g of
        [] \<Rightarrow> g
      | names # rest \<Rightarrow> g\<lparr>variables := eraseAll names (variables g), scopeStack := rest\<rparr>)"

text \<open>
  \<open>variables[name] = Variable(...)\<close> followed by \<open>scopeStack.top().push_back(name)\<close>;
  \<open>top()\<close> of an empty stack is undefined behaviour.
\<close>

definition declareVariable ::
  "string \<Rightarrow> 16 word \<Rightarrow> CoilType \<Rightarrow> CodeGenerator \<Rightarrow> Exn + CodeGenerator" where
  "declareVariable name v ty g =
     (case scopeStack g of
        [] \<Rightarrow> Inl UndefinedBehaviour
      | names # rest \<Rightarrow>
          Inr (g\<lparr>variables := (variables g)(name \<mapsto> \<lparr>var_name = name, varId = v, var_type = ty\<rparr>),
                 scopeStack := (names @ [name]) # rest\<rparr>))"

definition translateType :: "TypeNode \<Rightarrow> CodeGenerator \<Rightarrow> CoilType \<times> CodeGenerator" where
  "translateType typeNode g =
     (let ty = tk_type (tn_name typeNode) in
      if ty = KW KW_INT then (if tn_isPointer typeNode then (T_PTR, g) else (T_INT32, g))
      else if ty = KW KW_CHAR then (if tn_isPointer typeNode then (T_PTR, g) else (T_INT8, g))
      else if ty = KW KW_FLOAT then (T_FP32, g)
      else if ty = KW KW_DOUBLE then (T_FP64, g)
      else if ty = KW KW_VOID then (if tn_isPointer typeNode then (T_PTR, g) else (T_VOID, g))
      else (T_INT32,
            cg_warning (tk_line (tn_name typeNode)) (tk_column (tn_name typeNode))
              (''Unknown type '' @ [CHR 0x27] @ tk_lexeme (tn_name typeNode) @ [CHR 0x27] @
               '', defaulting to int'') g))"

subsection \<open>The standard library calls of \<open>generateLiteral\<close>\<close>

fun digitsValue :: "nat \<Rightarrow> string \<Rightarrow> nat" where
  "digitsValue acc [] = acc"
| "digitsValue acc (c # cs) = digitsValue (acc * 10 + (charCode c - 48)) cs"

text \<open>
  \<open>std::stoi\<close> in base 10: leading white space is skipped, then an optional sign and the
  longest run of digits are read; no digit is \<open>std::invalid_argument\<close>, a value outside
  the range of \<open>int\<close> is \<open>std::out_of_range\<close>.
\<close>

definition stoi :: "string \<Rightarrow> Exn + int" where
  "stoi s =
     (let s1 = dropWhile isspace s;
          neg = (s1 \<noteq> [] \<and> hd s1 = CHR ''-'');
          s2 = (if s1 \<noteq> [] \<and> (hd s1 = CHR ''-'' \<or> hd s1 = CHR ''+'') then tl s1 else s1);
          ds = takeWhile isdigit s2;
          v = (if neg then - int (digitsValue 0 ds) else int (digitsValue 0 ds))
      in if ds = [] then Inl InvalidArgument
         else if v < - 2147483648 \<or> 2147483647 < v then Inl OutOfRange
         else Inr v)"

text \<open>
  \<open>std::stof\<close> reads a floating-point number; its rounding and its range check are
  those of the C library and are not modelled.  The generator takes the function as a
  parameter: it returns the value or the exception for a given string.
\<close>

type_synonym stof_fn = "string \<Rightarrow> Exn + float32"

subsection \<open>Expressions\<close>

text \<open>The character a \<open>CHAR_LITERAL\<close> token stands for, as \<open>generateLiteral\<close> reads it.\<close>

definition charLiteralValue :: "string \<Rightarrow> Exn + char" where
  "charLiteralValue lexeme =
     (if length lexeme = 0 then Inl UndefinedBehaviour
      else
        (let val = (if length lexeme = 1 then CHR 0x00 else lexeme ! 1) in
         if val = CHR 0x5C \<and> length lexeme > 2 then
           (let escape = lexeme ! 2 in
            Inr (if escape = CHR ''n'' then CHR 0x0A
                 else if escape = CHR ''t'' then CHR 0x09
                 else if escape = CHR ''r'' then CHR 0x0D
                 else if escape = CHR ''0'' then CHR 0x00
                 else if escape = CHR 0x5C then CHR 0x5C
                 else if escape = CHR 0x27 then CHR 0x27
                 else if escape = CHR 0x22 then CHR 0x22
                 else escape))
         else Inr val))"

definition generateLiteral ::
  "stof_fn \<Rightarrow> Token \<Rightarrow> CodeGenerator \<Rightarrow> Exn + 16 word \<times> CodeGenerator" where
  "generateLiteral stof tok g =
     (let (resultVarId, g1) = getNextVarId g in
      if tk_type tok = INTEGER_LITERAL then
        (case stoi (tk_lexeme tok) of
           Inl x \<Rightarrow> Inl x
         | Inr val \<Rightarrow>
            Inr (resultVarId,
                 emitInstruction I_MOV [VariableOperand resultVarId, ImmI32 val]
                   (emitVarDeclaration resultVarId T_INT32 0 g1)))
      else if tk_type tok = FLOAT_LITERAL then
        (case stof (tk_lexeme tok) of
           Inl x \<Rightarrow> Inl x
         | Inr val \<Rightarrow>
            Inr (resultVarId,
                 emitInstruction I_MOV [VariableOperand resultVarId, ImmF32 val]
                   (emitVarDeclaration resultVarId T_FP32 0 g1)))
      else if tk_type tok = CHAR_LITERAL then
        (case charLiteralValue (tk_lexeme tok) of
           Inl x \<Rightarrow> Inl x
         | Inr val \<Rightarrow>
            Inr (resultVarId,
                 emitInstruction I_MOV [VariableOperand resultVarId, ImmI8 (of_char val)]
                   (emitVarDeclaration resultVarId T_INT8 0 g1)))
      else if tk_type tok = STRING_LITERAL then
        Inr (resultVarId,
             emitInstruction I_MOV [VariableOperand resultVarId, ImmI32 0]
               (emitVarDeclaration resultVarId T_PTR 0
                  (cg_warning 0 0 ''String literals not fully implemented'' g1)))
      else Inr (0, cg_error 0 0 ''Unknown literal type'' g1))"

definition generateVariable :: "Token \<Rightarrow> CodeGenerator \<Rightarrow> 16 word \<times> CodeGenerator" where
  "generateVariable name g =
     (case variables g (tk_lexeme name) of
        None \<Rightarrow>
          (0, cg_error (tk_line name) (tk_column name)
                (''Undefined variable: '' @ tk_lexeme name) g)
      | Some v \<Rightarrow> (varId v, g))"

text \<open>\<open>generateUnary\<close> after the operand has been generated.\<close>

definition generateUnaryOp :: "Token \<Rightarrow> 16 word \<Rightarrow> CodeGenerator \<Rightarrow> 16 word \<times> CodeGenerator" where
  "generateUnaryOp op operandVarId g =
     (let (resultVarId, g1) = getNextVarId g;
          resultType = T_INT32;
          ty = tk_type op
      in
      if ty = OP OP_MINUS then
        (resultVarId,
         emitInstruction I_NEG [VariableOperand resultVarId, VariableOperand operandVarId]
           (emitVarDeclaration resultVarId resultType 0 g1))
      else if ty = OP OP_PLUS then
        (resultVarId,
         emitInstruction I_MOV [VariableOperand resultVarId, VariableOperand operandVarId]
           (emitVarDeclaration resultVarId resultType 0 g1))
      else if ty = OP OP_EXCLAMATION then
        (resultVarId,
         emitInstruction I_MOV [VariableOperand resultVarId, ImmI32 1]
           (emitInstruction I_CMP [VariableOperand operandVarId, ImmI32 0]
              (emitVarDeclaration resultVarId resultType 0 g1)))
      else if ty = OP OP_TILDE then
        (resultVarId,
         emitInstruction I_NOT [VariableOperand resultVarId, VariableOperand operandVarId]
           (emitVarDeclaration resultVarId resultType 0 g1))
      else if ty = OP OP_PLUS_PLUS then
        (resultVarId,
         emitInstruction I_INC [VariableOperand operandVarId]
           (emitInstruction I_MOV [VariableOperand resultVarId, VariableOperand operandVarId]
              (emitVarDeclaration resultVarId resultType 0 g1)))
      else if ty = OP OP_MINUS_MINUS then
        (resultVarId,
         emitInstruction I_DEC [VariableOperand operandVarId]
           (emitInstruction I_MOV [VariableOperand resultVarId, VariableOperand operandVarId]
              (emitVarDeclaration resultVarId resultType 0 g1)))
      else if ty = OP OP_STAR then
        (operandVarId, cg_warning 0 0 ''Dereference operator not fully implemented'' g1)
      else if ty = OP OP_AMPERSAND then
        (operandVarId, cg_warning 0 0 ''Address-of operator not fully implemented'' g1)
      else
        (0, cg_error (tk_line op) (tk_column op)
              (''Unknown unary operator: '' @ tk_lexeme op) g1))"

text \<open>The arithmetic cases of \<open>generateBinary\<close>: a declaration, then the instruction.\<close>

definition emitArithmetic ::
  "Opcode \<Rightarrow> 16 word \<Rightarrow> 16 word \<Rightarrow> 16 word \<Rightarrow> CodeGenerator \<Rightarrow> 16 word \<times> CodeGenerator" where
  "emitArithmetic opcode resultVarId leftVarId rightVarId g =
     (resultVarId,
      emitInstruction opcode
        [VariableOperand resultVarId, VariableOperand leftVarId, VariableOperand rightVarId]
        (emitVarDeclaration resultVarId T_INT32 0 g))"

text \<open>\<open>generateBinary\<close> after both operands have been generated.\<close>

definition generateBinaryOp ::
  "Token \<Rightarrow> 16 word \<Rightarrow> 16 word \<Rightarrow> CodeGenerator \<Rightarrow> 16 word \<times> CodeGenerator" where
  "generateBinaryOp op leftVarId rightVarId g =
     (let (resultVarId, g1) = getNextVarId g;
          ty = tk_type op
      in
      if ty = OP OP_PLUS then emitArithmetic I_ADD resultVarId leftVarId rightVarId g1
      else if ty = OP OP_MINUS then emitArithmetic I_SUB resultVarId leftVarId rightVarId g1
      else if ty = OP OP_STAR then emitArithmetic I_MUL resultVarId leftVarId rightVarId g1
      else if ty = OP OP_SLASH then emitArithmetic I_DIV resultVarId leftVarId rightVarId g1
      else if ty = OP OP_PERCENT then emitArithmetic I_MOD resultVarId leftVarId rightVarId g1
      else if ty = OP OP_EQUALS then
        (leftVarId,
         emitInstruction I_MOV [VariableOperand leftVarId, VariableOperand rightVarId] g1)
      else
        (0, cg_error (tk_line op) (tk_column op)
              (''Binary operator not implemented: '' @ tk_lexeme op) g1))"

text \<open>\<open>generateCall\<close> after the arguments have been generated.\<close>

definition emitCall :: "string \<Rightarrow> 16 word list \<Rightarrow> CodeGenerator \<Rightarrow> 16 word \<times> CodeGenerator" where
  "emitCall funcName argVarIds g =
     (let (returnVarId, g1) = getNextVarId g;
          g2 = emitVarDeclaration returnVarId T_INT32 0 g1;
          (funcSymbol, g3) = cg_addSymbol funcName {} 0 g2;
          g4 = emitInstruction I_CALL
                 ([SymbolOperand funcSymbol, ImmAbi ABI_PARAM] @ map VariableOperand argVarIds) g3;
          g5 = emitInstruction I_MOV [VariableOperand returnVarId, ImmAbi ABI_RET] g4
      in (returnVarId, g5))"

text \<open>The part of \<open>generateConditional\<close> between the condition and the true branch.\<close>

definition conditionalHead ::
  "16 word \<Rightarrow> CodeGenerator \<Rightarrow> (string \<times> string \<times> 16 word) \<times> CodeGenerator" where
  "conditionalHead condVarId g =
     (let (falseLabel, g1) = generateLabel ''cond_false'' g;
          (endLabel, g2) = generateLabel ''cond_end'' g1;
          (resultVarId, g3) = getNextVarId g2;
          g4 = emitVarDeclaration resultVarId T_INT32 0 g3;
          g5 = emitInstruction I_CMP [VariableOperand condVarId, ImmI32 0] g4;
          g6 = emitJump falseLabel g5
      in ((falseLabel, endLabel, resultVarId), g6))"

fun generateExpression ::
  "stof_fn \<Rightarrow> ExpressionNode \<Rightarrow> CodeGenerator \<Rightarrow> Exn + 16 word \<times> CodeGenerator"
and generateArguments ::
  "stof_fn \<Rightarrow> ExpressionNode list \<Rightarrow> CodeGenerator \<Rightarrow> Exn + 16 word list \<times> CodeGenerator"
where
  "generateExpression stof NullExpr g = Inr (0, cg_error 0 0 ''Null expression'' g)"
| "generateExpression stof (LiteralNode tok) g = generateLiteral stof tok g"
| "generateExpression stof (VariableNode name) g = Inr (generateVariable name g)"
| "generateExpression stof (UnaryNode op operand) g =
     (case generateExpression stof operand g of
        Inl x \<Rightarrow> Inl x
      | Inr (operandVarId, g1) \<Rightarrow> Inr (generateUnaryOp op operandVarId g1))"
| "generateExpression stof (BinaryNode left op right) g =
     (case generateExpression stof left g of
        Inl x \<Rightarrow> Inl x
      | Inr (leftVarId, g1) \<Rightarrow>
         (case generateExpression stof right g1 of
            Inl x \<Rightarrow> Inl x
          | Inr (rightVarId, g2) \<Rightarrow> Inr (generateBinaryOp op leftVarId rightVarId g2)))"
| "generateExpression stof (CallNode callee arguments) g =
     (case callee of
        NullExpr \<Rightarrow> Inl UndefinedBehaviour
      | VariableNode name \<Rightarrow>
         (case generateArguments stof arguments g of
            Inl x \<Rightarrow> Inl x
          | Inr (argVarIds, g1) \<Rightarrow> Inr (emitCall (tk_lexeme name) argVarIds g1))
      | _ \<Rightarrow> Inr (0, cg_error 0 0 ''Only simple function calls supported'' g))"
| "generateExpression stof (ArrayAccessNode array index) g =
     (case generateExpression stof array g of
        Inl x \<Rightarrow> Inl x
      | Inr (arrayVarId, g1) \<Rightarrow>
         (case generateExpression stof index g1 of
            Inl x \<Rightarrow> Inl x
          | Inr (indexVarId, g2) \<Rightarrow>
             (let (resultVarId, g3) = getNextVarId g2 in
              Inr (resultVarId,
                   emitInstruction I_INDEX
                     [VariableOperand resultVarId, VariableOperand arrayVarId,
                      VariableOperand indexVarId]
                     (emitVarDeclaration resultVarId T_INT32 0 g3)))))"
| "generateExpression stof (MemberAccessNode object op member) g =
     Inr (0, cg_warning 0 0 ''Member access not implemented'' g)"
| "generateExpression stof (ConditionalNode condition trueExpr falseExpr) g =
     (case generateExpression stof condition g of
        Inl x \<Rightarrow> Inl x
      | Inr (condVarId, g1) \<Rightarrow>
         (case conditionalHead condVarId g1 of
            ((falseLabel, endLabel, resultVarId), g2) \<Rightarrow>
             (case generateExpression stof trueExpr g2 of
                Inl x \<Rightarrow> Inl x
              | Inr (trueVarId, g3) \<Rightarrow>
                 (case generateExpression stof falseExpr
                         (emitLabel falseLabel
                            (emitJump endLabel
                               (emitInstruction I_MOV
                                  [VariableOperand resultVarId, VariableOperand trueVarId]
                                  g3))) of
                    Inl x \<Rightarrow> Inl x
                  | Inr (falseVarId, g4) \<Rightarrow>
                     Inr (resultVarId,
                          emitLabel endLabel
                            (emitInstruction I_MOV
                               [VariableOperand resultVarId, VariableOperand falseVarId]
                               g4))))))"
| "generateArguments stof [] g = Inr ([], g)"
| "generateArguments stof (arg # args) g =
     (case generateExpression stof arg g of
        Inl x \<Rightarrow> Inl x
      | Inr (v, g1) \<Rightarrow>
         (case generateArguments stof args g1 of
            Inl x \<Rightarrow> Inl x
          | Inr (vs, g2) \<Rightarrow> Inr (v # vs, g2)))"

subsection \<open>Statements\<close>

text \<open>\<open>generateVariableDeclaration\<close> for a global (\<open>isGlobal = true\<close>).\<close>

definition generateGlobalDeclaration ::
  "TypeNode \<Rightarrow> Token \<Rightarrow> ExpressionNode \<Rightarrow> CodeGenerator \<Rightarrow> CodeGenerator" where
  "generateGlobalDeclaration tn name initializer g =
     (let (varType, g1) = translateType tn g;
          sectionIndex = (if initializer \<noteq> NullExpr then dataSectionIndex g1
                          else bssSectionIndex g1);
          (symbolIndex, g2) = cg_addSymbol (tk_lexeme name) {SF_GLOBAL, SF_DATA} sectionIndex g1
      in g2)"

text \<open>\<open>generateVariableDeclaration\<close> for a local (\<open>isGlobal = false\<close>).\<close>

definition generateVariableDeclaration ::
  "stof_fn \<Rightarrow> TypeNode \<Rightarrow> Token \<Rightarrow> ExpressionNode \<Rightarrow> CodeGenerator \<Rightarrow> Exn + CodeGenerator" where
  "generateVariableDeclaration stof tn name initializer g =
     (let (varType, g1) = translateType tn g;
          (v, g2) = getNextVarId g1
      in case declareVariable (tk_lexeme name) v varType g2 of
           Inl x \<Rightarrow> Inl x
         | Inr g3 \<Rightarrow>
            (if initializer \<noteq> NullExpr then
               (case generateExpression stof initializer g3 of
                  Inl x \<Rightarrow> Inl x
                | Inr (initVarId, g4) \<Rightarrow> Inr (emitVarDeclaration v varType initVarId g4))
             else Inr (emitVarDeclaration v varType 0 g3)))"

definition generateExpressionStatement ::
  "stof_fn \<Rightarrow> ExpressionNode \<Rightarrow> CodeGenerator \<Rightarrow> Exn + CodeGenerator" where
  "generateExpressionStatement stof e g =
     (case generateExpression stof e g of Inl x \<Rightarrow> Inl x | Inr (v, g1) \<Rightarrow> Inr g1)"

definition generateReturnStatement ::
  "stof_fn \<Rightarrow> ExpressionNode \<Rightarrow> CodeGenerator \<Rightarrow> Exn + CodeGenerator" where
  "generateReturnStatement stof val g =
     (if val \<noteq> NullExpr then
        (case generateExpression stof val g of
           Inl x \<Rightarrow> Inl x
         | Inr (returnVarId, g1) \<Rightarrow>
             Inr (emitInstruction I_RET [ImmAbi ABI_RET, VariableOperand returnVarId] g1))
      else Inr (emitInstruction I_RET [ImmAbi ABI_RET] g))"

definition generateBreakStatement :: "CodeGenerator \<Rightarrow> CodeGenerator" where
  "generateBreakStatement g = cg_warning 0 0 ''Break statement not fully implemented'' g"

definition generateContinueStatement :: "CodeGenerator \<Rightarrow> CodeGenerator" where
  "generateContinueStatement g = cg_warning 0 0 ''Continue statement not fully implemented'' g"

text \<open>
  The evaluation of a condition, the comparison with 0 and the branch to a label, as the
  generators of if, while, do and for each spell them out.
\<close>

definition generateConditionBranch ::
  "stof_fn \<Rightarrow> ExpressionNode \<Rightarrow> string \<Rightarrow> CodeGenerator \<Rightarrow> Exn + CodeGenerator" where
  "generateConditionBranch stof condition label g =
     (case generateExpression stof condition g of
        Inl x \<Rightarrow> Inl x
      | Inr (condVarId, g1) \<Rightarrow>
          Inr (emitJump label
                 (emitInstruction I_CMP [VariableOperand condVarId, ImmI32 0] g1)))"

text \<open>The labels a statement asks for before it generates anything.\<close>

definition twoLabels ::
  "string \<Rightarrow> string \<Rightarrow> CodeGenerator \<Rightarrow> (string \<times> string) \<times> CodeGenerator" where
  "twoLabels p1 p2 g =
     (let (l1, g1) = generateLabel p1 g; (l2, g2) = generateLabel p2 g1 in ((l1, l2), g2))"

definition threeLabels ::
  "string \<Rightarrow> string \<Rightarrow> string \<Rightarrow> CodeGenerator \<Rightarrow> (string \<times> string \<times> string) \<times> CodeGenerator" where
  "threeLabels p1 p2 p3 g =
     (let (l1, g1) = generateLabel p1 g; (l2, g2) = generateLabel p2 g1;
          (l3, g3) = generateLabel p3 g2
      in ((l1, l2, l3), g3))"

text \<open>
  \<open>generateStatement\<close> with the generators it dispatches to; \<open>generateStatements\<close> is
  the loop of \<open>generateBlock\<close>.  A null statement pointer (an absent else branch or for
  initializer) generates nothing.
\<close>

fun generateStatement :: "stof_fn \<Rightarrow> StatementNode \<Rightarrow> CodeGenerator \<Rightarrow> Exn + CodeGenerator"
and generateStatements :: "stof_fn \<Rightarrow> StatementNode list \<Rightarrow> CodeGenerator \<Rightarrow> Exn + CodeGenerator"
where
  "generateStatement stof (BlockNode statements) g =
     (case generateStatements stof statements (cg_enterScope (emitScopeEnter g)) of
        Inl x \<Rightarrow> Inl x
      | Inr g1 \<Rightarrow> Inr (emitScopeLeave (cg_leaveScope g1)))"
| "generateStatement stof (ExpressionStatementNode e) g = generateExpressionStatement stof e g"
| "generateStatement stof (VariableDeclarationNode tn name initializer) g =
     generateVariableDeclaration stof tn name initializer g"
| "generateStatement stof (IfNode condition thenBranch elseBranch) g =
     (case twoLabels ''else'' ''endif'' g of
        ((elseLabel, endIfLabel), g1) \<Rightarrow>
         (case generateConditionBranch stof condition elseLabel g1 of
            Inl x \<Rightarrow> Inl x
          | Inr g2 \<Rightarrow>
             (case generateStatement stof thenBranch g2 of
                Inl x \<Rightarrow> Inl x
              | Inr g3 \<Rightarrow>
                 (case elseBranch of
                    None \<Rightarrow> Inr (emitLabel endIfLabel (emitLabel elseLabel (emitJump endIfLabel g3)))
                  | Some e \<Rightarrow>
                     (case generateStatement stof e (emitLabel elseLabel (emitJump endIfLabel g3)) of
                        Inl x \<Rightarrow> Inl x
                      | Inr g4 \<Rightarrow> Inr (emitLabel endIfLabel g4))))))"
| "generateStatement stof (WhileNode condition body) g =
     (case twoLabels ''while_start'' ''while_end'' g of
        ((startLabel, endLabel), g1) \<Rightarrow>
         (case generateConditionBranch stof condition endLabel (emitLabel startLabel g1) of
            Inl x \<Rightarrow> Inl x
          | Inr g2 \<Rightarrow>
             (case generateStatement stof body g2 of
                Inl x \<Rightarrow> Inl x
              | Inr g3 \<Rightarrow> Inr (emitLabel endLabel (emitJump startLabel g3)))))"
| "generateStatement stof (DoWhileNode body condition) g =
     (case threeLabels ''dowhile_start'' ''dowhile_condition'' ''dowhile_end'' g of
        ((startLabel, conditionLabel, endLabel), g1) \<Rightarrow>
         (case generateStatement stof body (emitLabel startLabel g1) of
            Inl x \<Rightarrow> Inl x
          | Inr g2 \<Rightarrow>
             (case generateConditionBranch stof condition endLabel (emitLabel conditionLabel g2) of
                Inl x \<Rightarrow> Inl x
              | Inr g3 \<Rightarrow> Inr (emitLabel endLabel (emitJump startLabel g3)))))"
| "generateStatement stof (ForNode initializer condition increment body) g =
     (case threeLabels ''for_start'' ''for_increment'' ''for_end'' g of
        ((startLabel, incrementLabel, endLabel), g1) \<Rightarrow>
         (case (case initializer of
                  None \<Rightarrow> Inr (cg_enterScope (emitScopeEnter g1))
                | Some i \<Rightarrow> generateStatement stof i (cg_enterScope (emitScopeEnter g1))) of
            Inl x \<Rightarrow> Inl x
          | Inr g2 \<Rightarrow>
             (case (if condition \<noteq> NullExpr
                    then generateConditionBranch stof condition endLabel (emitLabel startLabel g2)
                    else Inr (emitLabel startLabel g2)) of
                Inl x \<Rightarrow> Inl x
              | Inr g3 \<Rightarrow>
                 (case generateStatement stof body g3 of
                    Inl x \<Rightarrow> Inl x
                  | Inr g4 \<Rightarrow>
                     (case (if increment \<noteq> NullExpr
                            then generateExpressionStatement stof increment
                                   (emitLabel incrementLabel g4)
                            else Inr (emitLabel incrementLabel g4)) of
                        Inl x \<Rightarrow> Inl x
                      | Inr g5 \<Rightarrow>
                          Inr (emitScopeLeave
                                 (cg_leaveScope
                                    (emitLabel endLabel (emitJump startLabel g5)))))))))"
| "generateStatement stof (ReturnNode val) g = generateReturnStatement stof val g"
| "generateStatement stof BreakNode g = Inr (generateBreakStatement g)"
| "generateStatement stof ContinueNode g = Inr (generateContinueStatement g)"
| "generateStatements stof [] g = Inr g"
| "generateStatements stof (s # ss) g =
     (case generateStatement stof s g of
        Inl x \<Rightarrow> Inl x
      | Inr g1 \<Rightarrow> generateStatements stof ss g1)"

definition generateBlock :: "stof_fn \<Rightarrow> StatementNode list \<Rightarrow> CodeGenerator \<Rightarrow> Exn + CodeGenerator" where
  "generateBlock stof statements g = generateStatement stof (BlockNode statements) g"

subsection \<open>Declarations and the program\<close>

text \<open>The loop of \<open>generateFunctionDeclaration\<close> over the parameters, \<open>i\<close> their index.\<close>

fun generateParameters :: "nat \<Rightarrow> ParameterNode list \<Rightarrow> CodeGenerator \<Rightarrow> Exn + CodeGenerator" where
  "generateParameters i [] g = Inr g"
| "generateParameters i (param # params) g =
     (if tk_lexeme (pn_name param) \<noteq> [] then
        (let (paramType, g1) = translateType (pn_type param) g;
             (paramVarId, g2) = getNextVarId g1
         in case declareVariable (tk_lexeme (pn_name param)) paramVarId paramType g2 of
              Inl x \<Rightarrow> Inl x
            | Inr g3 \<Rightarrow>
               generateParameters (Suc i) params
                 (emitInstruction I_MOV
                    [VariableOperand paramVarId, ImmAbi ABI_PARAM, ImmU16 (of_nat i)]
                    (emitVarDeclaration paramVarId paramType 0 g3)))
      else generateParameters (Suc i) params g)"

definition generateFunctionDeclaration ::
  "stof_fn \<Rightarrow> TypeNode \<Rightarrow> Token \<Rightarrow> ParameterNode list \<Rightarrow> StatementNode list option \<Rightarrow>
   CodeGenerator \<Rightarrow> Exn + CodeGenerator" where
  "generateFunctionDeclaration stof rt name parameters body g =
     (let g0 = g\<lparr>currentFunction := tk_lexeme name\<rparr>;
          (functionSymbol, g1) =
             cg_addSymbol (tk_lexeme name) {SF_GLOBAL, SF_FUNCTION} (textSectionIndex g0) g0;
          g2 = emitLabel (tk_lexeme name) g1;
          g3 = emitInstruction I_SYM [SymbolOperand functionSymbol] g2
      in case body of
           None \<Rightarrow> Inr (g3\<lparr>currentFunction := []\<rparr>)
         | Some statements \<Rightarrow>
            (case generateParameters 0 parameters (cg_enterScope g3) of
               Inl x \<Rightarrow> Inl x
             | Inr g4 \<Rightarrow>
                (case generateBlock stof statements g4 of
                   Inl x \<Rightarrow> Inl x
                 | Inr g5 \<Rightarrow>
                    (let g6 = (if currentFunction g5 = ''main''
                               then emitInstruction I_RET [ImmAbi ABI_RET, ImmI32 0] g5
                               else emitInstruction I_RET [] g5)
                     in Inr ((cg_leaveScope g6)\<lparr>currentFunction := []\<rparr>)))))"

fun generateProgram :: "stof_fn \<Rightarrow> ProgramNode \<Rightarrow> CodeGenerator \<Rightarrow> Exn + CodeGenerator" where
  "generateProgram stof [] g = Inr g"
| "generateProgram stof (FunctionDeclarationNode rt name parameters body # ds) g =
     (case generateFunctionDeclaration stof rt name parameters body g of
        Inl x \<Rightarrow> Inl x
      | Inr g1 \<Rightarrow> generateProgram stof ds g1)"
| "generateProgram stof (VariableDeclaration tn name initializer # ds) g =
     generateProgram stof ds (generateGlobalDeclaration tn name initializer g)"

text \<open>One of the three sections \<open>initialize\<close> sets up: the symbol of its name, then the section.\<close>

definition setupSection :: "string \<Rightarrow> SectionFlag set \<Rightarrow> CoilObject \<Rightarrow> 16 word \<times> CoilObject" where
  "setupSection name attributes obj =
     (let (symbolIndex, obj1) = addSymbol
            \<lparr>sym_name = name, sym_name_length = length name, sym_attributes = {SF_GLOBAL},
             sym_value = 0, sym_section_index = 0, sym_processor_type = 1\<rparr> obj
      in addSection
           \<lparr>sec_name_index = symbolIndex, sec_attributes = attributes, sec_offset = 0,
            sec_size = 0, sec_address = 0, sec_alignment = 16, sec_processor_type = 1\<rparr> obj1)"

definition initialize :: "CodeGenerator \<Rightarrow> CodeGenerator" where
  "initialize g =
     (let (textIndex, obj1) = setupSection ''.text'' {SEC_EXECUTABLE, SEC_READABLE} emptyCoilObject;
          (dataIndex, obj2) =
             setupSection ''.data'' {SEC_WRITABLE, SEC_READABLE, SEC_INITIALIZED} obj1;
          (bssIndex, obj3) =
             setupSection ''.bss'' {SEC_WRITABLE, SEC_READABLE, SEC_UNINITIALIZED} obj2
      in emitInstruction I_PROC [ImmU8 1]
           (g\<lparr>coilObject := obj3, textSectionIndex := textIndex, dataSectionIndex := dataIndex,
              bssSectionIndex := bssIndex, variables := Map.empty, nextVarId := 1,
              scopeStack := [], labelCounter := 0\<rparr>))"

definition generate :: "stof_fn \<Rightarrow> ProgramNode option \<Rightarrow> CodeGenerator \<Rightarrow> Exn + CodeGenerator" where
  "generate stof root g =
     (case root of
        None \<Rightarrow> Inr (cg_error 0 0 ''Empty AST'' g)
      | Some program \<Rightarrow> generateProgram stof program (initialize g))"

section \<open>The statement and declaration parser (parser.cpp)\<close>

subsection \<open>The state after a successful match\<close>

lemma p_match_previous:
  assumes "p_match ty p = (True, p')"
  shows "p_current p' = p_current p + 1" "p_current p < length (p_tokens p)"
    "p_tokens p' = p_tokens p" "p_previous p' = p_tokens p ! p_current p"
    "tk_type (p_previous p') = ty"
  using assms
  by (auto simp: p_match_def p_check_def p_advance_def p_isAtEnd_def p_previous_def p_peek_def
        split: if_splits)

lemma p_match_False: "p_match ty p = (False, p') \<Longrightarrow> p' = p"
  by (auto simp: p_match_def split: if_splits)

lemma p_matchAny_previous:
  assumes "p_matchAny tys p = (True, p')"
  shows "p_current p' = p_current p + 1 \<and> p_current p < length (p_tokens p) \<and>
         p_tokens p' = p_tokens p \<and> p_previous p' = p_tokens p ! p_current p \<and>
         tk_type (p_previous p') \<in> set tys"
  using assms
proof (induction tys)
  case Nil
  then show ?case by simp
next
  case (Cons ty tys)
  obtain m p1 where m: "p_match ty p = (m, p1)" by (cases "p_match ty p")
  show ?case
  proof (cases m)
    case True
    with Cons.prems m have "p' = p1" by simp
    with p_match_previous [of ty p p1] m True show ?thesis by simp
  next
    case False
    with m have "p1 = p" by (simp add: p_match_False)
    with Cons m False show ?thesis by auto
  qed
qed

subsection \<open>Recovery\<close>

definition isTypeSpecifier :: "Token \<Rightarrow> bool" where
  "isTypeSpecifier token =
     (tk_type token = KW KW_VOID \<or> tk_type token = KW KW_CHAR \<or>
      tk_type token = KW KW_SHORT \<or> tk_type token = KW KW_INT \<or>
      tk_type token = KW KW_LONG \<or> tk_type token = KW KW_FLOAT \<or>
      tk_type token = KW KW_DOUBLE \<or> tk_type token = KW KW_SIGNED \<or>
      tk_type token = KW KW_UNSIGNED \<or> tk_type token = KW KW_CONST \<or>
      tk_type token = KW KW_VOLATILE)"

text \<open>The token types at which \<open>synchronize\<close> stops.\<close>

definition synchronizationPoint :: "TokenType \<Rightarrow> bool" where
  "synchronizationPoint ty =
     (ty = KW KW_IF \<or> ty = KW KW_WHILE \<or> ty = KW KW_FOR \<or> ty = KW KW_RETURN \<or>
      ty = KW KW_BREAK \<or> ty = KW KW_CONTINUE \<or> ty = KW KW_VOID \<or> ty = KW KW_CHAR \<or>
      ty = KW KW_SHORT \<or> ty = KW KW_INT \<or> ty = KW KW_LONG \<or> ty = KW KW_FLOAT \<or>
      ty = KW KW_DOUBLE)"

function synchronizeLoop :: "Parser \<Rightarrow> Parser" where
  "synchronizeLoop p =
     (if \<not> p_isAtEnd p then
        (if tk_type (p_previous p) = SEMICOLON then p
         else if synchronizationPoint (tk_type (p_peek p)) then p
         else synchronizeLoop (p_advance p))
      else p)"
  by pat_completeness auto
termination
  by (relation "measure (\<lambda>p. length (p_tokens p) - p_current p)")
     (auto simp: p_isAtEnd_def p_advance_def)

declare synchronizeLoop.simps [simp del]

definition synchronize :: "Parser \<Rightarrow> Parser" where
  "synchronize p = synchronizeLoop (p_advance p)"

text \<open>
  The handler of \<open>program\<close> and of \<open>block\<close>:
  \<open>catch (const std::exception& e) { errorHandler.error(peek().line, peek().column, e.what()); synchronize(); }\<close>;
  \<open>None\<close> when \<open>peek\<close> is out of range.
\<close>

definition recover :: "string \<Rightarrow> Parser \<Rightarrow> Parser option" where
  "recover what p =
     (if p_current p < length (p_tokens p) then
        Some (synchronize
                (p\<lparr>p_errorHandler :=
                     error (tk_line (p_peek p)) (tk_column (p_peek p)) what
                       (p_errorHandler p)\<rparr>))
      else None)"

subsection \<open>Types and declarations of variables\<close>

text \<open>The two \<open>while\<close> statements of \<open>typeSpecifier\<close>; each turn takes a token.\<close>

lemma p_matchAny_measure:
  assumes "x = p_matchAny tys p" and "(m, p1) = x" and m
  shows "((a, b, p1), c, d, p) \<in> measure (\<lambda>(c, v, p). length (p_tokens p) - p_current p)"
  using p_matchAny_previous [of tys p p1] assms by auto

lemma p_match_measure:
  assumes "x = p_match ty p" and "(m, p1) = x" and m
  shows "((a, b, p1), c, d, p) \<in> measure (\<lambda>(c, v, p). length (p_tokens p) - p_current p)"
  using p_match_previous(1,2,3) [of ty p p1] assms by auto

function qualifierLoop :: "bool \<Rightarrow> bool \<Rightarrow> Parser \<Rightarrow> bool \<times> bool \<times> Parser" where
  "qualifierLoop isConst isVolatile p =
     (let (m, p1) = p_matchAny [KW KW_CONST, KW KW_VOLATILE] p
      in if m then
           (if tk_type (p_previous p1) = KW KW_CONST then qualifierLoop True isVolatile p1
            else if tk_type (p_previous p1) = KW KW_VOLATILE then qualifierLoop isConst True p1
            else qualifierLoop isConst isVolatile p1)
         else (isConst, isVolatile, p1))"
  by pat_completeness auto
termination
  by (relation "measure (\<lambda>(c, v, p). length (p_tokens p) - p_current p)")
     (simp, (erule (2) p_matchAny_measure)+)

declare qualifierLoop.simps [simp del]

function pointerLoop :: "bool \<Rightarrow> nat \<Rightarrow> Parser \<Rightarrow> bool \<times> nat \<times> Parser" where
  "pointerLoop isPointer pointerLevel p =
     (let (m, p1) = p_match (OP OP_STAR) p
      in if m then pointerLoop True (pointerLevel + 1) p1
         else (isPointer, pointerLevel, p1))"
  by pat_completeness auto
termination
  by (relation "measure (\<lambda>(c, v, p). length (p_tokens p) - p_current p)")
     (simp, erule (2) p_match_measure)

declare pointerLoop.simps [simp del]

definition typeSpecifier :: "Parser \<Rightarrow> TypeNode Parse" where
  "typeSpecifier p =
     (let (isConst, isVolatile, p1) = qualifierLoop False False p
      in if p_current p1 < length (p_tokens p1) then
           (if \<not> isTypeSpecifier (p_peek p1) then p_fail ''Expected type specifier'' p1
            else
              (let p2 = p_advance p1;
                   baseType = p_previous p2;
                   (isPointer, pointerLevel, p3) = pointerLoop False 0 p2
               in Returns
                    \<lparr>tn_name = baseType, tn_isConst = isConst, tn_isVolatile = isVolatile,
                     tn_isPointer = isPointer, tn_pointerLevel = pointerLevel\<rparr>
                    p3))
         else Undefined)"

text \<open>
  \<open>variableDeclaration\<close>: the type, the name and the initializer of the node it makes
  (\<open>VariableDeclarationNode\<close> in a block, \<open>VariableDeclaration\<close> at the top level).
\<close>

definition variableDeclaration ::
  "nat \<Rightarrow> Parser \<Rightarrow> (TypeNode \<times> Token \<times> ExpressionNode) Parse" where
  "variableDeclaration n p =
     andThen (typeSpecifier p)
       (\<lambda>type p1.
          andThen (p_consume IDENTIFIER ''Expected variable name'' p1)
            (\<lambda>u p2.
               let name = p_peek p1;
                   (m, p3) = p_match (OP OP_EQUALS) p2
               in andThen (if m then expression n p3 else Returns NullExpr p3)
                    (\<lambda>initializer p4.
                       andThen
                         (p_consume SEMICOLON ''Expected ';' after variable declaration'' p4)
                         (\<lambda>u p5. Returns (type, name, initializer) p5))))"

subsection \<open>Statements\<close>

definition expressionStatement :: "nat \<Rightarrow> Parser \<Rightarrow> StatementNode Parse" where
  "expressionStatement n p =
     andThen (expression n p)
       (\<lambda>expr p1.
          andThen (p_consume SEMICOLON ''Expected ';' after expression'' p1)
            (\<lambda>u p2. Returns (ExpressionStatementNode expr) p2))"

definition returnStatement :: "nat \<Rightarrow> Parser \<Rightarrow> StatementNode Parse" where
  "returnStatement n p =
     andThen (if \<not> p_check SEMICOLON p then expression n p else Returns NullExpr p)
       (\<lambda>val p1.
          andThen (p_consume SEMICOLON ''Expected ';' after return value'' p1)
            (\<lambda>u p2. Returns (ReturnNode val) p2))"

definition breakStatement :: "Parser \<Rightarrow> StatementNode Parse" where
  "breakStatement p =
     andThen (p_consume SEMICOLON (''Expected ';' after 'break'' @ [CHR 0x27]) p)
       (\<lambda>u p1. Returns BreakNode p1)"

definition continueStatement :: "Parser \<Rightarrow> StatementNode Parse" where
  "continueStatement p =
     andThen (p_consume SEMICOLON (''Expected ';' after 'continue'' @ [CHR 0x27]) p)
       (\<lambda>u p1. Returns ContinueNode p1)"

text \<open>The initializer of a \<open>for\<close> statement.\<close>

definition forInitializer :: "nat \<Rightarrow> Parser \<Rightarrow> StatementNode option Parse" where
  "forInitializer n p =
     (if \<not> p_check SEMICOLON p then
        (if p_current p < length (p_tokens p) then
           (if isTypeSpecifier (p_peek p) then
              andThen (variableDeclaration n p)
                (\<lambda>(type, name, initializer) p1.
                   Returns (Some (VariableDeclarationNode type name initializer)) p1)
            else andThen (expressionStatement n p) (\<lambda>s p1. Returns (Some s) p1))
         else Undefined)
      else andThen (p_consume SEMICOLON (''Expected ';'' @ [CHR 0x27]) p) (\<lambda>u p1. Returns None p1))"

fun statement :: "nat \<Rightarrow> Parser \<Rightarrow> StatementNode Parse"
  and block :: "nat \<Rightarrow> Parser \<Rightarrow> StatementNode list Parse"
  and blockLoop :: "nat \<Rightarrow> StatementNode list \<Rightarrow> Parser \<Rightarrow> StatementNode list Parse"
  and ifStatement :: "nat \<Rightarrow> Parser \<Rightarrow> StatementNode Parse"
  and whileStatement :: "nat \<Rightarrow> Parser \<Rightarrow> StatementNode Parse"
  and doWhileStatement :: "nat \<Rightarrow> Parser \<Rightarrow> StatementNode Parse"
  and forStatement :: "nat \<Rightarrow> Parser \<Rightarrow> StatementNode Parse"
where
  "statement 0 p = OutOfFuel"
| "statement (Suc n) p =
     (let (m, p1) = p_match LEFT_BRACE p
      in if m then
           andThen (block n (p1\<lparr>p_current := p_current p1 - 1\<rparr>))
             (\<lambda>statements p2. Returns (BlockNode statements) p2)
         else
           (let (m, p2) = p_match (KW KW_IF) p1
            in if m then ifStatement n p2
               else
                 (let (m, p3) = p_match (KW KW_WHILE) p2
                  in if m then whileStatement n p3
                     else
                       (let (m, p4) = p_match (KW KW_DO) p3
                        in if m then doWhileStatement n p4
                           else
                             (let (m, p5) = p_match (KW KW_FOR) p4
                              in if m then forStatement n p5
                                 else
                                   (let (m, p6) = p_match (KW KW_RETURN) p5
                                    in if m then returnStatement n p6
                                       else
                                         (let (m, p7) = p_match (KW KW_BREAK) p6
                                          in if m then breakStatement p7
                                             else
                                               (let (m, p8) = p_match (KW KW_CONTINUE) p7
                                                in if m then continueStatement p8
                                                   else if p_current p8 < length (p_tokens p8)
                                                   then
                                                     (if isTypeSpecifier (p_peek p8) then
                                                        andThen (variableDeclaration n p8)
                                                          (\<lambda>(type, name, initializer) p9.
                                                             Returns
                                                               (VariableDeclarationNode type name
                                                                  initializer) p9)
                                                      else expressionStatement n p8)
                                                   else Undefined))))))))"
| "block 0 p = OutOfFuel"
| "block (Suc n) p =
     andThen (p_consume LEFT_BRACE ''Expected '{' before block'' p)
       (\<lambda>u p1.
          andThen (blockLoop n [] p1)
            (\<lambda>statements p2.
               andThen (p_consume RIGHT_BRACE ''Expected '}' after block'' p2)
                 (\<lambda>u p3. Returns statements p3)))"
| "blockLoop 0 statements p = OutOfFuel"
| "blockLoop (Suc n) statements p =
     (if \<not> p_check RIGHT_BRACE p \<and> \<not> p_isAtEnd p then
        (case statement n p of
           Returns stmt p1 \<Rightarrow> blockLoop n (statements @ [stmt]) p1
         | Throws what p1 \<Rightarrow>
             (case recover what p1 of
                Some p2 \<Rightarrow> blockLoop n statements p2
              | None \<Rightarrow> Undefined)
         | Undefined \<Rightarrow> Undefined
         | OutOfFuel \<Rightarrow> OutOfFuel)
      else Returns statements p)"
| "ifStatement 0 p = OutOfFuel"
| "ifStatement (Suc n) p =
     andThen (p_consume LEFT_PAREN (''Expected '(' after 'if'' @ [CHR 0x27]) p)
       (\<lambda>u p1.
          andThen (expression n p1)
            (\<lambda>condition p2.
               andThen (p_consume RIGHT_PAREN ''Expected ')' after if condition'' p2)
                 (\<lambda>u p3.
                    andThen (statement n p3)
                      (\<lambda>thenBranch p4.
                         let (m, p5) = p_match (KW KW_ELSE) p4
                         in if m then
                              andThen (statement n p5)
                                (\<lambda>elseBranch p6.
                                   Returns (IfNode condition thenBranch (Some elseBranch)) p6)
                            else Returns (IfNode condition thenBranch None) p5))))"
| "whileStatement 0 p = OutOfFuel"
| "whileStatement (Suc n) p =
     andThen (p_consume LEFT_PAREN (''Expected '(' after 'while'' @ [CHR 0x27]) p)
       (\<lambda>u p1.
          andThen (expression n p1)
            (\<lambda>condition p2.
               andThen (p_consume RIGHT_PAREN ''Expected ')' after while condition'' p2)
                 (\<lambda>u p3.
                    andThen (statement n p3)
                      (\<lambda>body p4. Returns (WhileNode condition body) p4))))"
| "doWhileStatement 0 p = OutOfFuel"
| "doWhileStatement (Suc n) p =
     andThen (statement n p)
       (\<lambda>body p1.
          andThen (p_consume (KW KW_WHILE) ''Expected 'while' after do body'' p1)
            (\<lambda>u p2.
               andThen (p_consume LEFT_PAREN (''Expected '(' after 'while'' @ [CHR 0x27]) p2)
                 (\<lambda>u p3.
                    andThen (expression n p3)
                      (\<lambda>condition p4.
                         andThen
                           (p_consume RIGHT_PAREN ''Expected ')' after while condition'' p4)
                           (\<lambda>u p5.
                              andThen
                                (p_consume SEMICOLON
                                   ''Expected ';' after do-while statement'' p5)
                                (\<lambda>u p6. Returns (DoWhileNode body condition) p6))))))"
| "forStatement 0 p = OutOfFuel"
| "forStatement (Suc n) p =
     andThen (p_consume LEFT_PAREN (''Expected '(' after 'for'' @ [CHR 0x27]) p)
       (\<lambda>u p1.
          andThen (forInitializer n p1)
            (\<lambda>initializer p2.
               andThen (if \<not> p_check SEMICOLON p2 then expression n p2
                        else Returns NullExpr p2)
                 (\<lambda>condition p3.
                    andThen (p_consume SEMICOLON ''Expected ';' after for condition'' p3)
                      (\<lambda>u p4.
                         andThen (if \<not> p_check RIGHT_PAREN p4 then expression n p4
                                  else Returns NullExpr p4)
                           (\<lambda>increment p5.
                              andThen
                                (p_consume RIGHT_PAREN ''Expected ')' after for clauses'' p5)
                                (\<lambda>u p6.
                                   andThen (statement n p6)
                                     (\<lambda>body p7.
                                        Returns
                                          (ForNode initializer condition increment body)
                                          p7)))))))"

subsection \<open>Functions and the program\<close>

text \<open>
  The token of a parameter without a name.  The source initializes it with the list
  \<open>{"", TokenType::IDENTIFIER, "", 0, 0}\<close>: an identifier with the empty lexeme.
\<close>

definition unnamedParameter :: Token where
  "unnamedParameter = mkToken IDENTIFIER [] [] 0 0"

definition parameter :: "Parser \<Rightarrow> ParameterNode Parse" where
  "parameter p =
     andThen (typeSpecifier p)
       (\<lambda>type p1.
          if p_check IDENTIFIER p1 then
            (let p2 = p_advance p1
             in Returns \<lparr>pn_type = type, pn_name = p_previous p2\<rparr> p2)
          else Returns \<lparr>pn_type = type, pn_name = unnamedParameter\<rparr> p1)"

text \<open>The loop of \<open>parameterList\<close>.\<close>

fun parameterLoop :: "nat \<Rightarrow> ParameterNode list \<Rightarrow> Parser \<Rightarrow> ParameterNode list Parse" where
  "parameterLoop 0 parameters p = OutOfFuel"
| "parameterLoop (Suc n) parameters p =
     (let (m, p1) = p_match COMMA p
      in if m then
           andThen (parameter p1) (\<lambda>x p2. parameterLoop n (parameters @ [x]) p2)
         else Returns parameters p1)"

definition parameterList :: "nat \<Rightarrow> Parser \<Rightarrow> ParameterNode list Parse" where
  "parameterList n p = andThen (parameter p) (\<lambda>x p1. parameterLoop n [x] p1)"

definition functionDeclaration :: "nat \<Rightarrow> Parser \<Rightarrow> Declaration Parse" where
  "functionDeclaration n p =
     andThen (typeSpecifier p)
       (\<lambda>returnType p1.
          andThen (p_consume IDENTIFIER ''Expected function name'' p1)
            (\<lambda>u p2.
               let name = p_peek p1
               in andThen (p_consume LEFT_PAREN ''Expected '(' after function name'' p2)
                    (\<lambda>u p3.
                       andThen (if \<not> p_check RIGHT_PAREN p3 then parameterList n p3
                                else Returns [] p3)
                         (\<lambda>parameters p4.
                            andThen
                              (p_consume RIGHT_PAREN ''Expected ')' after parameters'' p4)
                              (\<lambda>u p5.
                                 let (m, p6) = p_match LEFT_BRACE p5
                                 in if m then
                                      andThen (block n (p6\<lparr>p_current := p_current p6 - 1\<rparr>))
                                        (\<lambda>body p7.
                                           Returns
                                             (FunctionDeclarationNode returnType name parameters
                                                (Some body)) p7)
                                    else
                                      andThen
                                        (p_consume SEMICOLON
                                           ''Expected ';' after function declaration'' p6)
                                        (\<lambda>u p7.
                                           Returns
                                             (FunctionDeclarationNode returnType name parameters
                                                None) p7))))))"

text \<open>
  The function \<open>declaration\<close> of the parser; \<open>None\<close> is the null pointer it returns
  for what it does not support.
\<close>

definition declarationNode :: "nat \<Rightarrow> Parser \<Rightarrow> Declaration option Parse" where
  "declarationNode n p =
     (if p_current p < length (p_tokens p) then
        (if isTypeSpecifier (p_peek p) then
           (let startPos = p_current p
            in andThen (typeSpecifier p)
                 (\<lambda>type p1.
                    if p_check IDENTIFIER p1 \<and>
                       (p_current p1 + 1 < length (p_tokens p1) \<and>
                        tk_type (p_tokens p1 ! (p_current p1 + 1)) = LEFT_PAREN)
                    then
                      andThen (functionDeclaration n (p1\<lparr>p_current := startPos\<rparr>))
                        (\<lambda>d p2. Returns (Some d) p2)
                    else
                      andThen (variableDeclaration n (p1\<lparr>p_current := startPos\<rparr>))
                        (\<lambda>(type, name, initializer) p2.
                           Returns (Some (VariableDeclaration type name initializer)) p2)))
         else
           Returns None
             (synchronize
                (p\<lparr>p_errorHandler :=
                     error (tk_line (p_peek p)) (tk_column (p_peek p))
                       ''Unsupported declaration'' (p_errorHandler p)\<rparr>)))
      else Undefined)"

text \<open>The loop of \<open>program\<close>.\<close>

fun programLoop :: "nat \<Rightarrow> Declaration list \<Rightarrow> Parser \<Rightarrow> Declaration list Parse" where
  "programLoop 0 declarations p = OutOfFuel"
| "programLoop (Suc n) declarations p =
     (if \<not> p_isAtEnd p then
        (case declarationNode n p of
           Returns decl p1 \<Rightarrow>
             programLoop n
               (case decl of Some d \<Rightarrow> declarations @ [d] | None \<Rightarrow> declarations) p1
         | Throws what p1 \<Rightarrow>
             (case recover what p1 of
                Some p2 \<Rightarrow> programLoop n declarations p2
              | None \<Rightarrow> Undefined)
         | Undefined \<Rightarrow> Undefined
         | OutOfFuel \<Rightarrow> OutOfFuel)
      else Returns declarations p)"

definition program :: "nat \<Rightarrow> Parser \<Rightarrow> ProgramNode Parse" where
  "program n p = programLoop n [] p"

text \<open>
  \<open>parse\<close>: what \<open>program\<close> returns, or the null pointer and one more diagnostic when
  an exception leaves \<open>program\<close>.
\<close>

definition parse :: "nat \<Rightarrow> Parser \<Rightarrow> ProgramNode option Parse" where
  "parse n p =
     (case program n p of
        Returns prog p1 \<Rightarrow> Returns (Some prog) p1
      | Throws what p1 \<Rightarrow>
          Returns None
            (p1\<lparr>p_errorHandler := error 0 0 (''Parse error: '' @ what) (p_errorHandler p1)\<rparr>)
      | Undefined \<Rightarrow> Undefined
      | OutOfFuel \<Rightarrow> OutOfFuel)"

section \<open>The driver (main.cpp)\<close>

text \<open>
  The part of \<open>main\<close> that follows the parser: semantic analysis, code generation, and
  the exit code.  An exception that leaves a phase is caught by \<open>main\<close>, which returns 1;
  after each phase \<open>main\<close> returns 1 if the error flag of the handler is set.  Writing
  the output file is the last step and is taken to succeed.
\<close>

definition compileProgram :: "stof_fn \<Rightarrow> int \<Rightarrow> ProgramNode option \<Rightarrow> ErrorHandler \<Rightarrow> int" where
  "compileProgram stof level ast eh =
     (case analyze ast (newSemanticAnalyzer eh) of
        Inl x \<Rightarrow> 1
      | Inr a \<Rightarrow>
         (if hasErrors (sa_errorHandler a) then 1
          else
            (case generate stof ast (newCodeGenerator level (sa_errorHandler a)) of
               Inl x \<Rightarrow> 1
             | Inr g \<Rightarrow> (if hasErrors (cg_errorHandler g) then 1 else 0))))"

text \<open>
  The diagnostics the error handler holds when \<open>main\<close> returns (\<open>None\<close> if an
  exception ended the run).
\<close>

definition compileDiagnostics ::
  "stof_fn \<Rightarrow> int \<Rightarrow> ProgramNode option \<Rightarrow> ErrorHandler \<Rightarrow> ErrorEntry list option" where
  "compileDiagnostics stof level ast eh =
     (case analyze ast (newSemanticAnalyzer eh) of
        Inl x \<Rightarrow> None
      | Inr a \<Rightarrow>
         (if hasErrors (sa_errorHandler a) then Some (errors (sa_errorHandler a))
          else
            (case generate stof ast (newCodeGenerator level (sa_errorHandler a)) of
               Inl x \<Rightarrow> None
             | Inr g \<Rightarrow> Some (errors (cg_errorHandler g)))))"

text \<open>
  The part of \<open>main\<close> before semantic analysis, from the text of the input file: the
  lexer and the parser work on one default-constructed error handler, and \<open>main\<close>
  returns 1 after either of them if the error flag is set.  \<open>Inr\<close> is the tree and the
  handler that \<open>main\<close> goes on with, \<open>Inl\<close> the handler with which \<open>main\<close> returns 1
  (an exception that leaves the parser is caught by \<open>main\<close>, which returns 1 as well).
  \<open>None\<close> is no behaviour of the program: the parser has read the token vector out of
  range, or the counter that bounds the recursion of the model is used up.
\<close>

definition frontEnd ::
  "nat \<Rightarrow> string \<Rightarrow> string \<Rightarrow> (ErrorHandler + ProgramNode option \<times> ErrorHandler) option" where
  "frontEnd fuel inputFile sourceCode =
     (let (tokens, lx) = tokenize (newLexer sourceCode inputFile newErrorHandler)
      in if hasErrors (lx_errorHandler lx) then Some (Inl (lx_errorHandler lx))
         else
           (case parse fuel (newParser tokens (lx_errorHandler lx)) of
              Returns ast p \<Rightarrow>
                (if hasErrors (p_errorHandler p) then Some (Inl (p_errorHandler p))
                 else Some (Inr (ast, p_errorHandler p)))
            | Throws what p \<Rightarrow> Some (Inl (p_errorHandler p))
            | Undefined \<Rightarrow> None
            | OutOfFuel \<Rightarrow> None))"

text \<open>The exit code of \<open>main\<close> for an input file that exists, with its text.\<close>

definition compileSource :: "nat \<Rightarrow> stof_fn \<Rightarrow> int \<Rightarrow> string \<Rightarrow> string \<Rightarrow> int option" where
  "compileSource fuel stof level inputFile sourceCode =
     (case frontEnd fuel inputFile sourceCode of
        None \<Rightarrow> None
      | Some (Inl eh) \<Rightarrow> Some 1
      | Some (Inr (ast, eh)) \<Rightarrow> Some (compileProgram stof level ast eh))"

text \<open>
  The diagnostics the error handler holds when \<open>main\<close> returns, for an input file that
  exists (\<open>None\<close> if an exception ended the run after the parser, or if the front end
  has no result).
\<close>

definition sourceDiagnostics ::
  "nat \<Rightarrow> stof_fn \<Rightarrow> int \<Rightarrow> string \<Rightarrow> string \<Rightarrow> ErrorEntry list option" where
  "sourceDiagnostics fuel stof level inputFile sourceCode =
     (case frontEnd fuel inputFile sourceCode of
        None \<Rightarrow> None
      | Some (Inl eh) \<Rightarrow> Some (errors eh)
      | Some (Inr (ast, eh)) \<Rightarrow> compileDiagnostics stof level ast eh)"

section \<open>Example inputs\<close>

definition intTypeNode :: TypeNode where
  "intTypeNode = \<lparr>tn_name = mkToken (KW KW_INT) ''int'' ''t.c'' 1 1, tn_isConst = False,
     tn_isVolatile = False, tn_isPointer = False, tn_pointerLevel = 0\<rparr>"

definition identifierToken :: "string \<Rightarrow> int \<Rightarrow> int \<Rightarrow> Token" where
  "identifierToken name li co = mkToken IDENTIFIER name ''t.c'' li co"

definition integerToken :: "string \<Rightarrow> int \<Rightarrow> int \<Rightarrow> Token" where
  "integerToken digits li co = mkToken INTEGER_LITERAL digits ''t.c'' li co"

definition intTypeAt :: "int \<Rightarrow> TypeNode" where
  "intTypeAt co = \<lparr>tn_name = mkToken (KW KW_INT) ''int'' ''t.c'' 1 co, tn_isConst = False,
     tn_isVolatile = False, tn_isPointer = False, tn_pointerLevel = 0\<rparr>"

text \<open>
  Four input files, \<open>t.c\<close>, of one line each, and the trees the parser makes of them.
  The lexer sets \<open>start\<close> before it skips white space, so the lexeme and the column of a
  token are those of the white space before it: the identifier after \<open>int\<close> has the
  lexeme \<open>" main"\<close> and column 4.  (A keyword after a blank is not found in the table
  of keywords and becomes an identifier; the texts have a blank only before an identifier
  or a literal.)
\<close>

definition breakOutsideLoopSource :: string where
  "breakOutsideLoopSource = ''int main(){break;return 0;}''"

definition breakOutsideLoopProgram :: ProgramNode where
  "breakOutsideLoopProgram =
     [FunctionDeclarationNode intTypeNode (identifierToken '' main'' 1 4) []
        (Some [BreakNode, ReturnNode (LiteralNode (integerToken '' 0'' 1 24))])]"

definition shadowingSource :: string where
  "shadowingSource = ''int main(){int x=1;{int x=2;}return x;}''"

definition shadowingProgram :: ProgramNode where
  "shadowingProgram =
     [FunctionDeclarationNode intTypeNode (identifierToken '' main'' 1 4) []
        (Some [VariableDeclarationNode (intTypeAt 12) (identifierToken '' x'' 1 15)
                 (LiteralNode (integerToken ''1'' 1 18)),
               BlockNode [VariableDeclarationNode (intTypeAt 21) (identifierToken '' x'' 1 24)
                            (LiteralNode (integerToken ''2'' 1 27))],
               ReturnNode (VariableNode (identifierToken '' x'' 1 36))])]"

definition siblingBlocksSource :: string where
  "siblingBlocksSource = ''int main(){{int x;}{int x;}return 0;}''"

definition siblingBlocksProgram :: ProgramNode where
  "siblingBlocksProgram =
     [FunctionDeclarationNode intTypeNode (identifierToken '' main'' 1 4) []
        (Some [BlockNode [VariableDeclarationNode (intTypeAt 13) (identifierToken '' x'' 1 16)
                            NullExpr],
               BlockNode [VariableDeclarationNode (intTypeAt 21) (identifierToken '' x'' 1 24)
                            NullExpr],
               ReturnNode (LiteralNode (integerToken '' 0'' 1 34))])]"

definition redeclaredSource :: string where
  "redeclaredSource = ''int f;int f();''"

definition redeclaredProgram :: ProgramNode where
  "redeclaredProgram =
     [VariableDeclaration intTypeNode (identifierToken '' f'' 1 4) NullExpr,
      FunctionDeclarationNode (intTypeAt 7) (identifierToken '' f'' 1 10) [] None]"

text \<open>A \<open>stof\<close> for the examples, none of which has a floating-point literal.\<close>

definition noFloats :: stof_fn where
  "noFloats s = Inl InvalidArgument"

definition lessToken :: Token where
  "lessToken = mkToken (OP OP_LESS) ''<'' ''t.c'' 1 3"

text \<open>The tokens of \<open>x += 1;\<close>, as the lexer gives them.\<close>

definition compoundExample :: "Token list" where
  "compoundExample =
     [mkToken IDENTIFIER ''x'' ''t.c'' 1 1,
      mkToken (OP OP_PLUS_EQUALS) '' +='' ''t.c'' 1 2,
      mkToken INTEGER_LITERAL '' 1'' ''t.c'' 1 5,
      mkToken SEMICOLON '';'' ''t.c'' 1 7,
      mkToken END_OF_FILE [] ''t.c'' 1 8]"

lemmas example_defs = intTypeNode_def intTypeAt_def identifierToken_def integerToken_def mkToken_def
  newSemanticAnalyzer_def newErrorHandler_def newSymbolTable_def newCodeGenerator_def lessToken_def

section \<open>Predicates used in the properties\<close>

text \<open>
  \<open>keeps_below c st st'\<close>: the table \<open>st'\<close> is well formed, has the current scope of
  \<open>st\<close> and the frames of \<open>st\<close> below index \<open>c\<close>.
\<close>

definition keeps_below :: "nat \<Rightarrow> SymbolTable \<Rightarrow> SymbolTable \<Rightarrow> bool" where
  "keeps_below c st st' =
     (table_ok st' \<and> currentScope st' = currentScope st \<and>
      (\<forall>i<c. scopes st' ! i = scopes st ! i))"

text \<open>A block leaves one more frame untouched than any other statement.\<close>

definition blockDepth :: "StatementNode \<Rightarrow> nat \<Rightarrow> nat" where
  "blockDepth s c = (case s of BlockNode ss \<Rightarrow> Suc c | _ \<Rightarrow> c)"

text \<open>
  The operators that \<open>generateBinary\<close> has no case for: comparison, bitwise and
  logical.
\<close>

definition unimplementedBinaryOperators :: "TokenType set" where
  "unimplementedBinaryOperators =
     {OP OP_LESS, OP OP_LESS_EQUALS, OP OP_GREATER, OP OP_GREATER_EQUALS,
      OP OP_EQUALS_EQUALS, OP OP_NOT_EQUALS,
      OP OP_AMPERSAND, OP OP_PIPE, OP OP_CARET, OP OP_SHL, OP OP_SHR,
      OP OP_LOGICAL_AND, OP OP_LOGICAL_OR}"

text \<open>
  \<open>same_scopes g g'\<close>: the generator states \<open>g\<close> and \<open>g'\<close> have the same bindings
  and the same stack of scope name lists.
\<close>

definition same_scopes :: "CodeGenerator \<Rightarrow> CodeGenerator \<Rightarrow> bool" where
  "same_scopes g g' = (variables g' = variables g \<and> scopeStack g' = scopeStack g)"

text \<open>The name a statement declares in the scope it is a statement of.\<close>

fun declaredNames :: "StatementNode \<Rightarrow> string list" where
  "declaredNames (VariableDeclarationNode tn name initializer) = [tk_lexeme name]"
| "declaredNames s = []"

text \<open>
  \<open>grows g g' added\<close>: from \<open>g\<close> to \<open>g'\<close> the scopes below the top are kept, and the
  names \<open>added\<close> are appended to the top one.
\<close>

definition grows :: "CodeGenerator \<Rightarrow> CodeGenerator \<Rightarrow> string list \<Rightarrow> bool" where
  "grows g g' added =
     (scopeStack g' = (hd (scopeStack g) @ added) # tl (scopeStack g))"

subsection \<open>Numeric literals\<close>

text \<open>The text between the positions of two lexer states: what a scan has consumed.\<close>

definition numberText :: "Lexer \<Rightarrow> Lexer \<Rightarrow> string" where
  "numberText lx lx' = substr (source lx) (current lx) (current lx' - current lx)"

text \<open>
  The three marks of a floating-point literal, as the specification words them: a decimal
  point followed by a digit, an exponent part, an \<open>f\<close> or \<open>F\<close> suffix.
\<close>

fun hasFraction :: "string \<Rightarrow> bool" where
  "hasFraction (c # d # cs) = ((c = CHR ''.'' \<and> isdigit d) \<or> hasFraction (d # cs))"
| "hasFraction cs = False"

definition hasExponent :: "string \<Rightarrow> bool" where
  "hasExponent t = (CHR ''e'' \<in> set t \<or> CHR ''E'' \<in> set t)"

definition hasFloatSuffix :: "string \<Rightarrow> bool" where
  "hasFloatSuffix t = (t \<noteq> [] \<and> (last t = CHR ''f'' \<or> last t = CHR ''F''))"

definition spec_isFloatLiteral :: "string \<Rightarrow> bool" where
  "spec_isFloatLiteral t = (hasFraction t \<or> hasExponent t \<or> hasFloatSuffix t)"

text \<open>
  \<open>consumed lx lx' t\<close>: from \<open>lx\<close> to \<open>lx'\<close> the lexer has moved over the text
  \<open>t\<close>.  The three shapes are those of the optional parts of a numeric literal.
\<close>

definition rest :: "Lexer \<Rightarrow> string" where
  "rest lx = drop (current lx) (source lx)"

definition consumed :: "Lexer \<Rightarrow> Lexer \<Rightarrow> string \<Rightarrow> bool" where
  "consumed lx lx' t =
     (source lx' = source lx \<and> current lx' = current lx + length t \<and>
      rest lx = t @ rest lx')"

definition fractionShape :: "string \<Rightarrow> bool" where
  "fractionShape t =
     (t = [] \<or> (\<exists>d ds. t = CHR ''.'' # d # ds \<and> isdigit d \<and> list_all isdigit ds))"

definition exponentShape :: "string \<Rightarrow> bool" where
  "exponentShape t =
     (t = [] \<or>
      (\<exists>e sg d ds. t = e # sg @ d # ds \<and> (e = CHR ''e'' \<or> e = CHR ''E'') \<and>
         (sg = [] \<or> sg = ''+'' \<or> sg = ''-'') \<and> isdigit d \<and> list_all isdigit ds))"

definition suffixShape :: "string \<Rightarrow> bool" where
  "suffixShape t =
     (t = [] \<or> t = ''f'' \<or> t = ''F'' \<or>
      (set t \<subseteq> {CHR ''l'', CHR ''L'', CHR ''u'', CHR ''U''}))"

section \<open>Properties of the semantic types and of the symbol table\<close>

lemmas sema_defs = analyze_def clear_def visitFunctionDeclaration_def
  getTypeFromTypeNode_def existsInCurrentScope_def enterScope_def addFunction_def
  addVariable_def visitBlock_def sa_enterScope_def sa_leaveScope_def leaveScope_def
  visitReturnStatement_def visitLiteral_def visitVariable_def visitVariableDeclaration_def
  visitExpressionStatement_def visitBreakStatement_def visitContinueStatement_def
  lookup_def createInt_def createVoid_def sa_error_def error_def addError_def

lemma table_ok_enterScope: "table_ok st \<Longrightarrow> table_ok (enterScope st)"
  by (simp add: table_ok_def enterScope_def Let_def)

lemma table_ok_leaveScope: "table_ok st \<Longrightarrow> leaveScope st = Inr st' \<Longrightarrow> table_ok st'"
  by (auto simp: table_ok_def leaveScope_def split: if_splits)

lemma table_ok_add:
  "table_ok st \<Longrightarrow> table_ok (addVariable n t st)"
  "table_ok st \<Longrightarrow> table_ok (addFunction n t st)"
  "table_ok st \<Longrightarrow> table_ok (addParameter n t st)"
  "table_ok st \<Longrightarrow> table_ok (addTypedef n t st)"
  by (simp_all add: table_ok_def addVariable_def addFunction_def addParameter_def
        addTypedef_def)

lemma table_ok_new: "table_ok newSymbolTable" "table_ok (clear st)"
  by (simp_all add: table_ok_def newSymbolTable_def clear_def)

lemma lookupFrom_None:
  "lookupFrom scs c name = None \<longleftrightarrow> (\<forall>i\<le>c. (scs ! i) name = None)"
proof (induction c)
  case 0
  show ?case by simp
next
  case (Suc c)
  show ?case
  proof (cases "(scs ! Suc c) name")
    case None
    with Suc show ?thesis by (auto simp: le_Suc_eq)
  next
    case (Some s)
    then show ?thesis by auto
  qed
qed

lemma getTypeFromTypeNode_table [simp]:
  "symbolTable (snd (getTypeFromTypeNode tn a)) = symbolTable a"
  "currentFunctionReturnType (snd (getTypeFromTypeNode tn a)) = currentFunctionReturnType a"
  "hasReturn (snd (getTypeFromTypeNode tn a)) = hasReturn a"
  by (simp_all add: getTypeFromTypeNode_def Let_def sa_error_def split: prod.splits)

lemma getTypeFromTypeNode_fst: "fst (getTypeFromTypeNode tn a) = fst (getTypeFromTypeNode tn b)"
  by (simp add: getTypeFromTypeNode_def Let_def split: prod.splits)

lemma parameterTypes_table [simp]:
  "symbolTable (snd (parameterTypes ps a)) = symbolTable a"
proof (induction ps arbitrary: a)
  case Nil show ?case by simp
next
  case (Cons p ps)
  have "symbolTable (snd (parameterTypes ps (snd (getTypeFromTypeNode (pn_type p) a)))) = symbolTable a"
    using Cons[of "snd (getTypeFromTypeNode (pn_type p) a)"] by simp
  then show ?case by (simp add: split_def Let_def)
qed

lemma sa_error_table [simp]: "symbolTable (sa_error l c m a) = symbolTable a"
  "symbolTable (sa_warning l c m a) = symbolTable a"
  by (simp_all add: sa_error_def sa_warning_def)

lemma unaryType_table: "unaryType op t a = Inr (r, a') \<Longrightarrow> symbolTable a' = symbolTable a"
  by (auto simp: unaryType_def Let_def split: if_splits option.splits)

lemma binaryType_table: "binaryType op l r a = Inr (t, a') \<Longrightarrow> symbolTable a' = symbolTable a"
  by (auto simp: binaryType_def Let_def split: if_splits sum.splits bool.splits)

lemma visitExpression_table:
  "visitExpression e a = Inr (t, a') \<Longrightarrow> symbolTable a' = symbolTable a"
  "visitArguments es ps a = Inr a'' \<Longrightarrow> symbolTable a'' = symbolTable a"
proof (induction e a and es ps a arbitrary: t a' and a'' rule: visitExpression_visitArguments.induct)
  case (1 a)
  then show ?case by simp
next
  case (2 tok a)
  then show ?case by (auto simp: visitLiteral_def split: if_splits)
next
  case (3 name a)
  then show ?case by (auto simp: visitVariable_def split: option.splits)
next
  case (4 op operand a)
  from "4.prems" obtain ot a1 where 1: "visitExpression operand a = Inr (ot, a1)"
    and 2: "unaryType op ot a1 = Inr (t, a')"
    by (auto split: sum.splits)
  from "4.IH"[OF 1] unaryType_table[OF 2] show ?case by simp
next
  case (5 left op right a)
  from "5.prems" obtain lt a1 rt a2 where 1: "visitExpression left a = Inr (lt, a1)"
    and 2: "visitExpression right a1 = Inr (rt, a2)"
    and 3: "binaryType op lt rt a2 = Inr (t, a')"
    by (auto split: sum.splits)
  from "5.IH"(1)[OF 1] "5.IH"(2)[OF 1 refl 2] binaryType_table[OF 3] show ?case by simp
next
  case (6 callee arguments a)
  from "6.prems" obtain ct a1 where 1: "visitExpression callee a = Inr (ct, a1)"
    by (auto split: sum.splits)
  note t1 = "6.IH"(1)[OF 1]
  show ?case
  proof (cases "ti_kind ct \<noteq> K_FUNCTION \<or> length arguments \<noteq> length (ti_parameters ct)")
    case True
    with "6.prems" 1 t1 show ?thesis by (auto split: if_splits)
  next
    case False
    then have k: "\<not> ti_kind ct \<noteq> K_FUNCTION"
      and l: "\<not> length arguments \<noteq> length (ti_parameters ct)" by simp_all
    from "6.prems" 1 k l obtain a2 where 2: "visitArguments arguments (ti_parameters ct) a1 = Inr a2"
      and 3: "a' = a2"
      by (auto split: sum.splits option.splits)
    from "6.IH"(2)[OF 1 refl k l 2] t1 3 show ?thesis by simp
  qed
next
  case (7 array index a)
  from "7.prems" obtain at a1 it a2 where 1: "visitExpression array a = Inr (at, a1)"
    and 2: "visitExpression index a1 = Inr (it, a2)"
    by (auto split: sum.splits)
  from "7.prems" 1 2 have "symbolTable a' = symbolTable a2"
    by (auto split: if_splits option.splits)
  with "7.IH"(1)[OF 1] "7.IH"(2)[OF 1 refl 2] show ?case by simp
next
  case (8 object op member a)
  from "8.prems" obtain ot a1 where 1: "visitExpression object a = Inr (ot, a1)"
    by (auto split: sum.splits)
  from "8.prems" 1 have "symbolTable a' = symbolTable a1"
    by (auto split: if_splits)
  with "8.IH"[OF 1] show ?case by simp
next
  case (9 condition trueExpr falseExpr a)
  from "9.prems" obtain ct a1 where 1: "visitExpression condition a = Inr (ct, a1)"
    by (auto split: sum.splits)
  note t1 = "9.IH"(1)[OF 1]
  show ?case
  proof (cases "\<not> isScalar ct")
    case True
    with "9.prems" 1 t1 show ?thesis by auto
  next
    case sc: False
    from "9.prems" 1 sc obtain tt a2 ft a3 where 2: "visitExpression trueExpr a1 = Inr (tt, a2)"
      and 3: "visitExpression falseExpr a2 = Inr (ft, a3)"
      by (auto split: sum.splits)
    from "9.prems" 1 sc 2 3 have "symbolTable a' = symbolTable a3"
      by (auto split: sum.splits bool.splits)
    with t1 "9.IH"(2)[OF 1 refl sc 2] "9.IH"(3)[OF 1 refl sc 2 refl 3] show ?thesis by simp
  qed
next
  case (10 ps a)
  then show ?case by simp
next
  case (11 arg args a)
  then show ?case by simp
next
  case (12 arg args p ps a)
  from "12.prems" obtain argt a1 ok where 1: "visitExpression arg a = Inr (argt, a1)"
    and 2: "areTypesCompatible argt p = Inr ok"
    and 3: "visitArguments args ps
              (if ok then a1
               else sa_error 0 0 ''Argument type mismatch in function call'' a1) = Inr a''"
    by (auto split: sum.splits)
  from "12.IH"(1)[OF 1] "12.IH"(2)[OF 1 refl 2 3] show ?case by (simp split: if_splits)
qed

lemma keeps_below_refl: "table_ok st \<Longrightarrow> keeps_below c st st"
  by (simp add: keeps_below_def)

lemma keeps_below_trans:
  "keeps_below c st st1 \<Longrightarrow> keeps_below c st1 st2 \<Longrightarrow> keeps_below c st st2"
  by (simp add: keeps_below_def)

lemma keeps_below_mono: "keeps_below c st st' \<Longrightarrow> d \<le> c \<Longrightarrow> keeps_below d st st'"
  by (simp add: keeps_below_def)

lemma keeps_below_addVariable:
  "table_ok st \<Longrightarrow> keeps_below (currentScope st) st (addVariable n t st)"
  "table_ok st \<Longrightarrow> keeps_below (currentScope st) st (addParameter n t st)"
  by (simp_all add: keeps_below_def table_ok_def addVariable_def addParameter_def)

lemma keeps_below_scoped:
  assumes ok: "table_ok st"
    and k: "keeps_below (Suc (currentScope st)) (enterScope st) st1"
    and l: "leaveScope st1 = Inr st2"
  shows "keeps_below (Suc (currentScope st)) st st2"
proof -
  have c: "currentScope st < length (scopes st)" using ok by (simp add: table_ok_def)
  have e: "\<forall>i<Suc (currentScope st). scopes (enterScope st) ! i = scopes st ! i"
    using c by (auto simp: enterScope_def Let_def nth_append)
  have ce: "currentScope (enterScope st) = Suc (currentScope st)"
    by (simp add: enterScope_def Let_def)
  from l have st2: "st2 = st1\<lparr>currentScope := currentScope st1 - 1\<rparr>" and nz: "currentScope st1 \<noteq> 0"
    by (auto simp: leaveScope_def split: if_splits)
  from k have ok1: "table_ok st1" and c1: "currentScope st1 = Suc (currentScope st)"
    and f1: "\<forall>i<Suc (currentScope st). scopes st1 ! i = scopes (enterScope st) ! i"
    by (simp_all add: keeps_below_def ce)
  show ?thesis
    using ok1 c1 f1 e st2 by (auto simp: keeps_below_def table_ok_def)
qed

lemma sa_enterScope_simps [simp]:
  "symbolTable (sa_enterScope a) = enterScope (symbolTable a)"
  by (simp add: sa_enterScope_def)

lemma currentScope_enterScope [simp]: "currentScope (enterScope st) = Suc (currentScope st)"
  by (simp add: enterScope_def Let_def)

lemma sa_leaveScope_Inr:
  "sa_leaveScope a1 = Inr a' \<Longrightarrow> leaveScope (symbolTable a1) = Inr (symbolTable a')"
  by (auto simp: sa_leaveScope_def split: sum.splits)

lemma visitCondition_table:
  "visitCondition msg c a = Inr a' \<Longrightarrow> symbolTable a' = symbolTable a"
  by (auto simp: visitCondition_def split: sum.splits if_splits dest: visitExpression_table(1))

lemma visitExpressionStatement_table:
  "visitExpressionStatement e a = Inr a' \<Longrightarrow> symbolTable a' = symbolTable a"
  by (auto simp: visitExpressionStatement_def split: sum.splits dest: visitExpression_table(1))

lemma visitReturnStatement_table:
  assumes "visitReturnStatement v a = Inr a'"
  shows "symbolTable a' = symbolTable a"
proof (cases "currentFunctionReturnType a")
  case None
  with assms show ?thesis by (auto simp: visitReturnStatement_def)
next
  case (Some rt)
  show ?thesis
  proof (cases "v = NullExpr")
    case True
    with Some assms show ?thesis
      by (auto simp: visitReturnStatement_def Let_def split: if_splits)
  next
    case False
    with Some assms obtain vt a2 where
      1: "visitExpression v (a\<lparr>hasReturn := True\<rparr>) = Inr (vt, a2)"
      and 2: "symbolTable a' = symbolTable a2"
      by (auto simp: visitReturnStatement_def Let_def split: sum.splits bool.splits)
    from visitExpression_table(1)[OF 1] 2 show ?thesis by simp
  qed
qed

lemma visitVariableDeclaration_keeps:
  assumes ok: "table_ok (symbolTable a)"
    and r: "visitVariableDeclaration tn name i a = Inr a'"
  shows "keeps_below (currentScope (symbolTable a)) (symbolTable a) (symbolTable a')"
proof -
  obtain ty a1 where g: "getTypeFromTypeNode tn a = (ty, a1)" by (cases "getTypeFromTypeNode tn a")
  have t1: "symbolTable a1 = symbolTable a"
    using getTypeFromTypeNode_table(1)[of tn a] g by simp
  show ?thesis
  proof (cases "existsInCurrentScope (tk_lexeme name) (symbolTable a1)")
    case True
    with r g t1 ok show ?thesis
      by (auto simp: visitVariableDeclaration_def keeps_below_refl)
  next
    case False
    with r g obtain a3 where
      3: "(if i \<noteq> NullExpr
           then (case visitExpression i a1 of
                   Inl x \<Rightarrow> Inl x
                 | Inr (initType, a2) \<Rightarrow>
                    (case areTypesCompatible initType ty of
                       Inl x \<Rightarrow> Inl x
                     | Inr True \<Rightarrow> Inr a2
                     | Inr False \<Rightarrow>
                        Inr (sa_error (tk_line name) (tk_column name)
                              (''Cannot initialize variable of type '' @ [CHR 0x27] @
                               to_string (kindNumber (ti_kind ty)) @ [CHR 0x27] @
                               '' with expression of type '' @ [CHR 0x27] @
                               to_string (kindNumber (ti_kind initType)) @ [CHR 0x27])
                              a2)))
           else Inr a1) = Inr a3"
      and a': "a' = a3\<lparr>symbolTable := addVariable (tk_lexeme name) ty (symbolTable a3)\<rparr>"
      by (auto simp: visitVariableDeclaration_def split: sum.splits)
    have "symbolTable a3 = symbolTable a1"
    proof (cases "i = NullExpr")
      case True
      with 3 show ?thesis by simp
    next
      case False
      with 3 obtain it a2 where e: "visitExpression i a1 = Inr (it, a2)"
        and "symbolTable a3 = symbolTable a2"
        by (auto split: sum.splits bool.splits)
      with visitExpression_table(1)[OF e] show ?thesis by simp
    qed
    with a' t1 ok show ?thesis by (simp add: keeps_below_addVariable)
  qed
qed

lemma visitForInitializer_keeps:
  assumes ok: "table_ok (symbolTable a)"
    and r: "visitForInitializer i a = Inr a'"
  shows "keeps_below (currentScope (symbolTable a)) (symbolTable a) (symbolTable a')"
proof (cases i)
  case None
  with r ok show ?thesis by (simp add: visitForInitializer_def keeps_below_refl)
next
  case (Some s)
  show ?thesis
  proof (cases s)
    case (ExpressionStatementNode e)
    with Some r have "symbolTable a' = symbolTable a"
      by (simp add: visitForInitializer_def visitExpressionStatement_table)
    with ok show ?thesis by (simp add: keeps_below_refl)
  next
    case (VariableDeclarationNode tn name init)
    with Some r ok show ?thesis
      by (simp add: visitForInitializer_def visitVariableDeclaration_keeps)
  qed (use Some r ok in \<open>simp_all add: visitForInitializer_def keeps_below_refl\<close>)
qed

lemma sa_scoped:
  assumes ok: "table_ok (symbolTable a)"
    and r: "(case f (sa_enterScope a) of Inl x \<Rightarrow> Inl x | Inr a1 \<Rightarrow> sa_leaveScope a1) = Inr a'"
    and k: "\<And>a1. f (sa_enterScope a) = Inr a1 \<Longrightarrow>
              keeps_below (Suc (currentScope (symbolTable a))) (enterScope (symbolTable a))
                (symbolTable a1)"
  shows "keeps_below (Suc (currentScope (symbolTable a))) (symbolTable a) (symbolTable a')"
proof -
  from r obtain a1 where 1: "f (sa_enterScope a) = Inr a1" and 2: "sa_leaveScope a1 = Inr a'"
    by (auto split: sum.splits)
  from keeps_below_scoped[OF ok k[OF 1] sa_leaveScope_Inr[OF 2]] show ?thesis .
qed

lemma bind_Inr:
  assumes "(case m of Inl x \<Rightarrow> Inl x | Inr y \<Rightarrow> f y) = Inr r"
  obtains y where "m = Inr y" and "f y = Inr r"
  using assms by (cases m) auto

lemma blockDepth_simps [simp]:
  "blockDepth (BlockNode ss) c = Suc c"
  "blockDepth (ExpressionStatementNode e) c = c"
  "blockDepth (VariableDeclarationNode tn n i) c = c"
  "blockDepth (IfNode co t el) c = c"
  "blockDepth (WhileNode co b) c = c"
  "blockDepth (DoWhileNode b co) c = c"
  "blockDepth (ForNode fi co inc b) c = c"
  "blockDepth (ReturnNode e) c = c"
  "blockDepth BreakNode c = c"
  "blockDepth ContinueNode c = c"
  by (simp_all add: blockDepth_def)

lemma blockDepth_ge: "c \<le> blockDepth s c"
  by (cases s) simp_all

lemma body_nonblock:
  assumes ih: "\<And>a1. table_ok (symbolTable (sa_enterScope a)) \<Longrightarrow>
                 visitStatement s (sa_enterScope a) = Inr a1 \<Longrightarrow>
                 keeps_below (blockDepth s (currentScope (symbolTable (sa_enterScope a))))
                   (symbolTable (sa_enterScope a)) (symbolTable a1)"
    and ok: "table_ok (symbolTable a)"
    and r: "(case visitStatement s (sa_enterScope a) of Inl x \<Rightarrow> Inl x
             | Inr a1 \<Rightarrow> sa_leaveScope a1) = Inr a'"
  shows "keeps_below (Suc (currentScope (symbolTable a))) (symbolTable a) (symbolTable a')"
proof (rule sa_scoped[where f = "visitStatement s", OF ok r])
  fix a1 assume v: "visitStatement s (sa_enterScope a) = Inr a1"
  have "keeps_below (blockDepth s (Suc (currentScope (symbolTable a))))
          (enterScope (symbolTable a)) (symbolTable a1)"
    using ih[OF _ v] ok by (simp add: table_ok_enterScope)
  then show "keeps_below (Suc (currentScope (symbolTable a))) (enterScope (symbolTable a))
          (symbolTable a1)"
    using blockDepth_ge by (rule keeps_below_mono)
qed

lemma visitStatement_keeps:
  "table_ok (symbolTable a) \<Longrightarrow> visitStatement s a = Inr a' \<Longrightarrow>
     keeps_below (blockDepth s (currentScope (symbolTable a))) (symbolTable a) (symbolTable a')"
  "table_ok (symbolTable a) \<Longrightarrow> visitStatements ss a = Inr a' \<Longrightarrow>
     keeps_below (currentScope (symbolTable a)) (symbolTable a) (symbolTable a')"
  "table_ok (symbolTable a) \<Longrightarrow> visitBody b a = Inr a' \<Longrightarrow>
     keeps_below (Suc (currentScope (symbolTable a))) (symbolTable a) (symbolTable a')"
proof (induction s a and ss a and b a arbitrary: a' and a' and a'
    rule: visitStatement_visitStatements_visitBody.induct)
  case (1 e a)
  then show ?case by (simp add: visitExpressionStatement_table keeps_below_refl)
next
  case (2 tn name initializer a)
  then show ?case by (simp add: visitVariableDeclaration_keeps)
next
  case (3 statements a)
  have "keeps_below (Suc (currentScope (symbolTable a))) (symbolTable a) (symbolTable a')"
  proof (rule sa_scoped[where f = "visitStatements statements"])
    show "table_ok (symbolTable a)" by fact
    show "(case visitStatements statements (sa_enterScope a) of Inl x \<Rightarrow> Inl x
           | Inr a1 \<Rightarrow> sa_leaveScope a1) = Inr a'"
      using "3.prems"(2) by simp
    fix a1 assume "visitStatements statements (sa_enterScope a) = Inr a1"
    from "3.IH"[OF _ this] "3.prems"(1)
    show "keeps_below (Suc (currentScope (symbolTable a))) (enterScope (symbolTable a))
            (symbolTable a1)"
      by (simp add: table_ok_enterScope)
  qed
  then show ?case by simp
next
  case (4 condition thenBranch elseBranch a)
  from "4.prems"(2) obtain a1 where
    1: "visitCondition ''If condition must be a scalar type'' condition a = Inr a1"
    and r1: "(case visitBody thenBranch a1 of Inl x \<Rightarrow> Inl x
              | Inr a2 \<Rightarrow> (case elseBranch of None \<Rightarrow> Inr a2 | Some e \<Rightarrow> visitBody e a2))
             = Inr a'"
    by (auto elim: bind_Inr)
  from r1 obtain a2 where 2: "visitBody thenBranch a1 = Inr a2"
    and 3: "(case elseBranch of None \<Rightarrow> Inr a2 | Some e \<Rightarrow> visitBody e a2) = Inr a'"
    by (rule bind_Inr)
  have t1: "symbolTable a1 = symbolTable a" using 1 by (rule visitCondition_table)
  have k2: "keeps_below (Suc (currentScope (symbolTable a))) (symbolTable a) (symbolTable a2)"
    using "4.IH"(1)[OF 1 _ 2] "4.prems"(1) t1 by simp
  have "keeps_below (Suc (currentScope (symbolTable a))) (symbolTable a) (symbolTable a')"
  proof (cases elseBranch)
    case None
    with 3 k2 show ?thesis by simp
  next
    case (Some e)
    with 3 have 4: "visitBody e a2 = Inr a'" by simp
    from k2 have ok2: "table_ok (symbolTable a2)"
      and c2: "currentScope (symbolTable a2) = currentScope (symbolTable a)"
      by (simp_all add: keeps_below_def)
    from "4.IH"(2)[OF 1 2 Some ok2 4] c2
    have "keeps_below (Suc (currentScope (symbolTable a))) (symbolTable a2) (symbolTable a')"
      by simp
    with k2 show ?thesis by (rule keeps_below_trans)
  qed
  then show ?case by (simp add: keeps_below_mono)
next
  case (5 condition body a)
  from "5.prems"(2) obtain a1 where
    1: "visitCondition ''While condition must be a scalar type'' condition a = Inr a1"
    and 2: "visitBody body a1 = Inr a'"
    by (auto elim: bind_Inr)
  have t1: "symbolTable a1 = symbolTable a" using 1 by (rule visitCondition_table)
  have "keeps_below (Suc (currentScope (symbolTable a))) (symbolTable a) (symbolTable a')"
    using "5.IH"[OF 1 _ 2] "5.prems"(1) t1 by simp
  then show ?case by (simp add: keeps_below_mono)
next
  case (6 body condition a)
  from "6.prems"(2) obtain a1 where 1: "visitBody body a = Inr a1"
    and 2: "visitCondition ''Do-while condition must be a scalar type'' condition a1 = Inr a'"
    by (auto elim: bind_Inr)
  have "keeps_below (Suc (currentScope (symbolTable a))) (symbolTable a) (symbolTable a1)"
    using "6.IH"[OF "6.prems"(1) 1] .
  with visitCondition_table[OF 2]
  have "keeps_below (Suc (currentScope (symbolTable a))) (symbolTable a) (symbolTable a')"
    by (simp add: keeps_below_def)
  then show ?case by (simp add: keeps_below_mono)
next
  case (7 initializer condition increment body a)
  let ?c = "currentScope (symbolTable a)"
  from "7.prems"(2) obtain b where
    1: "visitForInitializer initializer (sa_enterScope a) = Inr b"
    and r1: "(case (if condition \<noteq> NullExpr
                    then visitCondition ''For condition must be a scalar type'' condition b
                    else Inr b) of
                Inl x \<Rightarrow> Inl x
              | Inr a2 \<Rightarrow>
                 (case (if increment \<noteq> NullExpr
                        then (case visitExpression increment a2 of
                                Inl x \<Rightarrow> Inl x
                              | Inr (t, a3) \<Rightarrow> Inr a3)
                        else Inr a2) of
                    Inl x \<Rightarrow> Inl x
                  | Inr a3 \<Rightarrow>
                     (case visitBody body a3 of
                        Inl x \<Rightarrow> Inl x
                      | Inr a4 \<Rightarrow> sa_leaveScope a4))) = Inr a'"
    by (auto elim: bind_Inr)
  from r1 obtain ba where
    2: "(if condition \<noteq> NullExpr
         then visitCondition ''For condition must be a scalar type'' condition b
         else Inr b) = Inr ba"
    and r2: "(case (if increment \<noteq> NullExpr
                    then (case visitExpression increment ba of
                            Inl x \<Rightarrow> Inl x
                          | Inr (t, a3) \<Rightarrow> Inr a3)
                    else Inr ba) of
                Inl x \<Rightarrow> Inl x
              | Inr a3 \<Rightarrow>
                 (case visitBody body a3 of
                    Inl x \<Rightarrow> Inl x
                  | Inr a4 \<Rightarrow> sa_leaveScope a4)) = Inr a'"
    by (rule bind_Inr)
  from r2 obtain bb where
    3: "(if increment \<noteq> NullExpr
         then (case visitExpression increment ba of
                 Inl x \<Rightarrow> Inl x
               | Inr (t, a3) \<Rightarrow> Inr a3)
         else Inr ba) = Inr bb"
    and r3: "(case visitBody body bb of
                Inl x \<Rightarrow> Inl x
              | Inr a4 \<Rightarrow> sa_leaveScope a4) = Inr a'"
    by (rule bind_Inr)
  from r3 obtain a4 where 4: "visitBody body bb = Inr a4"
    and 5: "sa_leaveScope a4 = Inr a'"
    by (rule bind_Inr)
  have oke: "table_ok (enterScope (symbolTable a))"
    using "7.prems"(1) by (rule table_ok_enterScope)
  have kb: "keeps_below (Suc ?c) (enterScope (symbolTable a)) (symbolTable b)"
    using visitForInitializer_keeps[OF _ 1] oke by simp
  have tba: "symbolTable ba = symbolTable b"
    using 2 by (auto split: if_splits dest: visitCondition_table)
  have tbb: "symbolTable bb = symbolTable ba"
  proof (cases "increment = NullExpr")
    case True
    with 3 show ?thesis by simp
  next
    case False
    with 3 obtain t where "visitExpression increment ba = Inr (t, bb)"
      by (auto split: sum.splits)
    then show ?thesis by (rule visitExpression_table(1))
  qed
  from kb have okb: "table_ok (symbolTable b)" and cb: "currentScope (symbolTable b) = Suc ?c"
    by (simp_all add: keeps_below_def)
  have "keeps_below (Suc (Suc ?c)) (symbolTable bb) (symbolTable a4)"
    using "7.IH"[OF 1 2 3 _ 4] okb cb tba tbb by simp
  then have "keeps_below (Suc ?c) (symbolTable b) (symbolTable a4)"
    using tba tbb by (simp add: keeps_below_def)
  with kb have "keeps_below (Suc ?c) (enterScope (symbolTable a)) (symbolTable a4)"
    by (rule keeps_below_trans)
  from keeps_below_scoped[OF "7.prems"(1) this sa_leaveScope_Inr[OF 5]]
  show ?case by (simp add: keeps_below_mono)
next
  case (8 val a)
  then show ?case by (simp add: visitReturnStatement_table keeps_below_refl)
next
  case (9 a)
  then show ?case by (auto simp: visitBreakStatement_def keeps_below_refl)
next
  case (10 a)
  then show ?case by (auto simp: visitContinueStatement_def keeps_below_refl)
next
  case (11 a)
  then show ?case by (auto simp: keeps_below_refl)
next
  case (12 s ss a)
  from "12.prems"(2) obtain a1 where 1: "visitStatement s a = Inr a1"
    and 2: "visitStatements ss a1 = Inr a'"
    by (auto elim: bind_Inr)
  have k1: "keeps_below (currentScope (symbolTable a)) (symbolTable a) (symbolTable a1)"
    using "12.IH"(1)[OF "12.prems"(1) 1] blockDepth_ge by (rule keeps_below_mono)
  then have ok1: "table_ok (symbolTable a1)"
    and c1: "currentScope (symbolTable a1) = currentScope (symbolTable a)"
    by (simp_all add: keeps_below_def)
  from "12.IH"(2)[OF 1 ok1 2] c1
  have "keeps_below (currentScope (symbolTable a)) (symbolTable a1) (symbolTable a')" by simp
  with k1 show ?case by (rule keeps_below_trans)
next
  case (13 statements a)
  from "13.IH"[OF "13.prems"(1)] "13.prems"(2) show ?case by simp
qed (rule body_nonblock, assumption, assumption, simp)+

lemma visitParameter_keeps:
  "table_ok (symbolTable a) \<Longrightarrow>
   keeps_below (currentScope (symbolTable a)) (symbolTable a) (symbolTable (visitParameter p a))"
proof -
  assume ok: "table_ok (symbolTable a)"
  obtain ty a1 where g: "getTypeFromTypeNode (pn_type p) a = (ty, a1)"
    by (cases "getTypeFromTypeNode (pn_type p) a")
  have t1: "symbolTable a1 = symbolTable a"
    using getTypeFromTypeNode_table(1)[of "pn_type p" a] g by simp
  show ?thesis
    using ok t1 g
    by (simp add: visitParameter_def Let_def keeps_below_refl keeps_below_addVariable)
qed

lemma fold_visitParameter_keeps:
  "table_ok (symbolTable a) \<Longrightarrow>
   keeps_below (currentScope (symbolTable a)) (symbolTable a)
     (symbolTable (fold visitParameter ps a))"
proof (induction ps arbitrary: a)
  case Nil
  then show ?case by (simp add: keeps_below_refl)
next
  case (Cons p ps)
  have k1: "keeps_below (currentScope (symbolTable a)) (symbolTable a)
              (symbolTable (visitParameter p a))"
    using Cons.prems by (rule visitParameter_keeps)
  then have "table_ok (symbolTable (visitParameter p a))"
    and c: "currentScope (symbolTable (visitParameter p a)) = currentScope (symbolTable a)"
    by (simp_all add: keeps_below_def)
  from Cons.IH[OF this(1)] c
  have "keeps_below (currentScope (symbolTable a)) (symbolTable (visitParameter p a))
          (symbolTable (fold visitParameter ps (visitParameter p a)))" by simp
  with k1 show ?case by (simp add: keeps_below_trans)
qed

lemma addFunction_frames:
  assumes "table_ok st"
  shows "(scopes (addFunction name ty st) ! 0) name =
           Some \<lparr>si_kind = FUNCTION, si_type = ty, si_name = name, si_scopeLevel = 0\<rparr>"
    and "currentScope (addFunction name ty st) = currentScope st"
    and "length (scopes (addFunction name ty st)) = length (scopes st)"
    and "0 < i \<Longrightarrow> scopes (addFunction name ty st) ! i = scopes st ! i"
proof -
  have "0 < length (scopes st)" using assms by (cases "scopes st") (simp_all add: table_ok_def)
  then show "(scopes (addFunction name ty st) ! 0) name =
           Some \<lparr>si_kind = FUNCTION, si_type = ty, si_name = name, si_scopeLevel = 0\<rparr>"
    by (simp add: addFunction_def)
qed (simp_all add: addFunction_def)

section \<open>Properties of the lexer\<close>

lemma scans_trans:
  "scans tokens lx (tokens1, lx1) \<Longrightarrow> scans tokens1 lx1 r \<Longrightarrow> scans tokens lx r"
  by (auto simp: scans_def ahead_def)

lemma tokenizeLoop_scans: "scans tokens lx (tokenizeLoop tokens lx)"
proof (induction tokens lx rule: tokenizeLoop.induct)
  case (1 tokens lx)
  show ?case
  proof (cases "isAtEnd lx")
    case True
    then show ?thesis by (subst tokenizeLoop.simps) simp
  next
    case False
    obtain tokens1 lx1 where s: "scanToken tokens (lx\<lparr>start := current lx\<rparr>) = (tokens1, lx1)"
      by (cases "scanToken tokens (lx\<lparr>start := current lx\<rparr>)")
    from scanToken_scans [of tokens "lx\<lparr>start := current lx\<rparr>"] s
    have "scans tokens lx (tokens1, lx1)" by (simp add: scans_def ahead_def)
    from scans_trans [OF this "1.IH" [OF False s [symmetric]]] False s
    show ?thesis by (subst tokenizeLoop.simps) simp
  qed
qed

subsection \<open>The text of a numeric literal\<close>

lemma consumed_refl [simp]: "consumed lx lx []"
  by (simp add: consumed_def)

lemma consumed_trans: "consumed a b t \<Longrightarrow> consumed b c u \<Longrightarrow> consumed a c (t @ u)"
  by (simp add: consumed_def)

lemma consumed_text: "consumed lx lx' t \<Longrightarrow> numberText lx lx' = t"
  by (simp add: consumed_def numberText_def substr_def rest_def)

lemma consumed_advanced: "peek lx \<noteq> CHR 0x00 \<Longrightarrow> consumed lx (advanced lx) [peek lx]"
  by (auto simp: consumed_def rest_def peek_def isAtEnd_def charAt_def Cons_nth_drop_Suc
        split: if_splits)

lemma peek_advanced: "peek (advanced lx) = peekNext lx"
  by (simp add: peek_def peekNext_def isAtEnd_def)

lemma digitsLoop_consumed:
  "\<exists>ds. consumed lx (digitsLoop lx) ds \<and> list_all isdigit ds \<and> (isdigit (peek lx) \<longrightarrow> ds \<noteq> [])"
proof (induction lx rule: digitsLoop.induct)
  case (1 lx)
  show ?case
  proof (cases "isdigit (peek lx)")
    case True
    then have "peek lx \<noteq> CHR 0x00" by auto
    note nz = this
    from "1.IH" [OF True] obtain ds where
      a: "consumed (advanced lx) (digitsLoop (advanced lx)) ds" and b: "list_all isdigit ds"
      by blast
    from consumed_trans [OF consumed_advanced [OF nz] a]
    have "consumed lx (digitsLoop (advanced lx)) (peek lx # ds)" by simp
    with True b show ?thesis
      by (subst digitsLoop.simps) (auto intro!: exI [of _ "peek lx # ds"])
  next
    case False
    then show ?thesis by (subst digitsLoop.simps) (auto intro!: exI [of _ "[]"])
  qed
qed

lemma fraction_consumed:
  "\<exists>t. consumed lx
         (if peek lx = CHR ''.'' \<and> isdigit (peekNext lx) then digitsLoop (advanced lx) else lx) t \<and>
       fractionShape t \<and> (t \<noteq> [] \<longleftrightarrow> peek lx = CHR ''.'' \<and> isdigit (peekNext lx))"
proof (cases "peek lx = CHR ''.'' \<and> isdigit (peekNext lx)")
  case False
  then show ?thesis by (auto simp: fractionShape_def intro!: exI [of _ "[]"])
next
  case True
  then have 1: "consumed lx (advanced lx) ''.''" using consumed_advanced [of lx] by simp
  from True have "isdigit (peek (advanced lx))" by (simp add: peek_advanced)
  with digitsLoop_consumed [of "advanced lx"] obtain ds where
    2: "consumed (advanced lx) (digitsLoop (advanced lx)) ds" and "list_all isdigit ds" "ds \<noteq> []"
    by auto
  then obtain d ds' where "ds = d # ds'" "isdigit d" "list_all isdigit ds'"
    by (cases ds) auto
  with consumed_trans [OF 1 2] True show ?thesis
    by (auto simp: fractionShape_def intro!: exI [of _ "CHR ''.'' # ds"])
qed

lemma exponent_consumed:
  assumes e: "peek lx = CHR ''e'' \<or> peek lx = CHR ''E''"
    and d: "isdigit (peek (if peek (advanced lx) = CHR ''+'' \<or> peek (advanced lx) = CHR ''-''
                           then advanced (advanced lx) else advanced lx))"
  shows "\<exists>t. consumed lx
           (digitsLoop (if peek (advanced lx) = CHR ''+'' \<or> peek (advanced lx) = CHR ''-''
                        then advanced (advanced lx) else advanced lx)) t \<and>
         exponentShape t \<and> t \<noteq> []"
proof -
  let ?lx4 = "if peek (advanced lx) = CHR ''+'' \<or> peek (advanced lx) = CHR ''-''
              then advanced (advanced lx) else advanced lx"
  from e have 1: "consumed lx (advanced lx) [peek lx]" by (intro consumed_advanced) auto
  have "\<exists>sg. consumed (advanced lx) ?lx4 sg \<and> (sg = [] \<or> sg = ''+'' \<or> sg = ''-'')"
  proof (cases "peek (advanced lx) = CHR ''+'' \<or> peek (advanced lx) = CHR ''-''")
    case True
    then have "consumed (advanced lx) (advanced (advanced lx)) [peek (advanced lx)]"
      by (intro consumed_advanced) auto
    with True show ?thesis by (intro exI [of _ "[peek (advanced lx)]"]) auto
  next
    case False
    then show ?thesis by (intro exI [of _ "[]"]) auto
  qed
  then obtain sg where 2: "consumed (advanced lx) ?lx4 sg" and sg: "sg = [] \<or> sg = ''+'' \<or> sg = ''-''"
    by blast
  from digitsLoop_consumed [of ?lx4] d obtain ds where
    3: "consumed ?lx4 (digitsLoop ?lx4) ds" and "list_all isdigit ds" "ds \<noteq> []"
    by blast
  then obtain d ds' where ds: "ds = d # ds'" "isdigit d" "list_all isdigit ds'"
    by (cases ds) auto
  from consumed_trans [OF consumed_trans [OF 1 2] 3]
  have "consumed lx (digitsLoop ?lx4) (peek lx # sg @ d # ds')" by (simp add: ds)
  moreover have "exponentShape (peek lx # sg @ d # ds')"
    unfolding exponentShape_def using e sg ds by blast
  ultimately show ?thesis by blast
qed

lemma numberSuffix_consumed:
  "\<exists>t lx'. numberSuffix isFloat tokens lx =
             (tokens @ [makeToken (if isFloat \<or> t = ''f'' \<or> t = ''F'' then FLOAT_LITERAL
                                   else INTEGER_LITERAL) lx'], lx') \<and>
           consumed lx lx' t \<and> suffixShape t"
proof -
  consider (f) "peek lx = CHR ''f'' \<or> peek lx = CHR ''F''"
    | (l) "peek lx = CHR ''l'' \<or> peek lx = CHR ''L''"
    | (u) "peek lx = CHR ''u'' \<or> peek lx = CHR ''U''"
    | (n) "peek lx \<notin> {CHR ''f'', CHR ''F'', CHR ''l'', CHR ''L'', CHR ''u'', CHR ''U''}"
    by auto
  then show ?thesis
  proof cases
    case f
    then have "consumed lx (advanced lx) [peek lx]" by (intro consumed_advanced) auto
    with f show ?thesis
      by (intro exI [of _ "[peek lx]"] exI [of _ "advanced lx"])
         (auto simp: numberSuffix_def addToken_def suffixShape_def)
  next
    case l
    then have 1: "consumed lx (advanced lx) [peek lx]" by (intro consumed_advanced) auto
    show ?thesis
    proof (cases "peek (advanced lx) = CHR ''u'' \<or> peek (advanced lx) = CHR ''U''")
      case True
      then have "consumed (advanced lx) (advanced (advanced lx)) [peek (advanced lx)]"
        by (intro consumed_advanced) auto
      from consumed_trans [OF 1 this] l True show ?thesis
        by (intro exI [of _ "[peek lx, peek (advanced lx)]"] exI [of _ "advanced (advanced lx)"])
           (auto simp: numberSuffix_def addToken_def suffixShape_def Let_def)
    next
      case False
      with 1 l show ?thesis
        by (intro exI [of _ "[peek lx]"] exI [of _ "advanced lx"])
           (auto simp: numberSuffix_def addToken_def suffixShape_def Let_def)
    qed
  next
    case u
    then have 1: "consumed lx (advanced lx) [peek lx]" by (intro consumed_advanced) auto
    show ?thesis
    proof (cases "peek (advanced lx) = CHR ''l'' \<or> peek (advanced lx) = CHR ''L''")
      case True
      then have "consumed (advanced lx) (advanced (advanced lx)) [peek (advanced lx)]"
        by (intro consumed_advanced) auto
      from consumed_trans [OF 1 this] u True show ?thesis
        by (intro exI [of _ "[peek lx, peek (advanced lx)]"] exI [of _ "advanced (advanced lx)"])
           (auto simp: numberSuffix_def addToken_def suffixShape_def Let_def)
    next
      case False
      with 1 u show ?thesis
        by (intro exI [of _ "[peek lx]"] exI [of _ "advanced lx"])
           (auto simp: numberSuffix_def addToken_def suffixShape_def Let_def)
    qed
  next
    case n
    then show ?thesis
      by (intro exI [of _ "[]"] exI [of _ lx])
         (auto simp: numberSuffix_def addToken_def suffixShape_def)
  qed
qed

lemma isdigit_chars:
  "isdigit c \<Longrightarrow>
     c \<noteq> CHR ''.'' \<and> c \<noteq> CHR ''e'' \<and> c \<noteq> CHR ''E'' \<and> c \<noteq> CHR ''f'' \<and> c \<noteq> CHR ''F''"
  by (auto simp: isdigit_def charCode_def)

lemma nondigits [simp]:
  "\<not> isdigit (CHR ''.'')" "\<not> isdigit (CHR ''e'')" "\<not> isdigit (CHR ''E'')"
  "\<not> isdigit (CHR ''f'')" "\<not> isdigit (CHR ''F'')"
  by (simp_all add: isdigit_def charCode_def)

lemma digits_chars:
  assumes "list_all isdigit ds"
  shows "CHR ''.'' \<notin> set ds" "CHR ''e'' \<notin> set ds" "CHR ''E'' \<notin> set ds"
  using assms by (auto simp: list_all_iff)

lemma hasFraction_Cons: "c \<noteq> CHR ''.'' \<Longrightarrow> hasFraction (c # t) = hasFraction t"
  by (cases t) auto

lemma hasFraction_no_dot: "CHR ''.'' \<notin> set t \<Longrightarrow> \<not> hasFraction t"
  by (induction t) (auto simp: hasFraction_Cons)

lemma hasFraction_digits: "list_all isdigit ds \<Longrightarrow> hasFraction (ds @ t) = hasFraction t"
  by (induction ds) (auto simp: hasFraction_Cons dest: isdigit_chars)

lemma digits_set: "list_all isdigit ds \<Longrightarrow> c \<in> set ds \<Longrightarrow> isdigit c"
  by (simp add: list_all_iff)

lemma digits_last: "list_all isdigit ds \<Longrightarrow> ds \<noteq> [] \<Longrightarrow> isdigit (last ds)"
  by (simp add: list_all_iff)

lemma fractionShape_chars:
  assumes "fractionShape t"
  shows "CHR ''e'' \<notin> set t" "CHR ''E'' \<notin> set t" "t \<noteq> [] \<Longrightarrow> isdigit (last t)"
    "t \<noteq> [] \<Longrightarrow> hasFraction (t @ u)"
  using assms
  by (auto simp: fractionShape_def digits_last dest: digits_chars)

lemma exponentShape_chars:
  assumes "exponentShape t"
  shows "CHR ''.'' \<notin> set t" "t \<noteq> [] \<Longrightarrow> isdigit (last t)"
    "t \<noteq> [] \<Longrightarrow> CHR ''e'' \<in> set t \<or> CHR ''E'' \<in> set t"
  using assms
  by (auto simp: exponentShape_def digits_last dest: digits_chars)

lemma suffixShape_chars:
  assumes "suffixShape t"
  shows "CHR ''.'' \<notin> set t" "CHR ''e'' \<notin> set t" "CHR ''E'' \<notin> set t"
    "t \<noteq> [] \<Longrightarrow> (last t = CHR ''f'' \<or> last t = CHR ''F'') = (t = ''f'' \<or> t = ''F'')"
proof -
  have "last t \<noteq> CHR ''f'' \<and> last t \<noteq> CHR ''F''"
    if a: "t \<noteq> []" and b: "set t \<subseteq> {CHR ''l'', CHR ''L'', CHR ''u'', CHR ''U''}"
  proof -
    from subsetD [OF b last_in_set [OF a]] show ?thesis by auto
  qed
  with assms show "t \<noteq> [] \<Longrightarrow> (last t = CHR ''f'' \<or> last t = CHR ''F'') = (t = ''f'' \<or> t = ''F'')"
    by (auto simp: suffixShape_def)
  from assms show "CHR ''.'' \<notin> set t" "CHR ''e'' \<notin> set t" "CHR ''E'' \<notin> set t"
    by (auto simp: suffixShape_def)
qed

lemma spec_isFloatLiteral_shape:
  assumes ds: "list_all isdigit ds" and F: "fractionShape F" and E: "exponentShape E"
    and S: "suffixShape S"
  shows "spec_isFloatLiteral (ds @ F @ E @ S) \<longleftrightarrow> F \<noteq> [] \<or> E \<noteq> [] \<or> S = ''f'' \<or> S = ''F''"
proof -
  have 1: "hasFraction (ds @ F @ E @ S) \<longleftrightarrow> F \<noteq> []"
    using fractionShape_chars(4) [OF F, of "E @ S"] exponentShape_chars(1) [OF E]
      suffixShape_chars(1) [OF S]
    by (cases "F = []") (auto simp: hasFraction_digits [OF ds] intro!: hasFraction_no_dot)
  have 2: "hasExponent (ds @ F @ E @ S) \<longleftrightarrow> E \<noteq> []"
    using fractionShape_chars(1,2) [OF F] exponentShape_chars(3) [OF E]
      suffixShape_chars(2,3) [OF S]
    by (auto simp: hasExponent_def dest: digits_set [OF ds] isdigit_chars)
  have 3: "hasFloatSuffix (ds @ F @ E @ S) \<longleftrightarrow> S = ''f'' \<or> S = ''F''"
  proof (cases "S = []")
    case False
    with suffixShape_chars(4) [OF S] show ?thesis by (simp add: hasFloatSuffix_def)
  next
    case True
    have "ds @ F @ E \<noteq> [] \<Longrightarrow> isdigit (last (ds @ F @ E))"
      using digits_last [OF ds] fractionShape_chars(3) [OF F] exponentShape_chars(2) [OF E]
      by (auto simp: last_append)
    with True show ?thesis by (auto simp: hasFloatSuffix_def dest: isdigit_chars)
  qed
  show ?thesis by (auto simp: spec_isFloatLiteral_def 1 2 3)
qed

lemma number_shape:
  assumes n: "number tokens lx = (tokens', lx')" and t: "tokens' \<noteq> tokens"
  shows "\<exists>ds F E S isFloat.
           list_all isdigit ds \<and> fractionShape F \<and> exponentShape E \<and> suffixShape S \<and>
           consumed lx lx' (ds @ F @ E @ S) \<and>
           (isFloat \<longleftrightarrow> F \<noteq> [] \<or> E \<noteq> [] \<or> S = ''f'' \<or> S = ''F'') \<and>
           tokens' = tokens @ [makeToken (if isFloat then FLOAT_LITERAL else INTEGER_LITERAL) lx']"
proof -
  define lx1 where "lx1 = digitsLoop lx"
  define c1 where "c1 \<longleftrightarrow> peek lx1 = CHR ''.'' \<and> isdigit (peekNext lx1)"
  define lx2 where "lx2 = (if c1 then digitsLoop (advanced lx1) else lx1)"
  define lx4 where "lx4 = (if peek (advanced lx2) = CHR ''+'' \<or> peek (advanced lx2) = CHR ''-''
                           then advanced (advanced lx2) else advanced lx2)"
  from digitsLoop_consumed [of lx] obtain ds where
    ds: "consumed lx lx1 ds" "list_all isdigit ds" by (auto simp: lx1_def)
  from fraction_consumed [of lx1] obtain F where
    F: "consumed lx1 lx2 F" "fractionShape F" "F \<noteq> [] \<longleftrightarrow> c1"
    unfolding lx2_def c1_def by blast
  have eq: "number tokens lx =
     (if peek lx2 = CHR ''e'' \<or> peek lx2 = CHR ''E'' then
        (if \<not> isdigit (peek lx4) then
           (tokens,
            lx_error (line lx4) (column lx4)
              ''Invalid floating point number: exponent has no digits'' lx4)
         else numberSuffix True tokens (digitsLoop lx4))
      else numberSuffix c1 tokens lx2)"
    by (auto simp add: number_def Let_def lx1_def lx2_def lx4_def c1_def)
  show ?thesis
  proof (cases "peek lx2 = CHR ''e'' \<or> peek lx2 = CHR ''E''")
    case False
    from numberSuffix_consumed [of c1 tokens lx2] obtain S lx3 where
      S: "numberSuffix c1 tokens lx2 =
            (tokens @ [makeToken (if c1 \<or> S = ''f'' \<or> S = ''F'' then FLOAT_LITERAL
                                  else INTEGER_LITERAL) lx3], lx3)"
        "consumed lx2 lx3 S" "suffixShape S"
      by blast
    from n False S(1) have r: "lx' = lx3"
      "tokens' = tokens @ [makeToken (if c1 \<or> S = ''f'' \<or> S = ''F'' then FLOAT_LITERAL
                                     else INTEGER_LITERAL) lx']"
      by (auto simp: eq)
    from consumed_trans [OF consumed_trans [OF ds(1) F(1)] S(2)]
    have "consumed lx lx' (ds @ F @ [] @ S)" by (simp add: r(1))
    moreover have "exponentShape []" by (simp add: exponentShape_def)
    ultimately show ?thesis using ds(2) F(2,3) S(3) r(2)
      by (intro exI [of _ ds] exI [of _ F] exI [of _ "[]"] exI [of _ S]
            exI [of _ "c1 \<or> S = ''f'' \<or> S = ''F''"]) simp
  next
    case e: True
    show ?thesis
    proof (cases "isdigit (peek lx4)")
      case False
      with n e t show ?thesis by (simp add: eq)
    next
      case True
      from exponent_consumed [OF e] True obtain E where
        E: "consumed lx2 (digitsLoop lx4) E" "exponentShape E" "E \<noteq> []"
        unfolding lx4_def by blast
      from numberSuffix_consumed [of True tokens "digitsLoop lx4"] obtain S lx5 where
        S: "numberSuffix True tokens (digitsLoop lx4) =
              (tokens @ [makeToken FLOAT_LITERAL lx5], lx5)"
          "consumed (digitsLoop lx4) lx5 S" "suffixShape S"
        by auto
      from n e True S(1) have r: "lx' = lx5"
        "tokens' = tokens @ [makeToken FLOAT_LITERAL lx']"
        by (auto simp: eq)
      from consumed_trans [OF consumed_trans [OF consumed_trans [OF ds(1) F(1)] E(1)] S(2)]
      have "consumed lx lx' (ds @ F @ E @ S)" by (simp add: r(1))
      then show ?thesis using ds(2) F(2) E(2,3) S(3) r(2)
        by (intro exI [of _ ds] exI [of _ F] exI [of _ E] exI [of _ S] exI [of _ True]) simp
    qed
  qed
qed

lemmas lexer_defs = number_def numberSuffix_def digitsLoop.simps peek_def peekNext_def
  isAtEnd_def charAt_def advanced_def advance_def newLexer_def isdigit_def charCode_def
  addToken_def makeToken_def substr_def mkToken_def

lemmas scan_defs = tokenize_def tokenizeLoop.simps scanToken_def skipWhitespace.simps
  identifier_tok_def identifierLoop.simps number_def numberSuffix_def digitsLoop.simps
  match_def peek_def peekNext_def isAtEnd_def charAt_def advanced_def advance_def newLexer_def
  isdigit_def isalpha_def isalnum_def charCode_def addToken_def makeToken_def substr_def
  mkToken_def Keywords_def

section \<open>Properties of the parser\<close>

lemma andThen_simps [simp]:
  "andThen (Returns x p) f = f x p"
  "andThen (Throws msg p) f = Throws msg p"
  "andThen Undefined f = Undefined"
  "andThen OutOfFuel f = OutOfFuel"
  by (simp_all add: andThen_def)

lemma andThen_weak_cong: "r = r' \<Longrightarrow> andThen r f = andThen r' f"
  by simp

lemmas parser_defs = primary_def postfix_def factor_def termExpr_def shift_def comparison_def
  equality_def bitwiseAnd_def bitwiseXor_def bitwiseOr_def logicalAnd_def logicalOr_def
  assignmentOperators_def assignmentNode_def compoundOperator_def moved_def
  p_match_def p_check_def p_advance_def p_isAtEnd_def p_peek_def p_previous_def p_consume_def
  p_fail_def newParser_def compoundExample_def mkToken_def substr_def

lemmas program_defs = typeSpecifier_def qualifierLoop.simps pointerLoop.simps
  variableDeclaration_def expressionStatement_def returnStatement_def breakStatement_def
  continueStatement_def forInitializer_def parameter_def parameterList_def
  functionDeclaration_def declarationNode_def program_def parse_def isTypeSpecifier_def
  synchronize_def synchronizeLoop.simps synchronizationPoint_def recover_def

lemmas evaluation_congs = let_weak_cong prod.case_cong_weak andThen_weak_cong

lemma compoundOperator_known:
  assumes "ty \<in> set assignmentOperators" and "ty \<noteq> OP OP_EQUALS"
  shows "compoundOperator ty \<noteq> UNKNOWN"
  using assms by (auto simp: assignmentOperators_def compoundOperator_def)

section \<open>Properties of the code generator\<close>

lemmas cg_defs = generate_def initialize_def setupSection_def addSymbol_def addSection_def
  emptyCoilObject_def emitInstruction_def addInstruction_def generateFunctionDeclaration_def
  cg_addSymbol_def findSymbol_def emitLabel_def cg_enterScope_def cg_leaveScope_def
  generateBlock_def emitScopeEnter_def emitScopeLeave_def generateBreakStatement_def
  generateContinueStatement_def cg_warning_def cg_error_def warning_def error_def addError_def
  generateReturnStatement_def generateLiteral_def getNextVarId_def emitVarDeclaration_def
  generateVariableDeclaration_def declareVariable_def translateType_def generateVariable_def
  generateExpressionStatement_def

lemma stoi_0: "stoi ''0'' = Inr 0" "stoi ''1'' = Inr 1" "stoi ''2'' = Inr 2" "stoi '' 0'' = Inr 0"
  by (simp_all add: stoi_def isspace_def isdigit_def charCode_def Let_def)

lemma cg_prims_scopes [simp]:
  "variables (emitInstruction opc ops g) = variables g"
  "scopeStack (emitInstruction opc ops g) = scopeStack g"
  "variables (cg_error li co m g) = variables g"
  "scopeStack (cg_error li co m g) = scopeStack g"
  "variables (cg_warning li co m g) = variables g"
  "scopeStack (cg_warning li co m g) = scopeStack g"
  "variables (snd (getNextVarId g)) = variables g"
  "scopeStack (snd (getNextVarId g)) = scopeStack g"
  "variables (snd (cg_addSymbol n at sec g)) = variables g"
  "scopeStack (snd (cg_addSymbol n at sec g)) = scopeStack g"
  "variables (snd (generateLabel pfx g)) = variables g"
  "scopeStack (snd (generateLabel pfx g)) = scopeStack g"
  "variables (snd (translateType tn g)) = variables g"
  "scopeStack (snd (translateType tn g)) = scopeStack g"
  by (simp_all add: emitInstruction_def cg_error_def cg_warning_def getNextVarId_def
        cg_addSymbol_def generateLabel_def translateType_def Let_def split_def)

lemma cg_emit_scopes [simp]:
  "variables (emitVarDeclaration v ty i g) = variables g"
  "scopeStack (emitVarDeclaration v ty i g) = scopeStack g"
  "variables (emitLabel l g) = variables g"
  "scopeStack (emitLabel l g) = scopeStack g"
  "variables (emitJump l g) = variables g"
  "scopeStack (emitJump l g) = scopeStack g"
  "variables (emitScopeEnter g) = variables g"
  "scopeStack (emitScopeEnter g) = scopeStack g"
  "variables (emitScopeLeave g) = variables g"
  "scopeStack (emitScopeLeave g) = scopeStack g"
  by (simp_all add: emitVarDeclaration_def emitLabel_def emitJump_def emitScopeEnter_def
        emitScopeLeave_def split_def Let_def)

lemma cg_compound_scopes [simp]:
  "variables (snd (generateVariable n g)) = variables g"
  "scopeStack (snd (generateVariable n g)) = scopeStack g"
  "variables (snd (generateUnaryOp op v g)) = variables g"
  "scopeStack (snd (generateUnaryOp op v g)) = scopeStack g"
  "variables (snd (generateBinaryOp op l r g)) = variables g"
  "scopeStack (snd (generateBinaryOp op l r g)) = scopeStack g"
  "variables (snd (emitCall f ids g)) = variables g"
  "scopeStack (snd (emitCall f ids g)) = scopeStack g"
  "variables (snd (conditionalHead c g)) = variables g"
  "scopeStack (snd (conditionalHead c g)) = scopeStack g"
  "variables (snd (twoLabels p1 p2 g)) = variables g"
  "scopeStack (snd (twoLabels p1 p2 g)) = scopeStack g"
  "variables (snd (threeLabels p1 p2 p3 g)) = variables g"
  "scopeStack (snd (threeLabels p1 p2 p3 g)) = scopeStack g"
  by (simp_all add: generateVariable_def generateUnaryOp_def generateBinaryOp_def
        emitArithmetic_def emitCall_def conditionalHead_def twoLabels_def threeLabels_def
        split_def Let_def split: option.splits)

lemma generateLiteral_scopes:
  "generateLiteral stof tok g = Inr (v, g') \<Longrightarrow>
   variables g' = variables g \<and> scopeStack g' = scopeStack g"
  by (auto simp: generateLiteral_def split_def Let_def split: if_splits sum.splits)

subsection \<open>Expressions bind no name; statements add names to the top scope only\<close>

lemma same_scopes_refl [simp]: "same_scopes g g"
  by (simp add: same_scopes_def)

lemma same_scopes_trans: "same_scopes g g1 \<Longrightarrow> same_scopes g1 g2 \<Longrightarrow> same_scopes g g2"
  by (simp add: same_scopes_def)

lemma same_scopes_prims [simp]:
  "same_scopes g (emitInstruction opc ops g1) = same_scopes g g1"
  "same_scopes g (cg_error li co m g1) = same_scopes g g1"
  "same_scopes g (cg_warning li co m g1) = same_scopes g g1"
  "same_scopes g (emitVarDeclaration v ty i g1) = same_scopes g g1"
  "same_scopes g (emitLabel lab g1) = same_scopes g g1"
  "same_scopes g (emitJump lab g1) = same_scopes g g1"
  "same_scopes g (snd (getNextVarId g1)) = same_scopes g g1"
  "same_scopes g (snd (generateVariable n g1)) = same_scopes g g1"
  "same_scopes g (snd (generateUnaryOp op v g1)) = same_scopes g g1"
  "same_scopes g (snd (generateBinaryOp op lv rv g1)) = same_scopes g g1"
  "same_scopes g (snd (emitCall f ids g1)) = same_scopes g g1"
  "same_scopes g (snd (conditionalHead c g1)) = same_scopes g g1"
  by (simp_all add: same_scopes_def)

lemma generateLiteral_same: "generateLiteral stof tok g = Inr (v, g') \<Longrightarrow> same_scopes g g'"
  by (simp add: same_scopes_def generateLiteral_scopes)

lemma generateExpression_same:
  "generateExpression stof e g = Inr (v, g') \<Longrightarrow> same_scopes g g'"
  "generateArguments stof es g = Inr (vs, g'') \<Longrightarrow> same_scopes g g''"
proof (induction stof e g and stof es g arbitrary: v g' and vs g''
    rule: generateExpression_generateArguments.induct)
  case (1 stof g)
  then show ?case by auto
next
  case (2 stof tok g)
  then show ?case by (simp add: generateLiteral_same)
next
  case (3 stof name g)
  then show ?case by (auto simp: prod_eq_iff)
next
  case (4 stof op operand g)
  from "4.prems" obtain ov g1 where 1: "generateExpression stof operand g = Inr (ov, g1)"
    and 2: "(v, g') = generateUnaryOp op ov g1"
    by (auto elim: bind_Inr)
  from 2 have "g' = snd (generateUnaryOp op ov g1)" by (metis snd_conv)
  with "4.IH"[OF 1] show ?case by simp
next
  case (5 stof left op right g)
  from "5.prems" obtain lv g1 where 1: "generateExpression stof left g = Inr (lv, g1)"
    and r1: "(case generateExpression stof right g1 of Inl x \<Rightarrow> Inl x
              | Inr (rightVarId, g2) \<Rightarrow> Inr (generateBinaryOp op lv rightVarId g2)) = Inr (v, g')"
    by (auto elim: bind_Inr)
  from r1 obtain rv g2 where 2: "generateExpression stof right g1 = Inr (rv, g2)"
    and 3: "(v, g') = generateBinaryOp op lv rv g2"
    by (auto elim: bind_Inr)
  from 3 have "g' = snd (generateBinaryOp op lv rv g2)" by (metis snd_conv)
  with "5.IH"(1)[OF 1] "5.IH"(2)[OF 1 refl 2] show ?case
    by (simp add: same_scopes_def)
next
  case (6 stof callee arguments g)
  show ?case
  proof (cases callee)
    case (VariableNode name)
    with "6.prems" obtain ids g1 where 1: "generateArguments stof arguments g = Inr (ids, g1)"
      and 2: "(v, g') = emitCall (tk_lexeme name) ids g1"
      by (auto elim: bind_Inr)
    from 2 have "g' = snd (emitCall (tk_lexeme name) ids g1)" by (metis snd_conv)
    with "6.IH"[OF VariableNode 1] show ?thesis by simp
  qed (use "6.prems" in auto)
next
  case (7 stof array index g)
  from "7.prems" obtain av g1 where 1: "generateExpression stof array g = Inr (av, g1)"
    and r1: "(case generateExpression stof index g1 of Inl x \<Rightarrow> Inl x
              | Inr (indexVarId, g2) \<Rightarrow>
                 (let (resultVarId, g3) = getNextVarId g2 in
                  Inr (resultVarId,
                       emitInstruction I_INDEX
                         [VariableOperand resultVarId, VariableOperand av,
                          VariableOperand indexVarId]
                         (emitVarDeclaration resultVarId T_INT32 0 g3)))) = Inr (v, g')"
    by (auto elim: bind_Inr)
  from r1 obtain iv g2 where 2: "generateExpression stof index g1 = Inr (iv, g2)"
    and 3: "same_scopes g2 g'"
    by (auto elim!: bind_Inr simp: split_def Let_def)
  from "7.IH"(1)[OF 1] "7.IH"(2)[OF 1 refl 2] 3 show ?case
    by (simp add: same_scopes_def)
next
  case (8 stof object op member g)
  then show ?case by auto
next
  case (9 stof condition trueExpr falseExpr g)
  from "9.prems" obtain cv g1 where 1: "generateExpression stof condition g = Inr (cv, g1)"
    by (auto elim: bind_Inr)
  obtain falseLabel endLabel resultVarId g2 where
    h: "conditionalHead cv g1 = ((falseLabel, endLabel, resultVarId), g2)"
    by (metis prod_cases3 surj_pair)
  have s12: "same_scopes g1 g2" using same_scopes_prims(12)[of g1 cv g1] h by simp
  from "9.prems" 1 h obtain tv g3 where 3: "generateExpression stof trueExpr g2 = Inr (tv, g3)"
    and r3: "(case generateExpression stof falseExpr
                     (emitLabel falseLabel
                        (emitJump endLabel
                           (emitInstruction I_MOV
                              [VariableOperand resultVarId, VariableOperand tv] g3))) of
                Inl x \<Rightarrow> Inl x
              | Inr (falseVarId, g4) \<Rightarrow>
                 Inr (resultVarId,
                      emitLabel endLabel
                        (emitInstruction I_MOV
                           [VariableOperand resultVarId, VariableOperand falseVarId] g4)))
             = Inr (v, g')"
    by (auto elim: bind_Inr)
  from r3 obtain fv g4 where 4: "generateExpression stof falseExpr
                     (emitLabel falseLabel
                        (emitJump endLabel
                           (emitInstruction I_MOV
                              [VariableOperand resultVarId, VariableOperand tv] g3)))
                     = Inr (fv, g4)"
    and 5: "same_scopes g4 g'"
    by (auto elim!: bind_Inr)
  have s23: "same_scopes g2 g3" using "9.IH"(2)[OF 1 refl h[symmetric] refl refl 3] .
  have s34: "same_scopes g3 g4"
    using "9.IH"(3)[OF 1 refl h[symmetric] refl refl 3 refl 4] by (simp add: same_scopes_def)
  from "9.IH"(1)[OF 1] s12 s23 s34 5 show ?case by (simp add: same_scopes_def)
next
  case (10 stof g)
  then show ?case by auto
next
  case (11 stof arg args g)
  from "11.prems" obtain av g1 where 1: "generateExpression stof arg g = Inr (av, g1)"
    and r1: "(case generateArguments stof args g1 of Inl x \<Rightarrow> Inl x
              | Inr (vs, g2) \<Rightarrow> Inr (av # vs, g2)) = Inr (vs, g'')"
    by (auto elim: bind_Inr)
  from r1 obtain ws where 2: "generateArguments stof args g1 = Inr (ws, g'')"
    by (auto elim: bind_Inr)
  from "11.IH"(1)[OF 1] "11.IH"(2)[OF 1 refl 2] show ?case by (simp add: same_scopes_def)
qed

lemma grows_same: "scopeStack g \<noteq> [] \<Longrightarrow> scopeStack g' = scopeStack g \<Longrightarrow> grows g g' []"
  by (simp add: grows_def)

lemma grows_trans: "grows g g1 a1 \<Longrightarrow> grows g1 g2 a2 \<Longrightarrow> grows g g2 (a1 @ a2)"
  by (simp add: grows_def)

lemma grows_left: "scopeStack g0 = scopeStack g \<Longrightarrow> grows g0 g' a \<Longrightarrow> grows g g' a"
  by (simp add: grows_def)

lemma grows_right: "scopeStack g'' = scopeStack g' \<Longrightarrow> grows g g' a \<Longrightarrow> grows g g'' a"
  by (simp add: grows_def)

lemma grows_nonempty: "grows g g' a \<Longrightarrow> scopeStack g' \<noteq> []"
  by (simp add: grows_def)

lemma generateExpressionStatement_same:
  "generateExpressionStatement stof e g = Inr g' \<Longrightarrow> same_scopes g g'"
  by (auto simp: generateExpressionStatement_def elim!: bind_Inr dest: generateExpression_same(1))

lemma generateReturnStatement_same:
  "generateReturnStatement stof e g = Inr g' \<Longrightarrow> same_scopes g g'"
  by (auto simp: generateReturnStatement_def same_scopes_def split: if_splits
      elim!: bind_Inr dest!: generateExpression_same(1))

lemma generateConditionBranch_same:
  "generateConditionBranch stof c lab g = Inr g' \<Longrightarrow> same_scopes g g'"
  by (auto simp: generateConditionBranch_def same_scopes_def
      elim!: bind_Inr dest!: generateExpression_same(1))

lemma generateVariableDeclaration_grows:
  assumes "generateVariableDeclaration stof tn name i g = Inr g'"
  shows "grows g g' [tk_lexeme name] \<and>
         variables g' (tk_lexeme name) =
           Some \<lparr>var_name = tk_lexeme name, varId = nextVarId g,
                 var_type = fst (translateType tn g)\<rparr>"
proof -
  define g1 where "g1 = snd (translateType tn g)"
  define g2 where "g2 = snd (getNextVarId g1)"
  define w where "w = fst (getNextVarId g1)"
  have n: "w = nextVarId g"
    by (simp add: w_def g1_def getNextVarId_def translateType_def Let_def cg_warning_def)
  from assms obtain g3 where
    3: "declareVariable (tk_lexeme name) w (fst (translateType tn g)) g2 = Inr g3"
    and r: "(if i \<noteq> NullExpr then
               (case generateExpression stof i g3 of
                  Inl x \<Rightarrow> Inl x
                | Inr (initVarId, g4) \<Rightarrow>
                    Inr (emitVarDeclaration w (fst (translateType tn g)) initVarId g4))
             else Inr (emitVarDeclaration w (fst (translateType tn g)) 0 g3)) = Inr g'"
    unfolding generateVariableDeclaration_def g1_def g2_def w_def
    by (auto simp: split_def Let_def elim!: bind_Inr)
  have s2: "scopeStack g2 = scopeStack g" "variables g2 = variables g"
    by (simp_all add: g2_def g1_def)
  from 3 s2 have ne: "scopeStack g \<noteq> []"
    and st3: "scopeStack g3 = (hd (scopeStack g) @ [tk_lexeme name]) # tl (scopeStack g)"
    and v3: "variables g3 (tk_lexeme name) =
           Some \<lparr>var_name = tk_lexeme name, varId = nextVarId g,
                 var_type = fst (translateType tn g)\<rparr>"
    unfolding n by (auto simp: declareVariable_def split: list.splits)
  have "same_scopes g3 g'"
  proof (cases "i = NullExpr")
    case True
    with r show ?thesis by (auto simp: same_scopes_def)
  next
    case False
    with r obtain iv g4 where 4: "generateExpression stof i g3 = Inr (iv, g4)"
      and "g' = emitVarDeclaration w (fst (translateType tn g)) iv g4"
      by (auto elim!: bind_Inr)
    with generateExpression_same(1)[OF 4] show ?thesis by (simp add: same_scopes_def)
  qed
  with st3 v3 show ?thesis by (simp add: grows_def same_scopes_def)
qed

lemma twoLabels_stack:
  "twoLabels p q g = (x, g1) \<Longrightarrow> scopeStack g1 = scopeStack g"
  using cg_compound_scopes(12)[of p q g] by simp

lemma threeLabels_stack:
  "threeLabels p q r g = (x, g1) \<Longrightarrow> scopeStack g1 = scopeStack g"
  using cg_compound_scopes(14)[of p q r g] by simp

lemma same_scopes_stack: "same_scopes g g' \<Longrightarrow> scopeStack g' = scopeStack g"
  by (simp add: same_scopes_def)

lemma declaredNames_simps2 [simp]:
  "declaredNames (BlockNode ss) = []"
  "declaredNames (IfNode c t e) = []"
  "declaredNames (WhileNode c b) = []"
  "declaredNames (DoWhileNode b c) = []"
  "declaredNames (ForNode i c u b) = []"
  by simp_all

lemma generateStatement_grows:
  "scopeStack g \<noteq> [] \<Longrightarrow> generateStatement stof s g = Inr g' \<Longrightarrow>
     \<exists>added. grows g g' added \<and> set (declaredNames s) \<subseteq> set added"
  "scopeStack g \<noteq> [] \<Longrightarrow> generateStatements stof ss g = Inr g' \<Longrightarrow>
     \<exists>added. grows g g' added \<and> (\<forall>s\<in>set ss. set (declaredNames s) \<subseteq> set added)"
proof (induction stof s g and stof ss g arbitrary: g' and g'
    rule: generateStatement_generateStatements.induct)
  case (1 stof statements g)
  from "1.prems"(2) obtain g1 where
    1: "generateStatements stof statements (cg_enterScope (emitScopeEnter g)) = Inr g1"
    and 2: "g' = emitScopeLeave (cg_leaveScope g1)"
    by (auto elim!: bind_Inr)
  have "scopeStack (cg_enterScope (emitScopeEnter g)) = [] # scopeStack g"
    by (simp add: cg_enterScope_def)
  with "1.IH"[OF _ 1] obtain added where "scopeStack g1 = added # scopeStack g"
    by (auto simp: grows_def)
  with 2 have "scopeStack g' = scopeStack g" by (simp add: cg_leaveScope_def)
  with "1.prems"(1) have "grows g g' []" by (rule grows_same)
  then show ?case by auto
next
  case (2 stof e g)
  then have "scopeStack g' = scopeStack g"
    by (auto dest!: generateExpressionStatement_same same_scopes_stack)
  with "2.prems"(1) have "grows g g' []" by (rule grows_same)
  then show ?case by auto
next
  case (3 stof tn name initializer g)
  then have "grows g g' [tk_lexeme name]"
    by (auto dest: generateVariableDeclaration_grows)
  then show ?case by auto
next
  case (4 stof condition thenBranch elseBranch g)
  obtain l1 l2 g1 where h: "twoLabels ''else'' ''endif'' g = ((l1, l2), g1)"
    by (metis surj_pair)
  from "4.prems"(2) h obtain g2 where cb: "generateConditionBranch stof condition l1 g1 = Inr g2"
    and r2: "(case generateStatement stof thenBranch g2 of
                Inl x \<Rightarrow> Inl x
              | Inr g3 \<Rightarrow>
                 (case elseBranch of
                    None \<Rightarrow> Inr (emitLabel l2 (emitLabel l1 (emitJump l2 g3)))
                  | Some e \<Rightarrow>
                     (case generateStatement stof e (emitLabel l1 (emitJump l2 g3)) of
                        Inl x \<Rightarrow> Inl x
                      | Inr g4 \<Rightarrow> Inr (emitLabel l2 g4)))) = Inr g'"
    by (auto elim!: bind_Inr)
  from r2 obtain g3 where th: "generateStatement stof thenBranch g2 = Inr g3"
    and r3: "(case elseBranch of
                    None \<Rightarrow> Inr (emitLabel l2 (emitLabel l1 (emitJump l2 g3)))
                  | Some e \<Rightarrow>
                     (case generateStatement stof e (emitLabel l1 (emitJump l2 g3)) of
                        Inl x \<Rightarrow> Inl x
                      | Inr g4 \<Rightarrow> Inr (emitLabel l2 g4))) = Inr g'"
    by (rule bind_Inr)
  have s2: "scopeStack g2 = scopeStack g"
    using twoLabels_stack[OF h] same_scopes_stack[OF generateConditionBranch_same[OF cb]]
    by simp
  from "4.IH"(1)[OF h[symmetric] refl cb _ th] s2 "4.prems"(1)
  obtain a1 where a1: "grows g2 g3 a1" by auto
  from a1 s2 have k3: "grows g g3 a1" by (simp add: grows_def)
  show ?case
  proof (cases elseBranch)
    case None
    with r3 have "scopeStack g' = scopeStack g3" by auto
    with k3 have "grows g g' a1" by (simp add: grows_def)
    then show ?thesis by auto
  next
    case (Some e)
    with r3 obtain g4 where el: "generateStatement stof e (emitLabel l1 (emitJump l2 g3)) = Inr g4"
      and g': "g' = emitLabel l2 g4"
      by (auto elim!: bind_Inr)
    have ne: "scopeStack (emitLabel l1 (emitJump l2 g3)) \<noteq> []"
      using k3 by (simp add: grows_def)
    from "4.IH"(2)[OF h[symmetric] refl cb th Some ne el]
    obtain a2 where "grows (emitLabel l1 (emitJump l2 g3)) g4 a2" by auto
    with k3 g' have "grows g g' (a1 @ a2)" by (simp add: grows_def)
    then show ?thesis by auto
  qed
next
  case (5 stof condition body g)
  obtain l1 l2 g1 where h: "twoLabels ''while_start'' ''while_end'' g = ((l1, l2), g1)"
    by (metis surj_pair)
  from "5.prems"(2) h obtain g2 where
    cb: "generateConditionBranch stof condition l2 (emitLabel l1 g1) = Inr g2"
    and r2: "(case generateStatement stof body g2 of
                Inl x \<Rightarrow> Inl x
              | Inr g3 \<Rightarrow> Inr (emitLabel l2 (emitJump l1 g3))) = Inr g'"
    by (auto elim!: bind_Inr)
  from r2 obtain g3 where b: "generateStatement stof body g2 = Inr g3"
    and g': "g' = emitLabel l2 (emitJump l1 g3)"
    by (auto elim!: bind_Inr)
  have s2: "scopeStack g2 = scopeStack g"
    using twoLabels_stack[OF h] same_scopes_stack[OF generateConditionBranch_same[OF cb]]
    by simp
  from "5.IH"[OF h[symmetric] refl cb _ b] s2 "5.prems"(1)
  obtain a1 where "grows g2 g3 a1" by auto
  with s2 g' have "grows g g' a1" by (simp add: grows_def)
  then show ?case by auto
next
  case (6 stof body condition g)
  obtain l1 l2 l3 g1 where
    h: "threeLabels ''dowhile_start'' ''dowhile_condition'' ''dowhile_end'' g = ((l1, l2, l3), g1)"
    by (metis surj_pair)
  from "6.prems"(2) h obtain g2 where b: "generateStatement stof body (emitLabel l1 g1) = Inr g2"
    and r2: "(case generateConditionBranch stof condition l3 (emitLabel l2 g2) of
                Inl x \<Rightarrow> Inl x
              | Inr g3 \<Rightarrow> Inr (emitLabel l3 (emitJump l1 g3))) = Inr g'"
    by (auto elim!: bind_Inr)
  from r2 obtain g3 where cb: "generateConditionBranch stof condition l3 (emitLabel l2 g2) = Inr g3"
    and g': "g' = emitLabel l3 (emitJump l1 g3)"
    by (auto elim!: bind_Inr)
  have s1: "scopeStack (emitLabel l1 g1) = scopeStack g"
    using threeLabels_stack[OF h] by simp
  from "6.IH"[OF h[symmetric] refl refl _ b] s1 "6.prems"(1)
  obtain a1 where "grows (emitLabel l1 g1) g2 a1" by auto
  with s1 have "grows g g2 a1" by (simp add: grows_def)
  moreover have "scopeStack g' = scopeStack g2"
    using same_scopes_stack[OF generateConditionBranch_same[OF cb]] g' by simp
  ultimately have "grows g g' a1" by (simp add: grows_def)
  then show ?case by auto
next
  case (7 stof initializer condition increment body g)
  obtain l1 l2 l3 g1 where
    h: "threeLabels ''for_start'' ''for_increment'' ''for_end'' g = ((l1, l2, l3), g1)"
    by (metis surj_pair)
  let ?g0 = "cg_enterScope (emitScopeEnter g1)"
  from "7.prems"(2) h obtain g2 where
    i: "(case initializer of None \<Rightarrow> Inr ?g0
         | Some i \<Rightarrow> generateStatement stof i ?g0) = Inr g2"
    and r2: "(case (if condition \<noteq> NullExpr
                    then generateConditionBranch stof condition l3 (emitLabel l1 g2)
                    else Inr (emitLabel l1 g2)) of
                Inl x \<Rightarrow> Inl x
              | Inr g3 \<Rightarrow>
                 (case generateStatement stof body g3 of
                    Inl x \<Rightarrow> Inl x
                  | Inr g4 \<Rightarrow>
                     (case (if increment \<noteq> NullExpr
                            then generateExpressionStatement stof increment (emitLabel l2 g4)
                            else Inr (emitLabel l2 g4)) of
                        Inl x \<Rightarrow> Inl x
                      | Inr g5 \<Rightarrow>
                          Inr (emitScopeLeave
                                 (cg_leaveScope (emitLabel l3 (emitJump l1 g5))))))) = Inr g'"
    by (auto elim!: bind_Inr)
  from r2 obtain g3 where
    c: "(if condition \<noteq> NullExpr
         then generateConditionBranch stof condition l3 (emitLabel l1 g2)
         else Inr (emitLabel l1 g2)) = Inr g3"
    and r3: "(case generateStatement stof body g3 of
                    Inl x \<Rightarrow> Inl x
                  | Inr g4 \<Rightarrow>
                     (case (if increment \<noteq> NullExpr
                            then generateExpressionStatement stof increment (emitLabel l2 g4)
                            else Inr (emitLabel l2 g4)) of
                        Inl x \<Rightarrow> Inl x
                      | Inr g5 \<Rightarrow>
                          Inr (emitScopeLeave
                                 (cg_leaveScope (emitLabel l3 (emitJump l1 g5)))))) = Inr g'"
    by (rule bind_Inr)
  from r3 obtain g4 where b: "generateStatement stof body g3 = Inr g4"
    and r4: "(case (if increment \<noteq> NullExpr
                            then generateExpressionStatement stof increment (emitLabel l2 g4)
                            else Inr (emitLabel l2 g4)) of
                        Inl x \<Rightarrow> Inl x
                      | Inr g5 \<Rightarrow>
                          Inr (emitScopeLeave
                                 (cg_leaveScope (emitLabel l3 (emitJump l1 g5))))) = Inr g'"
    by (rule bind_Inr)
  from r4 obtain g5 where
    u: "(if increment \<noteq> NullExpr
         then generateExpressionStatement stof increment (emitLabel l2 g4)
         else Inr (emitLabel l2 g4)) = Inr g5"
    and g': "g' = emitScopeLeave (cg_leaveScope (emitLabel l3 (emitJump l1 g5)))"
    by (auto elim!: bind_Inr)
  have s0: "scopeStack ?g0 = [] # scopeStack g"
    using threeLabels_stack[OF h] by (simp add: cg_enterScope_def)
  have "\<exists>a. scopeStack g2 = a # scopeStack g"
  proof (cases initializer)
    case None
    with i s0 show ?thesis by auto
  next
    case (Some st)
    with i have "generateStatement stof st ?g0 = Inr g2" by simp
    from "7.IH"(1)[OF h[symmetric] refl refl Some _ this] s0
    show ?thesis by (auto simp: grows_def)
  qed
  then obtain a2 where s2: "scopeStack g2 = a2 # scopeStack g" by auto
  have s3: "scopeStack g3 = scopeStack g2"
    using c by (auto split: if_splits dest!: generateConditionBranch_same same_scopes_stack)
  from "7.IH"(2)[OF h[symmetric] refl refl i c _ b] s3 s2
  obtain a4 where "grows g3 g4 a4" by auto
  with s3 s2 have s4: "scopeStack g4 = (a2 @ a4) # scopeStack g" by (simp add: grows_def)
  have s5: "scopeStack g5 = scopeStack g4"
    using u by (auto split: if_splits dest!: generateExpressionStatement_same same_scopes_stack)
  from g' s5 s4 have "scopeStack g' = scopeStack g" by (simp add: cg_leaveScope_def)
  with "7.prems"(1) have "grows g g' []" by (rule grows_same)
  then show ?case by auto
next
  case (8 stof val g)
  then have "scopeStack g' = scopeStack g"
    by (auto dest!: generateReturnStatement_same same_scopes_stack)
  with "8.prems"(1) have "grows g g' []" by (rule grows_same)
  then show ?case by auto
next
  case (9 stof g)
  then have "grows g g' []" by (auto simp: generateBreakStatement_def grows_def)
  then show ?case by auto
next
  case (10 stof g)
  then have "grows g g' []" by (auto simp: generateContinueStatement_def grows_def)
  then show ?case by auto
next
  case (11 stof g)
  then have "grows g g' []" by (auto simp: grows_def)
  then show ?case by auto
next
  case (12 stof s ss g)
  from "12.prems"(2) obtain g1 where 1: "generateStatement stof s g = Inr g1"
    and 2: "generateStatements stof ss g1 = Inr g'"
    by (auto elim!: bind_Inr)
  from "12.IH"(1)[OF "12.prems"(1) 1] obtain a1 where a1: "grows g g1 a1"
    and d1: "set (declaredNames s) \<subseteq> set a1" by auto
  from "12.IH"(2)[OF 1 grows_nonempty[OF a1] 2] obtain a2 where a2: "grows g1 g' a2"
    and d2: "\<forall>s\<in>set ss. set (declaredNames s) \<subseteq> set a2" by auto
  from grows_trans[OF a1 a2] d1 d2 show ?case by (intro exI[of _ "a1 @ a2"]) auto
qed

lemma eraseAll_apply: "eraseAll ns m n = (if n \<in> set ns then None else m n)"
  by (induction ns arbitrary: m) auto

lemma generateBlock_erases:
  assumes b: "generateStatement stof (BlockNode ss) g = Inr g'"
    and d: "VariableDeclarationNode tn name i \<in> set ss"
  shows "variables g' (tk_lexeme name) = None"
proof -
  from b obtain g1 where
    1: "generateStatements stof ss (cg_enterScope (emitScopeEnter g)) = Inr g1"
    and 2: "g' = emitScopeLeave (cg_leaveScope g1)"
    by (auto elim!: bind_Inr)
  have s0: "scopeStack (cg_enterScope (emitScopeEnter g)) = [] # scopeStack g"
    by (simp add: cg_enterScope_def)
  from generateStatement_grows(2)[OF _ 1] s0 obtain added where
    g: "grows (cg_enterScope (emitScopeEnter g)) g1 added"
    and a: "\<forall>s\<in>set ss. set (declaredNames s) \<subseteq> set added"
    by auto
  from a d have "tk_lexeme name \<in> set added" by force
  moreover from g s0 have "scopeStack g1 = added # scopeStack g" by (simp add: grows_def)
  ultimately show ?thesis using 2 by (simp add: cg_leaveScope_def eraseAll_apply)
qed

section \<open>The example files through the lexer and the parser\<close>

text \<open>
  Each of the four texts is lexed and parsed without a diagnostic, and the tree is the one
  defined with it.  The counter 20 bounds the depth of the recursion of the parser; none
  of the four runs uses it up.
\<close>

lemma frontEnd_breakOutsideLoop:
  "frontEnd 20 ''t.c'' breakOutsideLoopSource =
     Some (Inr (Some breakOutsideLoopProgram, newErrorHandler))"
  by (simp add: frontEnd_def breakOutsideLoopSource_def breakOutsideLoopProgram_def
        scan_defs parser_defs program_defs example_defs hasErrors_def eval_nat_numeral Let_def
        split del: if_split cong: evaluation_congs)

lemma frontEnd_shadowing:
  "frontEnd 20 ''t.c'' shadowingSource = Some (Inr (Some shadowingProgram, newErrorHandler))"
  by (simp add: frontEnd_def shadowingSource_def shadowingProgram_def
        scan_defs parser_defs program_defs example_defs hasErrors_def eval_nat_numeral Let_def
        split del: if_split cong: evaluation_congs)

lemma frontEnd_siblingBlocks:
  "frontEnd 20 ''t.c'' siblingBlocksSource =
     Some (Inr (Some siblingBlocksProgram, newErrorHandler))"
  by (simp add: frontEnd_def siblingBlocksSource_def siblingBlocksProgram_def
        scan_defs parser_defs program_defs example_defs hasErrors_def eval_nat_numeral Let_def
        split del: if_split cong: evaluation_congs)

lemma frontEnd_redeclared:
  "frontEnd 20 ''t.c'' redeclaredSource = Some (Inr (Some redeclaredProgram, newErrorHandler))"
  by (simp add: frontEnd_def redeclaredSource_def redeclaredProgram_def
        scan_defs parser_defs program_defs example_defs hasErrors_def eval_nat_numeral Let_def
        split del: if_split cong: evaluation_congs)

section \<open>The claims about the lexer\<close>

text \<open>
  Claim C9.  Whenever \<open>number\<close> pushes a token (it does unless an exponent has no
  digits), the token is a \<open>FLOAT_LITERAL\<close> if the text that \<open>number\<close> has consumed
  holds a decimal point followed by a digit, an \<open>e\<close> or \<open>E\<close>, or ends in \<open>f\<close> or
  \<open>F\<close>, and an \<open>INTEGER_LITERAL\<close> otherwise.
\<close>

theorem number_token_kind:
  assumes "number tokens lx = (tokens', lx')" and "tokens' \<noteq> tokens"
  shows "tokens' =
           tokens @ [makeToken (if spec_isFloatLiteral (numberText lx lx') then FLOAT_LITERAL
                                else INTEGER_LITERAL) lx']"
proof -
  from number_shape [OF assms] obtain ds F E S isFloat where
    s: "list_all isdigit ds" "fractionShape F" "exponentShape E" "suffixShape S"
    and c: "consumed lx lx' (ds @ F @ E @ S)"
    and i: "isFloat \<longleftrightarrow> F \<noteq> [] \<or> E \<noteq> [] \<or> S = ''f'' \<or> S = ''F''"
    and r: "tokens' = tokens @ [makeToken (if isFloat then FLOAT_LITERAL else INTEGER_LITERAL) lx']"
    by blast
  from spec_isFloatLiteral_shape [OF s] i consumed_text [OF c]
  have "spec_isFloatLiteral (numberText lx lx') = isFloat" by simp
  with r show ?thesis by simp
qed

theorem number_token_kind_witness:
  "(\<exists>lx'. number [] (newLexer ''1.5f;'' ''t.c'' newErrorHandler) =
            ([mkToken FLOAT_LITERAL ''1.5f'' ''t.c'' 1 1], lx') \<and>
          spec_isFloatLiteral (numberText (newLexer ''1.5f;'' ''t.c'' newErrorHandler) lx')) \<and>
   (\<exists>lx'. number [] (newLexer ''42u;'' ''t.c'' newErrorHandler) =
            ([mkToken INTEGER_LITERAL ''42u'' ''t.c'' 1 1], lx') \<and>
          \<not> spec_isFloatLiteral (numberText (newLexer ''42u;'' ''t.c'' newErrorHandler) lx'))"
proof -
  obtain lx1 where 1: "number [] (newLexer ''1.5f;'' ''t.c'' newErrorHandler) =
            ([mkToken FLOAT_LITERAL ''1.5f'' ''t.c'' 1 1], lx1)"
    by (simp add: lexer_defs Let_def)
  obtain lx2 where 2: "number [] (newLexer ''42u;'' ''t.c'' newErrorHandler) =
            ([mkToken INTEGER_LITERAL ''42u'' ''t.c'' 1 1], lx2)"
    by (simp add: lexer_defs Let_def)
  from number_token_kind [OF 1]
  have "spec_isFloatLiteral (numberText (newLexer ''1.5f;'' ''t.c'' newErrorHandler) lx1)"
    by (simp add: makeToken_def mkToken_def Let_def split: if_splits)
  moreover from number_token_kind [OF 2]
  have "\<not> spec_isFloatLiteral (numberText (newLexer ''42u;'' ''t.c'' newErrorHandler) lx2)"
    by (simp add: makeToken_def mkToken_def Let_def split: if_splits)
  ultimately show ?thesis using 1 2 by blast
qed

text \<open>
  Claim C10.  For every source text (and every state the lexer object is in when
  \<open>tokenize\<close> is called), \<open>tokenize\<close> returns, and the sequence it returns is a
  sequence without an end-of-file token followed by one end-of-file token, which has the
  empty lexeme and the line and column the lexer has reached.
\<close>

theorem tokenize_ends_with_the_only_EOF:
  "\<exists>toks. fst (tokenize lx) =
            toks @ [mkToken END_OF_FILE [] (filename (snd (tokenize lx)))
                      (line (snd (tokenize lx))) (column (snd (tokenize lx)))] \<and>
          END_OF_FILE \<notin> set (map tk_type toks)"
proof -
  obtain toks lx1 where
    t: "tokenizeLoop [] (lx\<lparr>start := 0, current := 0, line := 1, column := 1\<rparr>) = (toks, lx1)"
    by (cases "tokenizeLoop [] (lx\<lparr>start := 0, current := 0, line := 1, column := 1\<rparr>)")
  from tokenizeLoop_scans [of "[]" "lx\<lparr>start := 0, current := 0, line := 1, column := 1\<rparr>"] t
  have "END_OF_FILE \<notin> set (map tk_type toks)" by (simp add: scans_def)
  with t show ?thesis by (simp add: tokenize_def Let_def)
qed

section \<open>The claims about the parser\<close>

text \<open>
  Claim C1 fails on the code.  For every compound assignment (\<open>assignment\<close> has
  parsed the left operand \<open>a\<close>, matched an assignment operator other than \<open>=\<close>, and
  parsed the right operand \<open>b\<close>), the node returned has the operator \<open>=\<close> and the right
  operand \<open>a OP b\<close>, but its left operand is the null pointer: \<open>expr\<close> has been moved
  into the node of \<open>OP\<close> when it is moved into the node of \<open>=\<close>.  The input \<open>x += 1;\<close>
  is an instance.
\<close>

theorem compound_assignment_left_operand_is_null:
  assumes c: "conditionalExpr n expr p = Returns a p1"
    and m: "p_matchAny assignmentOperators p1 = (True, p2)"
    and op: "op = p_previous p2" "tk_type op \<noteq> OP OP_EQUALS"
    and v: "assignment n expr p2 = Returns b p3"
  shows "assignment (Suc n) expr p =
           Returns
             (BinaryNode NullExpr
                (mkToken (OP OP_EQUALS) ''='' (tk_filename op) (tk_line op) (tk_column op))
                (BinaryNode a
                   (mkToken (compoundOperator (tk_type op))
                      (substr (tk_lexeme op) 0 (length (tk_lexeme op) - 1))
                      (tk_filename op) (tk_line op) (tk_column op))
                   b))
             p3"
proof -
  from p_matchAny_previous [OF m] op(1) have "tk_type op \<in> set assignmentOperators"
    by blast
  from compoundOperator_known [OF this op(2)]
  have "assignmentNode a op b =
          BinaryNode NullExpr
            (mkToken (OP OP_EQUALS) ''='' (tk_filename op) (tk_line op) (tk_column op))
            (BinaryNode a
               (mkToken (compoundOperator (tk_type op))
                  (substr (tk_lexeme op) 0 (length (tk_lexeme op) - 1))
                  (tk_filename op) (tk_line op) (tk_column op))
               b)"
    by (simp add: assignmentNode_def moved_def Let_def)
  with c m v op(1) show ?thesis by simp
qed

theorem compound_assignment_left_operand_is_null_witness:
  "fst (tokenize (newLexer ''x += 1;'' ''t.c'' newErrorHandler)) = compoundExample \<and>
   (\<exists>p. expression 8 (newParser compoundExample newErrorHandler) =
          Returns
            (BinaryNode NullExpr (mkToken (OP OP_EQUALS) ''='' ''t.c'' 1 2)
               (BinaryNode (VariableNode (mkToken IDENTIFIER ''x'' ''t.c'' 1 1))
                  (mkToken (OP OP_PLUS) '' +'' ''t.c'' 1 2)
                  (LiteralNode (mkToken INTEGER_LITERAL '' 1'' ''t.c'' 1 5))))
            p)"
proof -
  have t: "fst (tokenize (newLexer ''x += 1;'' ''t.c'' newErrorHandler)) = compoundExample"
    by (simp add: scan_defs compoundExample_def Let_def split del: if_split
          cong: let_weak_cong prod.case_cong_weak)
  define p0 where "p0 = newParser compoundExample newErrorHandler"
  define p1 where "p1 = p0\<lparr>p_current := 1\<rparr>"
  define p2 where "p2 = p0\<lparr>p_current := 2\<rparr>"
  define p3 where "p3 = p0\<lparr>p_current := 3\<rparr>"
  have c: "conditionalExpr 6 (expression 7) p0 =
             Returns (VariableNode (mkToken IDENTIFIER ''x'' ''t.c'' 1 1)) p1"
    by (simp add: p0_def p1_def parser_defs eval_nat_numeral Let_def split del: if_split
          cong: evaluation_congs)
  have m: "p_matchAny assignmentOperators p1 = (True, p2)"
    by (simp add: p0_def p1_def p2_def parser_defs Let_def split del: if_split
          cong: evaluation_congs)
  have op: "mkToken (OP OP_PLUS_EQUALS) '' +='' ''t.c'' 1 2 = p_previous p2"
    "tk_type (mkToken (OP OP_PLUS_EQUALS) '' +='' ''t.c'' 1 2) \<noteq> OP OP_EQUALS"
    by (simp_all add: p0_def p2_def parser_defs)
  have v: "assignment 6 (expression 7) p2 =
             Returns (LiteralNode (mkToken INTEGER_LITERAL '' 1'' ''t.c'' 1 5)) p3"
    by (simp add: p0_def p2_def p3_def parser_defs eval_nat_numeral Let_def split del: if_split
          cong: evaluation_congs)
  have "expression 8 p0 = assignment (Suc 6) (expression 7) p0"
    by (simp add: eval_nat_numeral)
  with compound_assignment_left_operand_is_null [OF c m op v]
  have "expression 8 p0 =
          Returns
            (BinaryNode NullExpr (mkToken (OP OP_EQUALS) ''='' ''t.c'' 1 2)
               (BinaryNode (VariableNode (mkToken IDENTIFIER ''x'' ''t.c'' 1 1))
                  (mkToken (OP OP_PLUS) '' +'' ''t.c'' 1 2)
                  (LiteralNode (mkToken INTEGER_LITERAL '' 1'' ''t.c'' 1 5))))
            p3"
    by (simp add: mkToken_def compoundOperator_def substr_def)
  with t show ?thesis unfolding p0_def by blast
qed

section \<open>The claims about semantic analysis\<close>

text \<open>
  Claim C6.  For two numeric types with the byte sizes the repository gives them, the
  common type is of kind Double (8 bytes) if either operand is a Double; otherwise of kind
  Float (4 bytes) if either is a Float; otherwise both are integer types and it is the
  operand with the larger byte size, the left one if the sizes are equal.
\<close>

theorem getCommonType_usual_arithmetic:
  assumes "sizedNumeric a" and "sizedNumeric b"
  shows "(if ti_kind a = K_DOUBLE \<or> ti_kind b = K_DOUBLE
          then ti_kind (getCommonType a b) = K_DOUBLE \<and> ti_size (getCommonType a b) = 8
          else if ti_kind a = K_FLOAT \<or> ti_kind b = K_FLOAT
          then ti_kind (getCommonType a b) = K_FLOAT \<and> ti_size (getCommonType a b) = 4
          else isInteger a \<and> isInteger b \<and>
               getCommonType a b = (if ti_size a \<ge> ti_size b then a else b))"
  using assms
  by (auto simp: getCommonType_def sizedNumeric_def isNumeric_def isInteger_def
        numericSize_def createDouble_def createFloat_def)

theorem getCommonType_usual_arithmetic_witness:
  "sizedNumeric createChar \<and> sizedNumeric createInt \<and> sizedNumeric createFloat \<and>
   sizedNumeric createDouble \<and>
   ti_kind (getCommonType createInt createDouble) = K_DOUBLE \<and>
   ti_kind (getCommonType createFloat createChar) = K_FLOAT \<and>
   getCommonType createChar createInt = createInt \<and>
   getCommonType createInt createChar = createInt \<and>
   getCommonType createInt createInt = createInt"
proof -
  have c: "sizedNumeric createChar" and i: "sizedNumeric createInt"
    and f: "sizedNumeric createFloat" and d: "sizedNumeric createDouble"
    by (simp_all add: sizedNumeric_def isNumeric_def numericSize_def createChar_def
          createInt_def createFloat_def createDouble_def)
  show ?thesis
    using c i f d
      getCommonType_usual_arithmetic [OF i d]
      getCommonType_usual_arithmetic [OF f c]
      getCommonType_usual_arithmetic [OF c i]
      getCommonType_usual_arithmetic [OF i c]
      getCommonType_usual_arithmetic [OF i i]
    by (simp add: createChar_def createInt_def createFloat_def createDouble_def)
qed

text \<open>
  Claim C8 fails on the code: \<open>visitFunctionDeclaration\<close> returns before
  \<open>addFunction\<close> when the name is bound in the current frame.  For the file \<open>t.c\<close>
  with the text \<open>int f;int f();\<close> the lexer and the parser record nothing and give the
  tree \<open>redeclaredProgram\<close>; the analyzer processes the function declaration, reports
  \<open>Function ' f' already declared in this scope\<close>, and frame 0 still binds the name to
  the variable.
\<close>

theorem function_declaration_not_registered_counterexample:
  "frontEnd 20 ''t.c'' redeclaredSource = Some (Inr (Some redeclaredProgram, newErrorHandler)) \<and>
   \<not> isl (analyze (Some redeclaredProgram) (newSemanticAnalyzer newErrorHandler)) \<and>
   (scopes (symbolTable
      (projr (analyze (Some redeclaredProgram) (newSemanticAnalyzer newErrorHandler)))) ! 0)
      '' f'' =
     Some \<lparr>si_kind = VARIABLE, si_type = createInt, si_name = '' f'', si_scopeLevel = 0\<rparr> \<and>
   errors (sa_errorHandler
      (projr (analyze (Some redeclaredProgram) (newSemanticAnalyzer newErrorHandler)))) =
     [\<lparr>ee_level = ERROR,
       ee_message = ''Function '' @ [CHR 0x27] @ '' f'' @ [CHR 0x27] @
                    '' already declared in this scope'',
       ee_filename = [], ee_line = 1, ee_column = 10\<rparr>]"
proof -
  obtain a where a: "analyze (Some redeclaredProgram) (newSemanticAnalyzer newErrorHandler) = Inr a"
    and f: "(scopes (symbolTable a) ! 0) '' f'' =
              Some \<lparr>si_kind = VARIABLE, si_type = createInt, si_name = '' f'',
                    si_scopeLevel = 0\<rparr>"
    and e: "errors (sa_errorHandler a) =
              [\<lparr>ee_level = ERROR,
                ee_message = ''Function '' @ [CHR 0x27] @ '' f'' @ [CHR 0x27] @
                             '' already declared in this scope'',
                ee_filename = [], ee_line = 1, ee_column = 10\<rparr>]"
    by (simp add: redeclaredProgram_def sema_defs example_defs Let_def)
  show ?thesis
    by (simp add: frontEnd_redeclared a f e)
qed

text \<open>
  Claim C8 as amended.  A function declaration whose name is not bound in the current
  frame when the analyzer processes it (in a well-formed symbol table, the visit of the
  body returning) is registered in frame 0 of the symbol table, as a \<open>FUNCTION\<close> symbol
  of scope level 0 with the function's type, whatever the scope depth of the table the
  analyzer starts from; the current scope is the same after the declaration as before.
\<close>

theorem function_registered_at_level_0:
  assumes ok: "table_ok (symbolTable a)"
    and fresh: "\<not> existsInCurrentScope (tk_lexeme name) (symbolTable a)"
    and r: "visitFunctionDeclaration rt name ps body a = Inr a'"
  shows "(scopes (symbolTable a') ! 0) (tk_lexeme name) =
           Some \<lparr>si_kind = FUNCTION,
                 si_type = createFunction (fst (getTypeFromTypeNode rt a))
                             (fst (parameterTypes ps (snd (getTypeFromTypeNode rt a)))),
                 si_name = tk_lexeme name, si_scopeLevel = 0\<rparr> \<and>
         currentScope (symbolTable a') = currentScope (symbolTable a)"
proof -
  define returnType where "returnType = fst (getTypeFromTypeNode rt a)"
  define a1 where "a1 = snd (getTypeFromTypeNode rt a)"
  define paramTypes where "paramTypes = fst (parameterTypes ps a1)"
  define a2 where "a2 = snd (parameterTypes ps a1)"
  define a3 where
    "a3 = a2\<lparr>symbolTable :=
              addFunction (tk_lexeme name) (createFunction returnType paramTypes) (symbolTable a2)\<rparr>"
  have t2: "symbolTable a2 = symbolTable a" by (simp add: a2_def a1_def)
  have ok3: "table_ok (symbolTable a3)" using ok t2 by (simp add: a3_def table_ok_add)
  have c3: "currentScope (symbolTable a3) = currentScope (symbolTable a)"
    using ok t2 by (simp add: a3_def addFunction_frames)
  have f3: "(scopes (symbolTable a3) ! 0) (tk_lexeme name) =
           Some \<lparr>si_kind = FUNCTION, si_type = createFunction returnType paramTypes,
                 si_name = tk_lexeme name, si_scopeLevel = 0\<rparr>"
    using ok t2 by (simp add: a3_def addFunction_frames)
  have "keeps_below (Suc (currentScope (symbolTable a3))) (symbolTable a3) (symbolTable a')"
  proof (cases body)
    case None
    with r fresh have "a' = a3"
      by (simp add: visitFunctionDeclaration_def split_def Let_def returnType_def
            a1_def paramTypes_def a2_def a3_def)
    with ok3 show ?thesis by (simp add: keeps_below_refl)
  next
    case (Some statements)
    define a5 where "a5 = (sa_enterScope a3)\<lparr>currentFunctionReturnType := Some returnType,
                            hasReturn := (ti_kind returnType = K_VOID)\<rparr>"
    define a6 where "a6 = fold visitParameter ps a5"
    from r fresh Some
    have "(case visitBlock statements a6 of
             Inl x \<Rightarrow> Inl x
           | Inr a7 \<Rightarrow>
               sa_leaveScope
                ((if \<not> hasReturn a7 \<and> ti_kind returnType \<noteq> K_VOID
                  then sa_error (tk_line name) (tk_column name)
                         (''Function '' @ [CHR 0x27] @ tk_lexeme name @
                          [CHR 0x27] @ '' may not return a value'') a7
                  else a7)\<lparr>currentFunctionReturnType := None\<rparr>)) = Inr a'"
      unfolding visitFunctionDeclaration_def a6_def a5_def a3_def a2_def paramTypes_def
        a1_def returnType_def
      by (simp add: split_def Let_def cong: sum.case_cong)
    then obtain a7 where 7: "visitBlock statements a6 = Inr a7"
      and 9: "sa_leaveScope
                ((if \<not> hasReturn a7 \<and> ti_kind returnType \<noteq> K_VOID
                  then sa_error (tk_line name) (tk_column name)
                         (''Function '' @ [CHR 0x27] @ tk_lexeme name @
                          [CHR 0x27] @ '' may not return a value'') a7
                  else a7)\<lparr>currentFunctionReturnType := None\<rparr>) = Inr a'"
      by (rule bind_Inr)
    have t5: "symbolTable a5 = enterScope (symbolTable a3)" by (simp add: a5_def)
    have ok5: "table_ok (symbolTable a5)" using ok3 t5 by (simp add: table_ok_enterScope)
    have k6: "keeps_below (Suc (currentScope (symbolTable a3))) (enterScope (symbolTable a3))
               (symbolTable a6)"
      using fold_visitParameter_keeps[OF ok5, of ps] t5 by (simp add: a6_def)
    then have ok6: "table_ok (symbolTable a6)"
      and c6: "currentScope (symbolTable a6) = Suc (currentScope (symbolTable a3))"
      by (simp_all add: keeps_below_def)
    have "keeps_below (Suc (Suc (currentScope (symbolTable a3)))) (symbolTable a6) (symbolTable a7)"
      using visitStatement_keeps(1)[OF ok6, of "BlockNode statements" a7] 7 c6
      by (simp add: visitBlock_def)
    then have "keeps_below (Suc (currentScope (symbolTable a3))) (symbolTable a6) (symbolTable a7)"
      by (rule keeps_below_mono) simp
    with k6 have k7: "keeps_below (Suc (currentScope (symbolTable a3)))
                        (enterScope (symbolTable a3)) (symbolTable a7)"
      by (rule keeps_below_trans)
    from sa_leaveScope_Inr[OF 9]
    have "leaveScope (symbolTable a7) = Inr (symbolTable a')" by (simp split: if_splits)
    from keeps_below_scoped[OF ok3 k7 this] show ?thesis .
  qed
  then have "scopes (symbolTable a') ! 0 = scopes (symbolTable a3) ! 0"
    and "currentScope (symbolTable a') = currentScope (symbolTable a3)"
    by (simp_all add: keeps_below_def)
  with f3 c3 show ?thesis by (simp add: returnType_def paramTypes_def a1_def)
qed

theorem function_registered_at_level_0_witness:
  "table_ok (enterScope (enterScope newSymbolTable)) \<and>
   \<not> existsInCurrentScope ''f'' (enterScope (enterScope newSymbolTable)) \<and>
   (\<exists>a'. visitFunctionDeclaration intTypeNode (identifierToken ''f'' 1 5) []
            (Some [ReturnNode (LiteralNode (integerToken ''0'' 1 18))])
            ((newSemanticAnalyzer newErrorHandler)
               \<lparr>symbolTable := enterScope (enterScope newSymbolTable)\<rparr>) = Inr a' \<and>
         (scopes (symbolTable a') ! 0) ''f'' =
            Some \<lparr>si_kind = FUNCTION, si_type = createFunction createInt [],
                  si_name = ''f'', si_scopeLevel = 0\<rparr> \<and>
         currentScope (symbolTable a') = 2)"
proof -
  let ?a = "(newSemanticAnalyzer newErrorHandler)
               \<lparr>symbolTable := enterScope (enterScope newSymbolTable)\<rparr>"
  have ok: "table_ok (symbolTable ?a)"
    by (simp add: table_ok_enterScope table_ok_new)
  have fresh: "\<not> existsInCurrentScope (tk_lexeme (identifierToken ''f'' 1 5)) (symbolTable ?a)"
    by (simp add: existsInCurrentScope_def enterScope_def example_defs)
  obtain a' where r: "visitFunctionDeclaration intTypeNode (identifierToken ''f'' 1 5) []
            (Some [ReturnNode (LiteralNode (integerToken ''0'' 1 18))]) ?a = Inr a'"
    by (simp add: visitFunctionDeclaration_def getTypeFromTypeNode_def existsInCurrentScope_def
          enterScope_def addFunction_def visitBlock_def sa_enterScope_def sa_leaveScope_def
          leaveScope_def visitReturnStatement_def visitLiteral_def createInt_def
          example_defs Let_def)
  from function_registered_at_level_0[OF ok fresh r] ok fresh r
  show ?thesis
    by (simp add: getTypeFromTypeNode_def example_defs createInt_def enterScope_def)
qed

text \<open>
  Claim C7.  For a Variable expression whose identifier is bound in no frame from the
  current one down to the global one, \<open>visitExpression\<close> returns the type Void and
  appends exactly one diagnostic, of severity error, with the message
  \<open>Undefined variable '<name>'\<close> at the line and column of the identifier; nothing else
  of the analyzer's state changes.
\<close>

theorem visitVariable_undefined:
  assumes "\<forall>i\<le>currentScope (symbolTable a).
             (scopes (symbolTable a) ! i) (tk_lexeme name) = None"
  shows "visitExpression (VariableNode name) a =
           Inr (createVoid,
                a\<lparr>sa_errorHandler := (sa_errorHandler a)
                    \<lparr>errors := errors (sa_errorHandler a) @
                        [\<lparr>ee_level = ERROR,
                          ee_message = ''Undefined variable '' @ [CHR 0x27] @ tk_lexeme name @
                                       [CHR 0x27],
                          ee_filename = currentFilename (sa_errorHandler a),
                          ee_line = tk_line name, ee_column = tk_column name\<rparr>],
                      hadError := True\<rparr>\<rparr>)"
proof -
  have "lookup (tk_lexeme name) (symbolTable a) = None"
    using assms by (simp add: lookup_def lookupFrom_None)
  then show ?thesis
    by (simp add: visitVariable_def sa_error_def error_def addError_def)
qed

theorem visitVariable_undefined_witness:
  "lookup (tk_lexeme (identifierToken ''x'' 1 21))
     (symbolTable (newSemanticAnalyzer newErrorHandler)) = None \<and>
   visitExpression (VariableNode (identifierToken ''x'' 1 21))
     (newSemanticAnalyzer newErrorHandler) =
   Inr (createVoid,
        (newSemanticAnalyzer newErrorHandler)
          \<lparr>sa_errorHandler :=
             \<lparr>errors = [\<lparr>ee_level = ERROR,
                         ee_message = ''Undefined variable '' @ [CHR 0x27] @ ''x'' @ [CHR 0x27],
                         ee_filename = [], ee_line = 1, ee_column = 21\<rparr>],
              currentFilename = [], hadError = True\<rparr>\<rparr>)"
proof -
  have h: "\<forall>i\<le>currentScope (symbolTable (newSemanticAnalyzer newErrorHandler)).
      (scopes (symbolTable (newSemanticAnalyzer newErrorHandler)) ! i)
        (tk_lexeme (identifierToken ''x'' 1 21)) = None"
    by (simp add: example_defs)
  show ?thesis
    using visitVariable_undefined [OF h]
    by (simp add: example_defs lookup_def)
qed

text \<open>
  Claim C4, evaluated on the code.  After \<open>leaveScope\<close> the frame that was on top
  stays in \<open>scopes\<close>, and the next \<open>enterScope\<close> makes it the top frame again with
  its bindings: a variable \<open>x\<close> declared in a scope that has been left is found by
  \<open>existsInCurrentScope\<close> in the next scope entered at that depth.  For the file
  \<open>t.c\<close> with the text \<open>int main(){{int x;}{int x;}return 0;}\<close> the lexer and the
  parser record nothing and give the tree \<open>siblingBlocksProgram\<close>; the analyzer
  therefore reports \<open>Variable ' x' already declared in this scope\<close> for the second
  block, and the driver exits with 1.
\<close>

theorem reentered_frame_keeps_old_bindings:
  "(case leaveScope (addVariable ''x'' createInt (enterScope newSymbolTable)) of
      Inl x \<Rightarrow> False
    | Inr st \<Rightarrow>
        currentScope (enterScope st) = 1 \<and> existsInCurrentScope ''x'' (enterScope st)) \<and>
   frontEnd 20 ''t.c'' siblingBlocksSource =
     Some (Inr (Some siblingBlocksProgram, newErrorHandler)) \<and>
   (case analyze (Some siblingBlocksProgram) (newSemanticAnalyzer newErrorHandler) of
      Inl x \<Rightarrow> []
    | Inr a \<Rightarrow> errors (sa_errorHandler a)) =
     [\<lparr>ee_level = ERROR,
       ee_message = ''Variable '' @ [CHR 0x27] @ '' x'' @ [CHR 0x27] @
                    '' already declared in this scope'',
       ee_filename = [], ee_line = 1, ee_column = 24\<rparr>] \<and>
   compileSource 20 noFloats 0 ''t.c'' siblingBlocksSource = Some 1"
proof -
  have 1: "(case leaveScope (addVariable ''x'' createInt (enterScope newSymbolTable)) of
      Inl x \<Rightarrow> False
    | Inr st \<Rightarrow>
        currentScope (enterScope st) = 1 \<and> existsInCurrentScope ''x'' (enterScope st))"
    by (simp add: sema_defs example_defs Let_def)
  obtain a where a: "analyze (Some siblingBlocksProgram)
                       (newSemanticAnalyzer newErrorHandler) = Inr a"
    and e: "errors (sa_errorHandler a) =
     [\<lparr>ee_level = ERROR,
       ee_message = ''Variable '' @ [CHR 0x27] @ '' x'' @ [CHR 0x27] @
                    '' already declared in this scope'',
       ee_filename = [], ee_line = 1, ee_column = 24\<rparr>]"
    and h: "hadError (sa_errorHandler a)"
    by (simp add: siblingBlocksProgram_def sema_defs example_defs Let_def)
  have c: "compileProgram noFloats 0 (Some siblingBlocksProgram) newErrorHandler = 1"
    by (simp add: compileProgram_def hasErrors_def a h)
  show ?thesis
    by (simp add: 1 frontEnd_siblingBlocks a e compileSource_def c)
qed

section \<open>The claims about code generation\<close>

text \<open>
  Claim C2.  For a Binary expression whose operator is a comparison, a bitwise or a
  logical operator, and whose operands are generated without an exception, the generator
  returns var id 0 and leaves the object (instructions and symbols) as it is after the
  operands: the only changes are one fresh var id consumed and one diagnostic of severity
  error, \<open>Binary operator not implemented: <lexeme>\<close>, at the operator's position.
\<close>

theorem generateBinary_unimplemented_operator:
  assumes op: "tk_type op \<in> unimplementedBinaryOperators"
    and l: "generateExpression stof left g = Inr (leftVarId, g1)"
    and r: "generateExpression stof right g1 = Inr (rightVarId, g2)"
  shows "generateExpression stof (BinaryNode left op right) g =
           Inr (0, g2\<lparr>nextVarId := nextVarId g2 + 1,
                      cg_errorHandler := (cg_errorHandler g2)
                        \<lparr>errors := errors (cg_errorHandler g2) @
                           [\<lparr>ee_level = ERROR,
                             ee_message = ''Binary operator not implemented: '' @ tk_lexeme op,
                             ee_filename = currentFilename (cg_errorHandler g2),
                             ee_line = tk_line op, ee_column = tk_column op\<rparr>],
                         hadError := True\<rparr>\<rparr>)"
proof -
  have "generateBinaryOp op leftVarId rightVarId g2 =
          (0, g2\<lparr>nextVarId := nextVarId g2 + 1,
                 cg_errorHandler := (cg_errorHandler g2)
                   \<lparr>errors := errors (cg_errorHandler g2) @
                      [\<lparr>ee_level = ERROR,
                        ee_message = ''Binary operator not implemented: '' @ tk_lexeme op,
                        ee_filename = currentFilename (cg_errorHandler g2),
                        ee_line = tk_line op, ee_column = tk_column op\<rparr>],
                    hadError := True\<rparr>\<rparr>)"
    using op
    by (auto simp: unimplementedBinaryOperators_def generateBinaryOp_def getNextVarId_def
          cg_error_def error_def addError_def)
  with l r show ?thesis by simp
qed

theorem generateBinary_unimplemented_operator_witness:
  "tk_type lessToken \<in> unimplementedBinaryOperators \<and>
   (\<exists>v1 g1 v2 g2.
      generateExpression noFloats (LiteralNode (integerToken ''1'' 1 1))
        (initialize (newCodeGenerator 0 newErrorHandler)) = Inr (v1, g1) \<and>
      generateExpression noFloats (LiteralNode (integerToken ''2'' 1 5)) g1 = Inr (v2, g2) \<and>
      generateExpression noFloats
        (BinaryNode (LiteralNode (integerToken ''1'' 1 1)) lessToken
           (LiteralNode (integerToken ''2'' 1 5)))
        (initialize (newCodeGenerator 0 newErrorHandler)) =
        Inr (0, g2\<lparr>nextVarId := nextVarId g2 + 1,
                   cg_errorHandler :=
                     \<lparr>errors = [\<lparr>ee_level = ERROR,
                                 ee_message = ''Binary operator not implemented: <'',
                                 ee_filename = [], ee_line = 1, ee_column = 3\<rparr>],
                      currentFilename = [], hadError = True\<rparr>\<rparr>))"
proof -
  have op: "tk_type lessToken \<in> unimplementedBinaryOperators"
    by (simp add: lessToken_def mkToken_def unimplementedBinaryOperators_def)
  obtain v1 g1 where l: "generateExpression noFloats (LiteralNode (integerToken ''1'' 1 1))
        (initialize (newCodeGenerator 0 newErrorHandler)) = Inr (v1, g1)"
    and e1: "cg_errorHandler g1 = newErrorHandler"
    by (simp add: cg_defs example_defs stoi_0 Let_def)
  obtain v2 g2 where r: "generateExpression noFloats (LiteralNode (integerToken ''2'' 1 5)) g1
        = Inr (v2, g2)"
    and e2: "cg_errorHandler g2 = cg_errorHandler g1"
    by (simp add: cg_defs example_defs stoi_0 Let_def)
  from generateBinary_unimplemented_operator [OF op l r] op l r e1 e2
  show ?thesis
    by (auto simp: lessToken_def mkToken_def newErrorHandler_def)
qed

text \<open>
  Claim C3 fails on the code: neither phase keeps track of the enclosing loop.  For the
  file \<open>t.c\<close> with the text \<open>int main(){break;return 0;}\<close> the lexer and the parser
  record nothing and give the tree \<open>breakOutsideLoopProgram\<close>, the driver exits with 0,
  and the only diagnostic is a warning.
\<close>

theorem break_outside_loop_counterexample:
  "frontEnd 20 ''t.c'' breakOutsideLoopSource =
     Some (Inr (Some breakOutsideLoopProgram, newErrorHandler)) \<and>
   compileSource 20 noFloats 0 ''t.c'' breakOutsideLoopSource = Some 0 \<and>
   sourceDiagnostics 20 noFloats 0 ''t.c'' breakOutsideLoopSource =
     Some [\<lparr>ee_level = WARNING, ee_message = ''Break statement not fully implemented'',
            ee_filename = [], ee_line = 0, ee_column = 0\<rparr>]"
proof -
  obtain a where a: "analyze (Some breakOutsideLoopProgram)
                       (newSemanticAnalyzer newErrorHandler) = Inr a"
    and ea: "sa_errorHandler a = newErrorHandler"
    by (simp add: breakOutsideLoopProgram_def sema_defs example_defs Let_def)
  obtain g where g: "generate noFloats (Some breakOutsideLoopProgram)
                       (newCodeGenerator 0 newErrorHandler) = Inr g"
    and eg: "cg_errorHandler g =
               \<lparr>errors = [\<lparr>ee_level = WARNING,
                           ee_message = ''Break statement not fully implemented'',
                           ee_filename = [], ee_line = 0, ee_column = 0\<rparr>],
                currentFilename = [], hadError = False\<rparr>"
    by (simp add: breakOutsideLoopProgram_def cg_defs example_defs stoi_0 Let_def)
  have c: "compileProgram noFloats 0 (Some breakOutsideLoopProgram) newErrorHandler = 0"
    by (simp add: compileProgram_def hasErrors_def a ea g eg) (simp add: newErrorHandler_def)
  have d: "compileDiagnostics noFloats 0 (Some breakOutsideLoopProgram) newErrorHandler =
     Some [\<lparr>ee_level = WARNING, ee_message = ''Break statement not fully implemented'',
            ee_filename = [], ee_line = 0, ee_column = 0\<rparr>]"
    by (simp add: compileDiagnostics_def hasErrors_def a ea g eg) (simp add: newErrorHandler_def)
  show ?thesis
    by (simp add: compileSource_def sourceDiagnostics_def frontEnd_breakOutsideLoop c d)
qed

text \<open>
  Claim C3 as amended.  A break or continue statement, inside a loop or not, makes the
  semantic analyzer record nothing, and makes the code generator record exactly one
  diagnostic, of severity warning (\<open>Break statement not fully implemented\<close>,
  \<open>Continue statement not fully implemented\<close>), without emitting an instruction and
  without setting the error flag.
\<close>

theorem break_continue_only_warn:
  "visitStatement BreakNode a = Inr a \<and>
   visitStatement ContinueNode a = Inr a \<and>
   generateStatement stof BreakNode g =
     Inr (g\<lparr>cg_errorHandler := (cg_errorHandler g)
            \<lparr>errors := errors (cg_errorHandler g) @
               [\<lparr>ee_level = WARNING, ee_message = ''Break statement not fully implemented'',
                 ee_filename = currentFilename (cg_errorHandler g),
                 ee_line = 0, ee_column = 0\<rparr>]\<rparr>\<rparr>) \<and>
   generateStatement stof ContinueNode g =
     Inr (g\<lparr>cg_errorHandler := (cg_errorHandler g)
            \<lparr>errors := errors (cg_errorHandler g) @
               [\<lparr>ee_level = WARNING, ee_message = ''Continue statement not fully implemented'',
                 ee_filename = currentFilename (cg_errorHandler g),
                 ee_line = 0, ee_column = 0\<rparr>]\<rparr>\<rparr>)"
  by (simp add: visitBreakStatement_def visitContinueStatement_def generateBreakStatement_def
        generateContinueStatement_def cg_warning_def warning_def addError_def)

text \<open>
  Claim C5.  The bindings of the generator are one flat map.  A local declaration of a
  name binds it to a fresh var id, whatever binding an enclosing scope had given it; when
  a block is left, every name declared in it is bound to nothing, whatever binding it had
  before the block.  For the file \<open>t.c\<close> with the text
  \<open>int main(){int x=1;{int x=2;}return x;}\<close> the lexer and the parser record nothing
  and give the tree \<open>shadowingProgram\<close>, the semantic analyzer records no diagnostic
  for it, and the code generator reports \<open>Undefined variable:\<close> with the lexeme of
  \<open>x\<close> at the use after the inner block, so that the driver exits with 1.
\<close>

theorem inner_declaration_overwrites_then_erased:
  "(generateVariableDeclaration stof tn name i g = Inr g1 \<longrightarrow>
      variables g1 (tk_lexeme name) =
        Some \<lparr>var_name = tk_lexeme name, varId = nextVarId g,
              var_type = fst (translateType tn g)\<rparr>) \<and>
   (generateStatement stof (BlockNode ss) g = Inr g' \<and>
    VariableDeclarationNode tn name i \<in> set ss \<longrightarrow>
      variables g' (tk_lexeme name) = None) \<and>
   frontEnd 20 ''t.c'' shadowingSource = Some (Inr (Some shadowingProgram, newErrorHandler)) \<and>
   (\<exists>a. analyze (Some shadowingProgram) (newSemanticAnalyzer newErrorHandler) = Inr a \<and>
        errors (sa_errorHandler a) = []) \<and>
   sourceDiagnostics 20 noFloats 0 ''t.c'' shadowingSource =
     Some [\<lparr>ee_level = ERROR, ee_message = ''Undefined variable:  x'',
            ee_filename = [], ee_line = 1, ee_column = 36\<rparr>] \<and>
   compileSource 20 noFloats 0 ''t.c'' shadowingSource = Some 1"
proof -
  obtain a where a: "analyze (Some shadowingProgram)
                       (newSemanticAnalyzer newErrorHandler) = Inr a"
    and ea: "sa_errorHandler a = newErrorHandler"
    by (simp add: shadowingProgram_def sema_defs example_defs Let_def)
  obtain gf where gf: "generate noFloats (Some shadowingProgram)
                       (newCodeGenerator 0 newErrorHandler) = Inr gf"
    and eg: "cg_errorHandler gf =
               \<lparr>errors = [\<lparr>ee_level = ERROR, ee_message = ''Undefined variable:  x'',
                           ee_filename = [], ee_line = 1, ee_column = 36\<rparr>],
                currentFilename = [], hadError = True\<rparr>"
    by (simp add: shadowingProgram_def cg_defs example_defs stoi_0 Let_def)
  have 1: "generateVariableDeclaration stof tn name i g = Inr g1 \<longrightarrow>
      variables g1 (tk_lexeme name) =
        Some \<lparr>var_name = tk_lexeme name, varId = nextVarId g,
              var_type = fst (translateType tn g)\<rparr>"
    using generateVariableDeclaration_grows by blast
  have 2: "generateStatement stof (BlockNode ss) g = Inr g' \<and>
    VariableDeclarationNode tn name i \<in> set ss \<longrightarrow>
      variables g' (tk_lexeme name) = None"
    using generateBlock_erases by blast
  note 3 = frontEnd_shadowing
  have 4: "\<exists>a. analyze (Some shadowingProgram) (newSemanticAnalyzer newErrorHandler) = Inr a \<and>
        errors (sa_errorHandler a) = []"
    using a ea by (simp add: newErrorHandler_def)
  have d: "compileDiagnostics noFloats 0 (Some shadowingProgram) newErrorHandler =
     Some [\<lparr>ee_level = ERROR, ee_message = ''Undefined variable:  x'',
            ee_filename = [], ee_line = 1, ee_column = 36\<rparr>]"
    by (simp add: compileDiagnostics_def hasErrors_def a ea gf eg)
       (simp add: newErrorHandler_def)
  have c: "compileProgram noFloats 0 (Some shadowingProgram) newErrorHandler = 1"
    by (simp add: compileProgram_def hasErrors_def a ea gf eg)
  have 5: "sourceDiagnostics 20 noFloats 0 ''t.c'' shadowingSource =
     Some [\<lparr>ee_level = ERROR, ee_message = ''Undefined variable:  x'',
            ee_filename = [], ee_line = 1, ee_column = 36\<rparr>]"
    by (simp add: sourceDiagnostics_def 3 d)
  have 6: "compileSource 20 noFloats 0 ''t.c'' shadowingSource = Some 1"
    by (simp add: compileSource_def 3 c)
  from 1 2 3 4 5 6 show ?thesis by blast
qed

theorem inner_declaration_overwrites_then_erased_witness:
  "\<exists>g1 g2 g3.
     generateVariableDeclaration noFloats (intTypeAt 12) (identifierToken '' x'' 1 15)
       (LiteralNode (integerToken ''1'' 1 18))
       (cg_enterScope (initialize (newCodeGenerator 0 newErrorHandler))) = Inr g1 \<and>
     variables g1 '' x'' = Some \<lparr>var_name = '' x'', varId = 1, var_type = T_INT32\<rparr> \<and>
     generateVariableDeclaration noFloats (intTypeAt 21) (identifierToken '' x'' 1 24)
       (LiteralNode (integerToken ''2'' 1 27)) (cg_enterScope (emitScopeEnter g1)) = Inr g2 \<and>
     variables g2 '' x'' = Some \<lparr>var_name = '' x'', varId = 3, var_type = T_INT32\<rparr> \<and>
     generateStatement noFloats
       (BlockNode [VariableDeclarationNode (intTypeAt 21) (identifierToken '' x'' 1 24)
                     (LiteralNode (integerToken ''2'' 1 27))]) g1 = Inr g3 \<and>
     variables g3 '' x'' = None"
proof -
  obtain g1 where 1: "generateVariableDeclaration noFloats (intTypeAt 12) (identifierToken '' x'' 1 15)
       (LiteralNode (integerToken ''1'' 1 18))
       (cg_enterScope (initialize (newCodeGenerator 0 newErrorHandler))) = Inr g1"
    and n1: "nextVarId g1 = 3"
    by (simp add: cg_defs example_defs stoi_0 Let_def)
  obtain g2 where 2: "generateVariableDeclaration noFloats (intTypeAt 21) (identifierToken '' x'' 1 24)
       (LiteralNode (integerToken ''2'' 1 27)) (cg_enterScope (emitScopeEnter g1)) = Inr g2"
    by (simp add: cg_defs example_defs stoi_0 Let_def)
  obtain g3 where 3: "generateStatement noFloats
       (BlockNode [VariableDeclarationNode (intTypeAt 21) (identifierToken '' x'' 1 24)
                     (LiteralNode (integerToken ''2'' 1 27))]) g1 = Inr g3"
    using 2 by simp
  have t: "fst (translateType (intTypeAt co) g) = T_INT32" for co g
    by (simp add: translateType_def intTypeAt_def mkToken_def)
  have x: "tk_lexeme (identifierToken '' x'' li co) = '' x''" for li co
    by (simp add: identifierToken_def mkToken_def)
  have n0: "nextVarId (cg_enterScope (initialize (newCodeGenerator 0 newErrorHandler))) = 1"
    by (simp add: cg_defs example_defs Let_def)
  have n2: "nextVarId (cg_enterScope (emitScopeEnter g1)) = 3"
    using n1 by (simp add: cg_enterScope_def emitScopeEnter_def emitInstruction_def)
  from inner_declaration_overwrites_then_erased
         [of noFloats "intTypeAt 12" "identifierToken '' x'' 1 15" "LiteralNode (integerToken ''1'' 1 18)"
             "cg_enterScope (initialize (newCodeGenerator 0 newErrorHandler))" g1] 1
  have v1: "variables g1 '' x'' = Some \<lparr>var_name = '' x'', varId = 1, var_type = T_INT32\<rparr>"
    by (simp add: t x n0)
  from inner_declaration_overwrites_then_erased
         [of noFloats "intTypeAt 21" "identifierToken '' x'' 1 24" "LiteralNode (integerToken ''2'' 1 27)"
             "cg_enterScope (emitScopeEnter g1)" g2] 2
  have v2: "variables g2 '' x'' = Some \<lparr>var_name = '' x'', varId = 3, var_type = T_INT32\<rparr>"
    by (simp add: t x n2)
  from inner_declaration_overwrites_then_erased
         [of noFloats "intTypeAt 21" "identifierToken '' x'' 1 24"
             "LiteralNode (integerToken ''2'' 1 27)" g1 _
             "[VariableDeclarationNode (intTypeAt 21) (identifierToken '' x'' 1 24)
                 (LiteralNode (integerToken ''2'' 1 27))]" g3] 3
  have v3: "variables g3 '' x'' = None"
    by (simp add: x del: generateStatement.simps)
  from 1 2 3 v1 v2 v3 show ?thesis by blast
qed

end
